theory Spec2Isabelle
  imports Complex_Main "HOL-Library.Word"
begin

section \<open>Strings of the route handler\<close>

text \<open>
  The handler \<^verbatim>\<open>src/app/api/analyze/route.ts\<close> works on JavaScript strings, which are
  sequences of 16-bit code units: \<^verbatim>\<open>length\<close>, \<^verbatim>\<open>slice\<close>, \<^verbatim>\<open>indexOf\<close> and zod's
  \<^verbatim>\<open>min\<close> all count code units. A string is therefore a list of 16-bit words, and a
  literal of the source (all of them ASCII) is written \<open>str ''...''\<close>.
\<close>

type_synonym code_unit = "16 word"
type_synonym jsstring = "code_unit list"

definition str :: "string \<Rightarrow> jsstring" where
  "str s = map of_char s"

text \<open>
  The set matched by \<^verbatim>\<open>\s\<close> in a regular expression and removed by \<^verbatim>\<open>trim()\<close>:
  ECMAScript's WhiteSpace and LineTerminator code points, all of them single code units.
\<close>

definition isWhiteSpace :: "code_unit \<Rightarrow> bool" where
  "isWhiteSpace c \<longleftrightarrow> c \<in> set [0x09, 0x0A, 0x0B, 0x0C, 0x0D, 0x20, 0xA0, 0x1680,
      0x2000, 0x2001, 0x2002, 0x2003, 0x2004, 0x2005, 0x2006, 0x2007, 0x2008, 0x2009, 0x200A,
      0x2028, 0x2029, 0x202F, 0x205F, 0x3000, 0xFEFF]"

definition trim :: "jsstring \<Rightarrow> jsstring" where
  "trim s = rev (dropWhile isWhiteSpace (rev (dropWhile isWhiteSpace s)))"

text \<open>\<^verbatim>\<open>s.replace(/\s+/g, " ")\<close>: every maximal run of white space becomes one space.\<close>

function replace_ws_runs :: "jsstring \<Rightarrow> jsstring" where
  "replace_ws_runs [] = []"
| "replace_ws_runs (c # cs) =
     (if isWhiteSpace c then 0x20 # replace_ws_runs (dropWhile isWhiteSpace cs)
      else c # replace_ws_runs cs)"
  by pat_completeness auto
termination
  by (relation "measure length") (auto simp: less_Suc_eq_le length_dropWhile_le)

text \<open>\<^verbatim>\<open>s.split(sep)\<close> for a separator of one code unit; the result is never empty.\<close>

fun js_split :: "code_unit \<Rightarrow> jsstring \<Rightarrow> jsstring list" where
  "js_split sep [] = [[]]"
| "js_split sep (c # cs) =
     (if c = sep then [] # js_split sep cs
      else (case js_split sep cs of
              [] \<Rightarrow> [[c]]
            | piece # pieces \<Rightarrow> (c # piece) # pieces))"

text \<open>\<^verbatim>\<open>parts.join(sep)\<close>.\<close>

fun join :: "jsstring \<Rightarrow> jsstring list \<Rightarrow> jsstring" where
  "join sep [] = []"
| "join sep [p] = p"
| "join sep (p # q # ps) = p @ sep @ join sep (q # ps)"

definition startsWith :: "jsstring \<Rightarrow> jsstring \<Rightarrow> bool" where
  "startsWith s p \<longleftrightarrow> take (length p) s = p"

text \<open>\<^verbatim>\<open>s.includes(sub)\<close>: \<open>sub\<close> occurs somewhere in \<open>s\<close>.\<close>

fun js_includes :: "jsstring \<Rightarrow> jsstring \<Rightarrow> bool" where
  "js_includes [] sub \<longleftrightarrow> sub = []"
| "js_includes (c # cs) sub \<longleftrightarrow> startsWith (c # cs) sub \<or> js_includes cs sub"

text \<open>\<^verbatim>\<open>s.indexOf(c)\<close> and \<^verbatim>\<open>s.lastIndexOf(c)\<close> for one code unit; \<open>-1\<close> when absent.\<close>

fun indexOf :: "jsstring \<Rightarrow> code_unit \<Rightarrow> int" where
  "indexOf [] c = -1"
| "indexOf (x # xs) c =
     (if x = c then 0
      else (let i = indexOf xs c in if i = -1 then -1 else i + 1))"

fun lastIndexOf :: "jsstring \<Rightarrow> code_unit \<Rightarrow> int" where
  "lastIndexOf [] c = -1"
| "lastIndexOf (x # xs) c =
     (let i = lastIndexOf xs c in
      if i = -1 then (if x = c then 0 else -1) else i + 1)"

text \<open>
  \<^verbatim>\<open>s.slice(b, e)\<close> with JavaScript's treatment of its bounds: a negative bound counts
  from the end, and both are clamped to the string.
\<close>

definition slice :: "jsstring \<Rightarrow> int \<Rightarrow> int \<Rightarrow> jsstring" where
  "slice s b e =
     (let n = int (length s);
          from = (if b < 0 then max (n + b) 0 else min b n);
          to = (if e < 0 then max (n + e) 0 else min e n)
      in take (nat (to - from)) (drop (nat from) s))"

definition slice_from :: "jsstring \<Rightarrow> int \<Rightarrow> jsstring" where
  "slice_from s b = slice s b (int (length s))"

text \<open>\<^verbatim>\<open>xs[i]\<close> is \<^verbatim>\<open>undefined\<close> out of range.\<close>

definition at_index :: "'a list \<Rightarrow> nat \<Rightarrow> 'a option" where
  "at_index xs i = (if i < length xs then Some (xs ! i) else None)"

text \<open>\<^verbatim>\<open>Boolean(s)\<close> for a value that is a string or \<^verbatim>\<open>undefined\<close>.\<close>

definition truthy :: "jsstring option \<Rightarrow> bool" where
  "truthy v \<longleftrightarrow> (case v of None \<Rightarrow> False | Some s \<Rightarrow> s \<noteq> [])"


section \<open>JSON values and the request schema\<close>

text \<open>
  A parsed JSON value. An object is the list of its members, one entry per name. A JSON
  number is a finite double, hence a rational; the schema only asks whether it is an integer
  between two bounds (a literal that overflows to \<^verbatim>\<open>Infinity\<close> is refused by the schema like
  any other non-integer, and is not represented).
\<close>

datatype json =
    JNull
  | JBool bool
  | JNum rat
  | JStr jsstring
  | JArr "json list"
  | JObj "(jsstring \<times> json) list"

text \<open>What a \<^verbatim>\<open>throw\<close> carries: an \<^verbatim>\<open>Error\<close> with its message, or any other value.\<close>

datatype thrown = Error jsstring | NonError

record request_data =
  channelUrl :: jsstring
  topic :: jsstring
  youtubeApiKey :: jsstring
  openAiKey :: jsstring
  videoCount :: int

text \<open>\<^verbatim>\<open>z.string().min(n)\<close> on a property that may be missing.\<close>

definition z_string_min :: "nat \<Rightarrow> json option \<Rightarrow> jsstring option" where
  "z_string_min n v =
     (case v of
        Some (JStr s) \<Rightarrow> if n \<le> length s then Some s else None
      | _ \<Rightarrow> None)"

text \<open>\<^verbatim>\<open>z.number().int().min(lo).max(hi)\<close> on a property that may be missing.\<close>

definition z_int_range :: "int \<Rightarrow> int \<Rightarrow> json option \<Rightarrow> int option" where
  "z_int_range lo hi v =
     (case v of
        Some (JNum r) \<Rightarrow>
          if of_int \<lfloor>r\<rfloor> = r \<and> of_int lo \<le> r \<and> r \<le> of_int hi then Some \<lfloor>r\<rfloor> else None
      | _ \<Rightarrow> None)"

text \<open>\<^verbatim>\<open>requestSchema.safeParse(body)\<close>; \<open>None\<close> is \<^verbatim>\<open>success: false\<close>.\<close>

definition requestSchema :: "json \<Rightarrow> request_data option" where
  "requestSchema body =
     (case body of
        JObj props \<Rightarrow>
          Option.bind (z_string_min 1 (map_of props (str ''channelUrl''))) (\<lambda>u.
          Option.bind (z_string_min 4 (map_of props (str ''topic''))) (\<lambda>t.
          Option.bind (z_string_min 10 (map_of props (str ''youtubeApiKey''))) (\<lambda>y.
          Option.bind (z_string_min 10 (map_of props (str ''openAiKey''))) (\<lambda>k.
          Option.bind (z_int_range 1 8 (map_of props (str ''videoCount''))) (\<lambda>n.
            Some \<lparr>channelUrl = u, topic = t, youtubeApiKey = y, openAiKey = k,
                   videoCount = n\<rparr>)))))
      | _ \<Rightarrow> None)"


section \<open>Identifier Extractor\<close>

datatype ChannelIdentifier = Id jsstring | Handle jsstring | Custom jsstring

text \<open>
  \<^verbatim>\<open>parsed.pathname.split("/").map((segment) => segment.trim()).filter(Boolean)\<close>
\<close>

definition path_segments :: "jsstring \<Rightarrow> jsstring list" where
  "path_segments pathname = filter (\<lambda>s. s \<noteq> []) (map trim (js_split 0x2F pathname))"

text \<open>
  \<^verbatim>\<open>extractChannelIdentifier\<close>. The URL parser is the platform's: \<open>url_pathname url\<close> is
  the \<^verbatim>\<open>pathname\<close> of \<^verbatim>\<open>new URL(url)\<close>, and \<open>None\<close> where the constructor throws. The
  result \<open>None\<close> is the source's \<^verbatim>\<open>null\<close>.
\<close>

definition extractChannelIdentifier ::
  "(jsstring \<Rightarrow> jsstring option) \<Rightarrow> jsstring \<Rightarrow> ChannelIdentifier option" where
  "extractChannelIdentifier url_pathname url =
     (case url_pathname url of
        None \<Rightarrow> None
      | Some pathname \<Rightarrow>
          (let segments = path_segments pathname in
           if length segments = 0 then None
           else if segments ! 0 = str ''@'' then Some (Handle (segments ! 0))
           else if startsWith (segments ! 0) (str ''@'') then Some (Handle (segments ! 0))
           else if segments ! 0 = str ''channel'' \<and> truthy (at_index segments 1)
             then Some (Id (segments ! 1))
           else if (segments ! 0 = str ''c'' \<or> segments ! 0 = str ''user'')
                   \<and> truthy (at_index segments 1)
             then Some (Custom (segments ! 1))
           else if startsWith pathname (str ''/@'') then Some (Handle (slice_from pathname 1))
           else None))"


section \<open>The video platform's data API\<close>

text \<open>
  The handler reaches the data API through \<^verbatim>\<open>fetch\<close> on four kinds of URL. A call is
  recorded by its endpoint and the values interpolated into the URL (the key last).
  \<^verbatim>\<open>encodeURIComponent\<close> is left out: the handler applies it to segments of a parsed URL's
  path, which are ASCII, where it never throws.
\<close>

datatype api_call =
    ChannelsById jsstring jsstring
  | ChannelsForUsername jsstring jsstring
  | SearchChannels jsstring jsstring
  | SearchVideos jsstring int jsstring

text \<open>
  What \<^verbatim>\<open>await fetch(url)\<close> gives: the call itself throws, or there is a response with
  its \<^verbatim>\<open>ok\<close> flag and the outcome of \<^verbatim>\<open>await res.json()\<close>. A body is taken at the
  type the source casts it to, every optional member an \<open>option\<close>.
\<close>

datatype 'a fetched = FetchThrows thrown | Response bool "thrown + 'a"

record search_item_id =
  id_channelId :: "jsstring option"

record search_item =
  si_id :: "search_item_id option"

record search_json =
  sj_items :: "search_item list option"

record username_item =
  ui_id :: "jsstring option"

record username_json =
  uj_items :: "username_item list option"

record channel_snippet =
  cs_title :: "jsstring option"

record channel_item =
  ci_snippet :: "channel_snippet option"

record channel_json =
  cj_items :: "channel_item list option"

record video_item_id =
  vid_videoId :: "jsstring option"

record video_snippet =
  vs_title :: "jsstring option"
  vs_publishedAt :: "jsstring option"

record video_item =
  vi_id :: "video_item_id option"
  vi_snippet :: "video_snippet option"

record api_error =
  err_message :: "jsstring option"

record video_json =
  vj_items :: "video_item list option"
  vj_error :: "api_error option"

record youtube_api =
  channels_by_id :: "jsstring \<Rightarrow> jsstring \<Rightarrow> channel_json fetched"
  channels_for_username :: "jsstring \<Rightarrow> jsstring \<Rightarrow> username_json fetched"
  search_channels :: "jsstring \<Rightarrow> jsstring \<Rightarrow> search_json fetched"
  search_videos :: "jsstring \<Rightarrow> int \<Rightarrow> jsstring \<Rightarrow> video_json fetched"

text \<open>
  An asynchronous step of the handler: the calls it issued, in order, and either the value
  thrown or the value returned.
\<close>

type_synonym 'a io = "api_call list \<times> (thrown + 'a)"

definition return_io :: "'a \<Rightarrow> 'a io" where
  "return_io x = ([], Inr x)"

definition throw_io :: "thrown \<Rightarrow> 'a io" where
  "throw_io e = ([], Inl e)"

definition bind_io :: "'a io \<Rightarrow> ('a \<Rightarrow> 'b io) \<Rightarrow> 'b io" where
  "bind_io m f =
     (case m of
        (calls, Inl e) \<Rightarrow> (calls, Inl e)
      | (calls, Inr x) \<Rightarrow> (case f x of (calls', r) \<Rightarrow> (calls @ calls', r)))"

text \<open>
  The pattern the source repeats at each call:
  \<^verbatim>\<open>const res = await fetch(url); if (!res.ok) throw new Error(msg); await res.json()\<close>
\<close>

definition fetch_json :: "api_call \<Rightarrow> 'a fetched \<Rightarrow> jsstring \<Rightarrow> 'a io" where
  "fetch_json call result msg =
     (case result of
        FetchThrows e \<Rightarrow> ([call], Inl e)
      | Response ok body \<Rightarrow>
          if \<not> ok then ([call], Inl (Error msg)) else ([call], body))"


section \<open>Channel Resolver\<close>

text \<open>\<^verbatim>\<open>searchJson.items?.[0]?.id?.channelId ?? null\<close>\<close>

definition first_search_channelId :: "search_json \<Rightarrow> jsstring option" where
  "first_search_channelId searchJson =
     (case sj_items searchJson of
        None \<Rightarrow> None
      | Some items \<Rightarrow>
          (case at_index items 0 of
             None \<Rightarrow> None
           | Some item \<Rightarrow>
               (case si_id item of None \<Rightarrow> None | Some i \<Rightarrow> id_channelId i)))"

text \<open>\<^verbatim>\<open>usernameJson.items[0]?.id ?? null\<close>\<close>

definition first_username_id :: "username_item list \<Rightarrow> jsstring option" where
  "first_username_id items =
     (case at_index items 0 of None \<Rightarrow> None | Some item \<Rightarrow> ui_id item)"

fun identifyChannelId ::
  "youtube_api \<Rightarrow> ChannelIdentifier option \<Rightarrow> jsstring \<Rightarrow> jsstring option io" where
  "identifyChannelId api None apiKey = return_io None"
| "identifyChannelId api (Some (Id v)) apiKey = return_io (Some v)"
| "identifyChannelId api (Some (Handle v)) apiKey =
     (let query = (if startsWith v (str ''@'') then slice_from v 1 else v) in
      bind_io
        (fetch_json (SearchChannels query apiKey) (search_channels api query apiKey)
           (str ''Unable to resolve channel handle.''))
        (\<lambda>searchJson. return_io (first_search_channelId searchJson)))"
| "identifyChannelId api (Some (Custom v)) apiKey =
     bind_io
       (fetch_json (ChannelsForUsername v apiKey) (channels_for_username api v apiKey)
          (str ''Unable to resolve custom channel URL.''))
       (\<lambda>usernameJson.
          let fallback =
                bind_io
                  (fetch_json (SearchChannels v apiKey) (search_channels api v apiKey)
                     (str ''Unable to resolve custom channel URL.''))
                  (\<lambda>searchJson. return_io (first_search_channelId searchJson))
          in (case uj_items usernameJson of
                None \<Rightarrow> fallback
              | Some items \<Rightarrow>
                  if length items > 0 then return_io (first_username_id items)
                  else fallback))"

record VideoRef =
  videoId :: jsstring
  title :: jsstring
  publishedAt :: jsstring

record ResolvedChannel =
  channelId :: jsstring
  channelTitle :: jsstring
  videos :: "VideoRef list"

text \<open>\<^verbatim>\<open>channelJson.items?.[0]?.snippet?.title ?? "Channel"\<close>\<close>

definition channel_title_of :: "channel_json \<Rightarrow> jsstring" where
  "channel_title_of channelJson =
     (case cj_items channelJson of
        None \<Rightarrow> str ''Channel''
      | Some items \<Rightarrow>
          (case at_index items 0 of
             None \<Rightarrow> str ''Channel''
           | Some item \<Rightarrow>
               (case ci_snippet item of
                  None \<Rightarrow> str ''Channel''
                | Some sn \<Rightarrow> (case cs_title sn of None \<Rightarrow> str ''Channel'' | Some t \<Rightarrow> t))))"

text \<open>
  One item of the video search through the \<^verbatim>\<open>map\<close> and the \<^verbatim>\<open>filter\<close> of the source:
  the mapped entry is kept when \<^verbatim>\<open>Boolean(item.videoId)\<close>, that is when the id is
  present and not empty.
\<close>

definition video_of_item :: "video_item \<Rightarrow> VideoRef option" where
  "video_of_item item =
     (let vid = (case vi_id item of None \<Rightarrow> None | Some i \<Rightarrow> vid_videoId i);
          t = (case vi_snippet item of
                 None \<Rightarrow> str ''Untitled video''
               | Some sn \<Rightarrow> (case vs_title sn of None \<Rightarrow> str ''Untitled video'' | Some x \<Rightarrow> x));
          p = (case vi_snippet item of
                 None \<Rightarrow> []
               | Some sn \<Rightarrow> (case vs_publishedAt sn of None \<Rightarrow> [] | Some x \<Rightarrow> x))
      in (case vid of
            None \<Rightarrow> None
          | Some v \<Rightarrow> if v \<noteq> [] then Some \<lparr>videoId = v, title = t, publishedAt = p\<rparr> else None))"

definition videos_of :: "video_json \<Rightarrow> VideoRef list" where
  "videos_of videoJson =
     (case vj_items videoJson of
        None \<Rightarrow> []
      | Some items \<Rightarrow> List.map_filter video_of_item items)"

definition resolveChannelDetails ::
  "youtube_api \<Rightarrow> ChannelIdentifier option \<Rightarrow> jsstring \<Rightarrow> int \<Rightarrow> ResolvedChannel option io" where
  "resolveChannelDetails api identifier apiKey count =
     bind_io (identifyChannelId api identifier apiKey) (\<lambda>found.
       case found of
         None \<Rightarrow> return_io None
       | Some cid \<Rightarrow>
           if cid = [] then return_io None
           else
             bind_io
               (fetch_json (ChannelsById cid apiKey) (channels_by_id api cid apiKey)
                  (str ''Failed to fetch channel metadata.''))
               (\<lambda>channelJson.
                  bind_io
                    (fetch_json (SearchVideos cid (min count 8) apiKey)
                       (search_videos api cid (min count 8) apiKey)
                       (str ''Failed to fetch recent videos. Check your API key quota.''))
                    (\<lambda>videoJson.
                       case (case vj_error videoJson of
                               None \<Rightarrow> None | Some e \<Rightarrow> err_message e) of
                         Some m \<Rightarrow>
                           if m \<noteq> [] then throw_io (Error m)
                           else return_io (Some \<lparr>channelId = cid,
                                  channelTitle = channel_title_of channelJson,
                                  videos = videos_of videoJson\<rparr>)
                       | None \<Rightarrow>
                           return_io (Some \<lparr>channelId = cid,
                             channelTitle = channel_title_of channelJson,
                             videos = videos_of videoJson\<rparr>))))"


section \<open>Transcript Aggregator\<close>

record segment =
  seg_text :: jsstring

text \<open>
  What \<^verbatim>\<open>await YoutubeTranscript.fetchTranscript(video.videoId, { lang: "en" })\<close>
  gives: it rejects, or it resolves to a segment list or to nothing. Within one request the
  outcome is a function of the video id.
\<close>

datatype transcript_result = Rejected thrown | Resolved "segment list option"

record TranscriptSample =
  sample_videoId :: jsstring
  sample_title :: jsstring
  transcriptForModel :: jsstring
  snippetExcerpt :: jsstring

text \<open>
  \<^verbatim>\<open>transcript.map((segment) => segment.text).join(" ").replace(/\s+/g, " ").trim()\<close>
\<close>

definition combined_text :: "segment list \<Rightarrow> jsstring" where
  "combined_text transcript = trim (replace_ws_runs (join (str '' '') (map seg_text transcript)))"

text \<open>The \<^verbatim>\<open>try\<close> block of the per-video callback.\<close>

definition try_transcript ::
  "(jsstring \<Rightarrow> transcript_result) \<Rightarrow> VideoRef \<Rightarrow> thrown + TranscriptSample option" where
  "try_transcript fetchTranscript video =
     (case fetchTranscript (videoId video) of
        Rejected e \<Rightarrow> Inl e
      | Resolved None \<Rightarrow> Inr None
      | Resolved (Some transcript) \<Rightarrow>
          if length transcript = 0 then Inr None
          else
            (let combined = combined_text transcript in
             if combined = [] then Inr None
             else Inr (Some \<lparr>sample_videoId = videoId video, sample_title = title video,
                    transcriptForModel = slice combined 0 3000,
                    snippetExcerpt = slice combined 0 320\<rparr>)))"

text \<open>The callback with its \<^verbatim>\<open>catch { return null; }\<close>.\<close>

definition video_chunk ::
  "(jsstring \<Rightarrow> transcript_result) \<Rightarrow> VideoRef \<Rightarrow> thrown + TranscriptSample option" where
  "video_chunk fetchTranscript video =
     (case try_transcript fetchTranscript video of
        Inl e \<Rightarrow> Inr None
      | Inr chunk \<Rightarrow> Inr chunk)"

text \<open>
  \<^verbatim>\<open>Promise.all\<close>: the results in the order of the input, or a rejection when one of the
  promises rejects.
\<close>

fun promise_all :: "(thrown + 'a) list \<Rightarrow> thrown + 'a list" where
  "promise_all [] = Inr []"
| "promise_all (Inl e # ps) = Inl e"
| "promise_all (Inr x # ps) = (case promise_all ps of Inl e \<Rightarrow> Inl e | Inr xs \<Rightarrow> Inr (x # xs))"

definition fetchTranscripts ::
  "(jsstring \<Rightarrow> transcript_result) \<Rightarrow> VideoRef list \<Rightarrow> thrown + TranscriptSample list" where
  "fetchTranscripts fetchTranscript vs =
     (case promise_all (map (video_chunk fetchTranscript) vs) of
        Inl e \<Rightarrow> Inl e
      | Inr chunks \<Rightarrow> Inr (List.map_filter (\<lambda>entry. entry) chunks))"


section \<open>Style Extractor, Script Synthesizer and the endpoint\<close>

text \<open>
  \<^verbatim>\<open>parseJsonObject\<close>; \<open>json_parse\<close> is the platform's \<^verbatim>\<open>JSON.parse\<close>, \<open>None\<close> where it
  throws.
\<close>

definition parseJsonObject :: "(jsstring \<Rightarrow> json option) \<Rightarrow> jsstring \<Rightarrow> thrown + json" where
  "parseJsonObject json_parse txt =
     (let start = indexOf txt 0x7B;
          stop = lastIndexOf txt 0x7D
      in if start = -1 \<or> stop = -1 \<or> stop \<le> start
         then Inl (Error (str ''Model response missing JSON object.''))
         else (case json_parse (slice txt start (stop + 1)) of
                 None \<Rightarrow> Inl (Error (str ''Model response was not valid JSON.''))
               | Some v \<Rightarrow> Inr v))"

text \<open>
  Reading one of the six properties the handler reads from the parsed value: the member of
  an object, \<^verbatim>\<open>undefined\<close> (\<open>None\<close>) where there is none (a string, a number, a boolean
  and an array have none of the six), and a \<^verbatim>\<open>TypeError\<close> on \<^verbatim>\<open>null\<close>, whose message is
  the engine's and is shortened here.
\<close>

definition member_of :: "json \<Rightarrow> jsstring \<Rightarrow> json option" where
  "member_of v k = (case v of JObj props \<Rightarrow> map_of props k | _ \<Rightarrow> None)"

definition get_member :: "json \<Rightarrow> jsstring \<Rightarrow> thrown + json option" where
  "get_member v k =
     (if v = JNull then Inl (Error (str ''Cannot read properties of null''))
      else Inr (member_of v k))"

record style_summary =
  voiceTone :: "json option"
  narrativeStructure :: "json option"
  recurringDevices :: "json option"
  pacing :: "json option"
  audienceEngagement :: "json option"

record sampled_transcript =
  out_videoId :: jsstring
  out_title :: jsstring
  excerpt :: jsstring

record analysis =
  out_channelTitle :: jsstring
  styleSummary :: style_summary
  writingGuidelines :: "json list"
  generatedScript :: jsstring
  sampledTranscripts :: "sampled_transcript list"

datatype response_body = ErrorBody jsstring | AnalysisBody analysis

record response =
  status :: nat
  resp_body :: response_body

text \<open>
  The two requests to the generative model. The fixed wording of the prompts is left out:
  a request is the values the source interpolates into it.
\<close>

datatype prompt =
    StylePrompt jsstring "TranscriptSample list"
  | ScriptPrompt jsstring jsstring style_summary "json list"

record env =
  url_pathname :: "jsstring \<Rightarrow> jsstring option"
  youtube :: youtube_api
  fetchTranscript :: "jsstring \<Rightarrow> transcript_result"
  openai_create :: "jsstring \<Rightarrow> prompt \<Rightarrow> thrown + jsstring option"
  json_parse :: "jsstring \<Rightarrow> json option"

text \<open>
  The five descriptors as the handler reads them from the parsed object, for the second
  prompt and for the response: each is whatever the object holds under that name, and
  \<^verbatim>\<open>undefined\<close> (\<open>None\<close>) when it holds nothing.
\<close>

definition style_fields :: "json \<Rightarrow> style_summary" where
  "style_fields parsedStyle =
     \<lparr>voiceTone = member_of parsedStyle (str ''voiceTone''),
      narrativeStructure = member_of parsedStyle (str ''narrativeStructure''),
      recurringDevices = member_of parsedStyle (str ''recurringDevices''),
      pacing = member_of parsedStyle (str ''pacing''),
      audienceEngagement = member_of parsedStyle (str ''audienceEngagement'')\<rparr>"

definition bind_outcome :: "thrown + 'a \<Rightarrow> ('a \<Rightarrow> thrown + 'b) \<Rightarrow> thrown + 'b" where
  "bind_outcome m f = (case m of Inl e \<Rightarrow> Inl e | Inr x \<Rightarrow> f x)"

definition error_response :: "nat \<Rightarrow> jsstring \<Rightarrow> response" where
  "error_response code msg = \<lparr>status = code, resp_body = ErrorBody msg\<rparr>"

text \<open>
  Lines 81 to 164 of the handler: from the transcript samples to the 200 response, or the
  value thrown on the way.
\<close>

definition synthesize ::
  "env \<Rightarrow> request_data \<Rightarrow> jsstring \<Rightarrow> TranscriptSample list \<Rightarrow> thrown + response" where
  "synthesize e req chTitle transcripts =
     bind_outcome (openai_create e (openAiKey req) (StylePrompt chTitle transcripts))
       (\<lambda>stylePayloadText.
     if \<not> truthy stylePayloadText then Inl (Error (str ''Failed to read analysis output.''))
     else
     bind_outcome (parseJsonObject (json_parse e) (case_option [] (\<lambda>t. t) stylePayloadText))
       (\<lambda>parsedStyle.
     bind_outcome (get_member parsedStyle (str ''writingGuidelines''))
       (\<lambda>guidelines.
     case guidelines of
       Some (JArr entries) \<Rightarrow>
         (let guidelineList = take 6 entries;
              style = style_fields parsedStyle
          in bind_outcome
               (openai_create e (openAiKey req)
                  (ScriptPrompt chTitle (topic req) style guidelineList))
               (\<lambda>output_text.
                  let scriptText = map_option trim output_text in
                  if \<not> truthy scriptText then Inl (Error (str ''Script generation failed.''))
                  else Inr \<lparr>status = 200,
                         resp_body = AnalysisBody
                           \<lparr>out_channelTitle = chTitle,
                            styleSummary = style,
                            writingGuidelines = guidelineList,
                            generatedScript = case_option [] (\<lambda>t. t) scriptText,
                            sampledTranscripts =
                              map (\<lambda>entry. \<lparr>out_videoId = sample_videoId entry,
                                             out_title = sample_title entry,
                                             excerpt = snippetExcerpt entry\<rparr>)
                                transcripts\<rparr>\<rparr>))
     | _ \<Rightarrow> Inl (Error (str ''Style payload missing writing guidelines.'')))))"

text \<open>The \<^verbatim>\<open>try\<close> block of \<^verbatim>\<open>POST\<close>.\<close>

definition pipeline :: "env \<Rightarrow> request_data \<Rightarrow> ChannelIdentifier \<Rightarrow> response io" where
  "pipeline e req identifier =
     bind_io
       (resolveChannelDetails (youtube e) (Some identifier) (youtubeApiKey req) (videoCount req))
       (\<lambda>channelMeta.
          case channelMeta of
            None \<Rightarrow> return_io (error_response 404 (str ''Unable to find the provided channel.''))
          | Some meta \<Rightarrow>
              ([], bind_outcome (fetchTranscripts (fetchTranscript e) (videos meta))
                     (\<lambda>transcripts.
                        if length transcripts = 0
                        then Inr (error_response 422
                               (str ''Transcripts are unavailable for the recent uploads. Try a different channel.''))
                        else synthesize e req (channelTitle meta) transcripts)))"

text \<open>The \<^verbatim>\<open>catch\<close> block of \<^verbatim>\<open>POST\<close>.\<close>

definition error_message :: "thrown \<Rightarrow> jsstring" where
  "error_message err = (case err of Error m \<Rightarrow> m | NonError \<Rightarrow> str ''Unexpected server error.'')"

definition catch_response :: "thrown \<Rightarrow> response" where
  "catch_response err =
     (let message = error_message err;
          code = (if js_includes message (str ''quota'') then 429
                  else if js_includes message (str ''API key'') then 401
                  else (500::nat))
      in \<lparr>status = code,
          resp_body = ErrorBody (if code = 500 then str ''Failed to build script style.''
                                 else message)\<rparr>)"

text \<open>
  \<^verbatim>\<open>POST\<close>. The argument is the outcome of \<^verbatim>\<open>await request.json()\<close>, \<open>None\<close> where it
  throws; the result is the calls issued to the data API and the response.
\<close>

definition POST :: "env \<Rightarrow> json option \<Rightarrow> api_call list \<times> response" where
  "POST e request_json =
     (case request_json of
        None \<Rightarrow> ([], error_response 400 (str ''Invalid JSON payload.''))
      | Some body \<Rightarrow>
          (case requestSchema body of
             None \<Rightarrow> ([], error_response 400 (str ''Please fill in every field with valid values.''))
           | Some req \<Rightarrow>
               (case extractChannelIdentifier (url_pathname e) (channelUrl req) of
                  None \<Rightarrow>
                    ([], error_response 400
                           (str ''Unsupported YouTube channel link. Try a different URL.''))
                | Some identifier \<Rightarrow>
                    (case pipeline e req identifier of
                       (calls, Inr res) \<Rightarrow> (calls, res)
                     | (calls, Inl err) \<Rightarrow> (calls, catch_response err)))))"


section \<open>A sample environment\<close>

text \<open>
  Concrete collaborators on which the theorems below are exercised. The URL parser and
  \<^verbatim>\<open>JSON.parse\<close> are given on the few inputs used, with the values the platform's own
  functions return there.
\<close>

definition sample_pathname :: "jsstring \<Rightarrow> jsstring option" where
  "sample_pathname url =
     (if startsWith url (str ''https://www.youtube.com/'') then Some (drop 23 url) else None)"

definition video_entry :: "jsstring option \<Rightarrow> jsstring \<Rightarrow> video_item" where
  "video_entry vid t =
     \<lparr>vi_id = Some \<lparr>vid_videoId = vid\<rparr>,
      vi_snippet = Some \<lparr>vs_title = Some t, vs_publishedAt = Some (str ''2024-01-01T00:00:00Z'')\<rparr>\<rparr>"

definition sample_uploads :: "video_item list" where
  "sample_uploads =
     [video_entry (Some (str ''v1'')) (str ''First''),
      video_entry None (str ''Playlist''),
      video_entry (Some (str ''v2'')) (str ''Second''),
      video_entry (Some (str ''v3'')) (str ''Third''),
      video_entry (Some (str ''v4'')) (str ''Fourth'')]"

definition sample_youtube :: youtube_api where
  "sample_youtube =
     \<lparr>channels_by_id = (\<lambda>cid key. Response True
        (Inr \<lparr>cj_items = Some [\<lparr>ci_snippet = Some \<lparr>cs_title = Some (str ''Sample Channel'')\<rparr>\<rparr>]\<rparr>)),
      channels_for_username = (\<lambda>name key. Response True
        (Inr \<lparr>uj_items = (if name = str ''legacy'' then Some [\<lparr>ui_id = Some (str ''UC7'')\<rparr>]
                          else if name = str ''broken'' then Some [\<lparr>ui_id = None\<rparr>]
                          else Some [])\<rparr>)),
      search_channels = (\<lambda>q key. Response True
        (Inr \<lparr>sj_items = (if q = str ''nobody'' then Some []
                          else Some [\<lparr>si_id = Some \<lparr>id_channelId = Some (str ''UC1'')\<rparr>\<rparr>])\<rparr>)),
      search_videos = (\<lambda>cid n key. Response True
        (Inr \<lparr>vj_items = Some (take (nat n) sample_uploads), vj_error = None\<rparr>))\<rparr>"

definition sample_fetchTranscript :: "jsstring \<Rightarrow> transcript_result" where
  "sample_fetchTranscript vid =
     (if vid = str ''v3''
        then Resolved (Some [\<lparr>seg_text = str ''  Hello   world ''\<rparr>, \<lparr>seg_text = str ''again''\<rparr>])
      else if vid = str ''v4''
        then Resolved (Some [\<lparr>seg_text = str ''Welcome''\<rparr>, \<lparr>seg_text = str ''back''\<rparr>])
      else if vid = str ''v2'' then Resolved (Some [\<lparr>seg_text = str ''   ''\<rparr>])
      else Rejected (Error (str ''Transcript is disabled on this video'')))"

definition sample_style_text :: jsstring where
  "sample_style_text =
     str ''{\"voiceTone\":\"warm\",\"writingGuidelines\":[\"a\",\"b\",\"c\",\"d\",\"e\",\"f\",\"g\"]}''"

definition sample_json_parse :: "jsstring \<Rightarrow> json option" where
  "sample_json_parse s =
     (if s = sample_style_text
        then Some (JObj [(str ''voiceTone'', JStr (str ''warm'')),
                         (str ''writingGuidelines'',
                          JArr [JStr (str ''a''), JStr (str ''b''), JStr (str ''c''), JStr (str ''d''),
                                JStr (str ''e''), JStr (str ''f''), JStr (str ''g'')])])
      else if s = str ''{\"writingGuidelines\":\"none\"}''
        then Some (JObj [(str ''writingGuidelines'', JStr (str ''none''))])
      else None)"

definition sample_openai :: "jsstring \<Rightarrow> prompt \<Rightarrow> thrown + jsstring option" where
  "sample_openai key p =
     (case p of
        StylePrompt t ts \<Rightarrow> Inr (Some (str ''Here you go: '' @ sample_style_text @ str '' Enjoy!''))
      | ScriptPrompt t tp st gs \<Rightarrow> Inr (Some (str '' Once upon a time. '')))"

definition sample_env :: env where
  "sample_env =
     \<lparr>url_pathname = sample_pathname,
      youtube = sample_youtube,
      fetchTranscript = sample_fetchTranscript,
      openai_create = sample_openai,
      json_parse = sample_json_parse\<rparr>"

definition sample_request :: "jsstring \<Rightarrow> rat \<Rightarrow> json" where
  "sample_request url n =
     JObj [(str ''channelUrl'', JStr url),
           (str ''topic'', JStr (str ''vintage sneakers economics'')),
           (str ''youtubeApiKey'', JStr (str ''AIza-sample-key'')),
           (str ''openAiKey'', JStr (str ''sk-sample-key'')),
           (str ''videoCount'', JNum n)]"

text \<open>The same environment with one collaborator failing.\<close>

definition quota_env :: env where
  "quota_env = sample_env\<lparr>youtube := sample_youtube\<lparr>search_videos :=
     (\<lambda>cid n key. Response False (Inl NonError))\<rparr>\<rparr>"

definition badkey_env :: env where
  "badkey_env = sample_env\<lparr>openai_create :=
     (\<lambda>key p. Inl (Error (str ''401 Incorrect API key provided'')))\<rparr>"

definition outage_env :: env where
  "outage_env = sample_env\<lparr>youtube := sample_youtube\<lparr>channels_by_id :=
     (\<lambda>cid key. Response False (Inl NonError))\<rparr>\<rparr>"

definition mute_env :: env where
  "mute_env = sample_env\<lparr>openai_create :=
     (\<lambda>key p. Inr (Some (str ''I cannot help with that.'')))\<rparr>"

definition legacy_down_youtube :: youtube_api where
  "legacy_down_youtube = sample_youtube\<lparr>channels_for_username :=
     (\<lambda>name key. Response False (Inl NonError))\<rparr>"

definition sample_videos :: "VideoRef list" where
  "sample_videos =
     [\<lparr>videoId = str ''v1'', title = str ''First'', publishedAt = str ''2024-01-01T00:00:00Z''\<rparr>,
      \<lparr>videoId = str ''v2'', title = str ''Second'', publishedAt = str ''2024-01-01T00:00:00Z''\<rparr>,
      \<lparr>videoId = str ''v3'', title = str ''Third'', publishedAt = str ''2024-01-01T00:00:00Z''\<rparr>,
      \<lparr>videoId = str ''v4'', title = str ''Fourth'', publishedAt = str ''2024-01-01T00:00:00Z''\<rparr>]"

definition sample_samples :: "TranscriptSample list" where
  "sample_samples =
     [\<lparr>sample_videoId = str ''v3'', sample_title = str ''Third'',
       transcriptForModel = str ''Hello world again'', snippetExcerpt = str ''Hello world again''\<rparr>,
      \<lparr>sample_videoId = str ''v4'', sample_title = str ''Fourth'',
       transcriptForModel = str ''Welcome back'', snippetExcerpt = str ''Welcome back''\<rparr>]"

definition stringy_env :: env where
  "stringy_env = sample_env\<lparr>openai_create :=
     (\<lambda>key p. Inr (Some (str ''{\"writingGuidelines\":\"none\"}'')))\<rparr>"

definition blank_env :: env where
  "blank_env = sample_env\<lparr>openai_create :=
     (\<lambda>key p. case p of
        StylePrompt t ts \<Rightarrow> Inr (Some (str ''Here you go: '' @ sample_style_text @ str '' Enjoy!''))
      | ScriptPrompt t tp st gs \<Rightarrow> Inr (Some (str ''   '')))\<rparr>"

definition sample_data :: "jsstring \<Rightarrow> int \<Rightarrow> request_data" where
  "sample_data url n =
     \<lparr>channelUrl = url, topic = str ''vintage sneakers economics'',
      youtubeApiKey = str ''AIza-sample-key'', openAiKey = str ''sk-sample-key'',
      videoCount = n\<rparr>"


section \<open>The endpoint's responses\<close>

text \<open>
  A request body is accepted with data \<open>req\<close> and identifier \<open>ident\<close> when it passes
  the schema and its channel URL is recognised: the handler then enters its \<^verbatim>\<open>try\<close> block.
\<close>

definition accepted :: "env \<Rightarrow> json \<Rightarrow> request_data \<Rightarrow> ChannelIdentifier \<Rightarrow> bool" where
  "accepted e body req ident \<longleftrightarrow>
     requestSchema body = Some req
     \<and> extractChannelIdentifier (url_pathname e) (channelUrl req) = Some ident"

text \<open>
  A video contributes nothing to the aggregate when its transcript fetch fails, gives no
  segments, or gives text that is empty once normalised.
\<close>

definition contributes_nothing :: "(jsstring \<Rightarrow> transcript_result) \<Rightarrow> VideoRef \<Rightarrow> bool" where
  "contributes_nothing f v \<longleftrightarrow>
     (case f (videoId v) of
        Rejected err \<Rightarrow> True
      | Resolved None \<Rightarrow> True
      | Resolved (Some segs) \<Rightarrow> segs = [] \<or> combined_text segs = [])"

text \<open>
  The words of a text: its maximal runs of code units that are not white space, in order.
\<close>

fun ws_words :: "jsstring \<Rightarrow> jsstring list" where
  "ws_words [] = []"
| "ws_words (c # cs) =
     (if isWhiteSpace c then ws_words cs
      else if cs = [] \<or> isWhiteSpace (hd cs) then [c] # ws_words cs
      else (case ws_words cs of [] \<Rightarrow> [[c]] | w # rest \<Rightarrow> (c # w) # rest))"

text \<open>
  The contract of the data API's video search, which the spec relies on when it calls the
  list capped: a response to a request with \<^verbatim>\<open>maxResults = n\<close> has at most \<open>n\<close> items.
\<close>

definition honours_maxResults :: "youtube_api \<Rightarrow> bool" where
  "honours_maxResults api \<longleftrightarrow>
     (\<forall>cid n key ok vj items.
        0 \<le> n \<and> search_videos api cid n key = Response ok (Inr vj) \<and> vj_items vj = Some items
        \<longrightarrow> int (length items) \<le> n)"


section \<open>Auxiliary facts\<close>

lemma startsWith_iff: "startsWith s p \<longleftrightarrow> (\<exists>post. s = p @ post)"
  unfolding startsWith_def
  by (metis append_eq_conv_conj)

lemma POST_invalid_json:
  "POST e None = ([], error_response 400 (str ''Invalid JSON payload.''))"
  by (simp add: POST_def)

lemma POST_schema_failure:
  "requestSchema body = None \<Longrightarrow>
   POST e (Some body) = ([], error_response 400 (str ''Please fill in every field with valid values.''))"
  by (simp add: POST_def)

lemma POST_unsupported_url:
  "requestSchema body = Some req \<Longrightarrow>
   extractChannelIdentifier (url_pathname e) (channelUrl req) = None \<Longrightarrow>
   POST e (Some body) =
     ([], error_response 400 (str ''Unsupported YouTube channel link. Try a different URL.''))"
  by (simp add: POST_def)

lemma POST_pipeline:
  "requestSchema body = Some req \<Longrightarrow>
   extractChannelIdentifier (url_pathname e) (channelUrl req) = Some ident \<Longrightarrow>
   POST e (Some body) =
     (case pipeline e req ident of
        (calls, Inr res) \<Rightarrow> (calls, res)
      | (calls, Inl err) \<Rightarrow> (calls, catch_response err))"
  by (simp add: POST_def)

lemma pipeline_not_found:
  "resolveChannelDetails (youtube e) (Some ident) (youtubeApiKey req) (videoCount req) = (calls, Inr None) \<Longrightarrow>
   pipeline e req ident = (calls, Inr (error_response 404 (str ''Unable to find the provided channel.'')))"
  by (simp add: pipeline_def bind_io_def return_io_def)

lemma pipeline_resolve_throws:
  "resolveChannelDetails (youtube e) (Some ident) (youtubeApiKey req) (videoCount req) = (calls, Inl err) \<Longrightarrow>
   pipeline e req ident = (calls, Inl err)"
  by (simp add: pipeline_def bind_io_def)

lemma pipeline_resolved:
  "resolveChannelDetails (youtube e) (Some ident) (youtubeApiKey req) (videoCount req) = (calls, Inr (Some meta)) \<Longrightarrow>
   pipeline e req ident =
     (calls, bind_outcome (fetchTranscripts (fetchTranscript e) (videos meta))
        (\<lambda>transcripts.
           if length transcripts = 0
           then Inr (error_response 422
                  (str ''Transcripts are unavailable for the recent uploads. Try a different channel.''))
           else synthesize e req (channelTitle meta) transcripts))"
  by (simp add: pipeline_def bind_io_def)

lemma catch_response_status:
  "status (catch_response err) =
     (if js_includes (error_message err) (str ''quota'') then 429
      else if js_includes (error_message err) (str ''API key'') then 401 else 500)"
  by (simp add: catch_response_def Let_def)

lemma catch_response_body:
  "resp_body (catch_response err) =
     ErrorBody (if js_includes (error_message err) (str ''quota'')
                   \<or> js_includes (error_message err) (str ''API key'')
                then error_message err else str ''Failed to build script style.'')"
  by (simp add: catch_response_def Let_def)

lemma synthesize_status:
  "synthesize e req t ts = Inr res \<Longrightarrow> status res = 200"
  by (auto simp: synthesize_def bind_outcome_def Let_def
      split: sum.splits option.splits json.splits if_splits)

lemma z_string_min_Some:
  "z_string_min n v = Some s \<longleftrightarrow> v = Some (JStr s) \<and> n \<le> length s"
  by (auto simp: z_string_min_def split: option.splits json.splits)

lemma z_int_range_Some:
  "z_int_range lo hi v = Some n \<longleftrightarrow> v = Some (JNum (of_int n)) \<and> lo \<le> n \<and> n \<le> hi"
  by (auto simp: z_int_range_def split: option.splits json.splits)

lemma requestSchema_Some:
  "requestSchema body = Some req \<longleftrightarrow>
     (\<exists>props. body = JObj props
        \<and> map_of props (str ''channelUrl'') = Some (JStr (channelUrl req)) \<and> 1 \<le> length (channelUrl req)
        \<and> map_of props (str ''topic'') = Some (JStr (topic req)) \<and> 4 \<le> length (topic req)
        \<and> map_of props (str ''youtubeApiKey'') = Some (JStr (youtubeApiKey req))
        \<and> 10 \<le> length (youtubeApiKey req)
        \<and> map_of props (str ''openAiKey'') = Some (JStr (openAiKey req)) \<and> 10 \<le> length (openAiKey req)
        \<and> map_of props (str ''videoCount'') = Some (JNum (of_int (videoCount req)))
        \<and> 1 \<le> videoCount req \<and> videoCount req \<le> 8)"
  apply (cases req)
  apply (cases body)
  apply (auto simp: requestSchema_def Option.bind_eq_Some_conv z_string_min_Some z_int_range_Some)
  done


lemma POST_accepted:
  "accepted e body req ident \<Longrightarrow>
   POST e (Some body) =
     (case pipeline e req ident of
        (calls, Inr res) \<Rightarrow> (calls, res)
      | (calls, Inl err) \<Rightarrow> (calls, catch_response err))"
  by (simp add: accepted_def POST_pipeline)

lemma catch_response_eq:
  "catch_response err =
     \<lparr>status = (if js_includes (error_message err) (str ''quota'') then 429
                else if js_includes (error_message err) (str ''API key'') then 401 else 500),
      resp_body = ErrorBody (if js_includes (error_message err) (str ''quota'')
                               \<or> js_includes (error_message err) (str ''API key'')
                             then error_message err else str ''Failed to build script style.'')\<rparr>"
  by (simp add: catch_response_def Let_def)

subsection \<open>The sample environment evaluated\<close>

lemmas string_defs = str_def startsWith_def trim_def isWhiteSpace_def slice_def slice_from_def
  at_index_def truthy_def path_segments_def

lemmas resolver_defs = return_io_def throw_io_def bind_io_def fetch_json_def
  first_search_channelId_def first_username_id_def channel_title_of_def video_of_item_def
  videos_of_def resolveChannelDetails_def List.map_filter_def

lemmas aggregator_defs = combined_text_def try_transcript_def video_chunk_def
  fetchTranscripts_def List.map_filter_def

lemmas endpoint_defs = parseJsonObject_def member_of_def get_member_def bind_outcome_def
  style_fields_def error_response_def synthesize_def pipeline_def error_message_def catch_response_def

lemmas sample_defs = video_entry_def sample_uploads_def sample_youtube_def
  sample_fetchTranscript_def sample_style_text_def sample_json_parse_def sample_openai_def
  sample_env_def quota_env_def badkey_env_def outage_env_def mute_env_def
  legacy_down_youtube_def

lemma z_int_range_half: "z_int_range 1 8 (Some (JNum (5 / 2))) = None"
  by code_simp

lemma sample_request_rejected:
  "requestSchema (sample_request (str ''https://www.youtube.com/@sample'') (5 / 2)) = None"
  by (simp add: requestSchema_def sample_request_def z_string_min_def str_def z_int_range_half)

lemma sample_request_parsed:
  "url \<noteq> [] \<Longrightarrow> 1 \<le> n \<Longrightarrow> n \<le> 8 \<Longrightarrow>
   requestSchema (sample_request url (of_int n)) = Some (sample_data url n)"
  by (cases url)
     (simp_all add: requestSchema_def sample_request_def sample_data_def z_string_min_def
        z_int_range_def str_def)

lemma sample_url_handle:
  "extractChannelIdentifier sample_pathname (str ''https://www.youtube.com/@sample'')
     = Some (Handle (str ''@sample''))"
  by (simp add: extractChannelIdentifier_def sample_pathname_def string_defs)

lemma sample_url_nobody:
  "extractChannelIdentifier sample_pathname (str ''https://www.youtube.com/@nobody'')
     = Some (Handle (str ''@nobody''))"
  by (simp add: extractChannelIdentifier_def sample_pathname_def string_defs)

lemma sample_url_watch:
  "extractChannelIdentifier sample_pathname (str ''https://www.youtube.com/watch'') = None"
  by (simp add: extractChannelIdentifier_def sample_pathname_def string_defs)

lemma sample_accepted:
  "accepted (sample_env\<lparr>youtube := y, openai_create := f\<rparr>)
     (sample_request (str ''https://www.youtube.com/@sample'') 5)
     (sample_data (str ''https://www.youtube.com/@sample'') 5) (Handle (str ''@sample''))"
  using sample_request_parsed[of "str ''https://www.youtube.com/@sample''" 5] sample_url_handle
  by (simp add: accepted_def sample_env_def sample_data_def str_def)

lemma sample_accepted_plain:
  "accepted sample_env (sample_request (str ''https://www.youtube.com/@sample'') 5)
     (sample_data (str ''https://www.youtube.com/@sample'') 5) (Handle (str ''@sample''))"
  using sample_accepted[where y = sample_youtube and f = sample_openai]
  by (simp add: sample_env_def)

lemma sample_resolved:
  "resolveChannelDetails sample_youtube (Some (Handle (str ''@sample''))) (str ''AIza-sample-key'') 5
     = ([SearchChannels (str ''sample'') (str ''AIza-sample-key''),
         ChannelsById (str ''UC1'') (str ''AIza-sample-key''),
         SearchVideos (str ''UC1'') 5 (str ''AIza-sample-key'')],
        Inr (Some \<lparr>channelId = str ''UC1'', channelTitle = str ''Sample Channel'',
          videos = [\<lparr>videoId = str ''v1'', title = str ''First'',
                      publishedAt = str ''2024-01-01T00:00:00Z''\<rparr>,
                    \<lparr>videoId = str ''v2'', title = str ''Second'',
                      publishedAt = str ''2024-01-01T00:00:00Z''\<rparr>,
                    \<lparr>videoId = str ''v3'', title = str ''Third'',
                      publishedAt = str ''2024-01-01T00:00:00Z''\<rparr>,
                    \<lparr>videoId = str ''v4'', title = str ''Fourth'',
                      publishedAt = str ''2024-01-01T00:00:00Z''\<rparr>]\<rparr>))"
  by (simp add: string_defs resolver_defs sample_defs)

lemma sample_transcripts:
  "fetchTranscripts sample_fetchTranscript sample_videos = Inr sample_samples"
  by (simp add: string_defs aggregator_defs sample_defs sample_videos_def sample_samples_def Let_def)

lemma sample_transcripts_none:
  "fetchTranscripts sample_fetchTranscript (take 2 sample_videos) = Inr []"
  by (simp add: string_defs aggregator_defs sample_defs sample_videos_def Let_def)

lemma sample_parse:
  "parseJsonObject sample_json_parse (str ''Here you go: '' @ sample_style_text @ str '' Enjoy!'')
     = Inr (JObj [(str ''voiceTone'', JStr (str ''warm'')),
                         (str ''writingGuidelines'',
                          JArr [JStr (str ''a''), JStr (str ''b''), JStr (str ''c''), JStr (str ''d''),
                                JStr (str ''e''), JStr (str ''f''), JStr (str ''g'')])])"
  by (simp add: parseJsonObject_def sample_json_parse_def sample_style_text_def string_defs)

lemma sample_synthesized:
  "synthesize sample_env (sample_data url n) t ts =
     Inr \<lparr>status = 200,
          resp_body = AnalysisBody
            \<lparr>out_channelTitle = t,
             styleSummary = \<lparr>voiceTone = Some (JStr (str ''warm'')), narrativeStructure = None,
                recurringDevices = None, pacing = None, audienceEngagement = None\<rparr>,
             writingGuidelines = [JStr (str ''a''), JStr (str ''b''), JStr (str ''c''),
                JStr (str ''d''), JStr (str ''e''), JStr (str ''f'')],
             generatedScript = str ''Once upon a time.'',
             sampledTranscripts =
               map (\<lambda>entry. \<lparr>out_videoId = sample_videoId entry, out_title = sample_title entry,
                              excerpt = snippetExcerpt entry\<rparr>) ts\<rparr>\<rparr>"
  apply (simp add: synthesize_def bind_outcome_def sample_env_def sample_openai_def sample_parse
        truthy_def get_member_def member_of_def style_fields_def)
  apply (simp add: str_def trim_def isWhiteSpace_def Let_def)
  done

lemma accepted_sample:
  "url_pathname e = sample_pathname \<Longrightarrow>
   accepted e (sample_request (str ''https://www.youtube.com/@sample'') 5)
     (sample_data (str ''https://www.youtube.com/@sample'') 5) (Handle (str ''@sample''))"
  using sample_request_parsed[of "str ''https://www.youtube.com/@sample''" 5] sample_url_handle
  by (simp add: accepted_def sample_data_def str_def)

lemma sample_data_simps:
  "channelUrl (sample_data url n) = url"
  "youtubeApiKey (sample_data url n) = str ''AIza-sample-key''"
  "openAiKey (sample_data url n) = str ''sk-sample-key''"
  "videoCount (sample_data url n) = n"
  by (simp_all add: sample_data_def)

lemma sample_env_simps:
  "url_pathname sample_env = sample_pathname"
  "youtube sample_env = sample_youtube"
  "fetchTranscript sample_env = sample_fetchTranscript"
  "openai_create sample_env = sample_openai"
  "json_parse sample_env = sample_json_parse"
  by (simp_all add: sample_env_def)

lemma sample_resolved_videos:
  "resolveChannelDetails sample_youtube (Some (Handle (str ''@sample''))) (str ''AIza-sample-key'') 5
     = ([SearchChannels (str ''sample'') (str ''AIza-sample-key''),
         ChannelsById (str ''UC1'') (str ''AIza-sample-key''),
         SearchVideos (str ''UC1'') 5 (str ''AIza-sample-key'')],
        Inr (Some \<lparr>channelId = str ''UC1'', channelTitle = str ''Sample Channel'',
               videos = sample_videos\<rparr>))"
  by (simp add: sample_resolved sample_videos_def)

lemma sample_resolved_three:
  "resolveChannelDetails sample_youtube (Some (Handle (str ''@sample''))) (str ''AIza-sample-key'') 3
     = ([SearchChannels (str ''sample'') (str ''AIza-sample-key''),
         ChannelsById (str ''UC1'') (str ''AIza-sample-key''),
         SearchVideos (str ''UC1'') 3 (str ''AIza-sample-key'')],
        Inr (Some \<lparr>channelId = str ''UC1'', channelTitle = str ''Sample Channel'',
               videos = take 2 sample_videos\<rparr>))"
  by (simp add: string_defs resolver_defs sample_defs sample_videos_def)

lemma sample_unresolved:
  "resolveChannelDetails sample_youtube (Some (Handle (str ''@nobody''))) (str ''AIza-sample-key'') 5
     = ([SearchChannels (str ''nobody'') (str ''AIza-sample-key'')], Inr None)"
  by (simp add: string_defs resolver_defs sample_defs)

lemma quota_pipeline:
  "pipeline quota_env (sample_data (str ''https://www.youtube.com/@sample'') 5)
       (Handle (str ''@sample''))
     = ([SearchChannels (str ''sample'') (str ''AIza-sample-key''),
         ChannelsById (str ''UC1'') (str ''AIza-sample-key''),
         SearchVideos (str ''UC1'') 5 (str ''AIza-sample-key'')],
        Inl (Error (str ''Failed to fetch recent videos. Check your API key quota.'')))"
  by (simp add: string_defs resolver_defs pipeline_def sample_defs sample_data_def)

lemma outage_pipeline:
  "pipeline outage_env (sample_data (str ''https://www.youtube.com/@sample'') 5)
       (Handle (str ''@sample''))
     = ([SearchChannels (str ''sample'') (str ''AIza-sample-key''),
         ChannelsById (str ''UC1'') (str ''AIza-sample-key'')],
        Inl (Error (str ''Failed to fetch channel metadata.'')))"
  by (simp add: string_defs resolver_defs pipeline_def sample_defs sample_data_def)

lemma badkey_pipeline:
  "pipeline badkey_env (sample_data (str ''https://www.youtube.com/@sample'') 5)
       (Handle (str ''@sample''))
     = ([SearchChannels (str ''sample'') (str ''AIza-sample-key''),
         ChannelsById (str ''UC1'') (str ''AIza-sample-key''),
         SearchVideos (str ''UC1'') 5 (str ''AIza-sample-key'')],
        Inl (Error (str ''401 Incorrect API key provided'')))"
proof -
  have "resolveChannelDetails (youtube badkey_env) (Some (Handle (str ''@sample'')))
          (youtubeApiKey (sample_data (str ''https://www.youtube.com/@sample'') 5))
          (videoCount (sample_data (str ''https://www.youtube.com/@sample'') 5))
        = ([SearchChannels (str ''sample'') (str ''AIza-sample-key''),
            ChannelsById (str ''UC1'') (str ''AIza-sample-key''),
            SearchVideos (str ''UC1'') 5 (str ''AIza-sample-key'')],
           Inr (Some \<lparr>channelId = str ''UC1'', channelTitle = str ''Sample Channel'',
               videos = sample_videos\<rparr>))"
    by (simp add: badkey_env_def sample_env_simps sample_data_simps sample_resolved_videos)
  from pipeline_resolved[OF this] show ?thesis
    by (simp add: badkey_env_def sample_env_simps sample_transcripts sample_samples_def
        bind_outcome_def synthesize_def)
qed

lemma mute_pipeline:
  "pipeline mute_env (sample_data (str ''https://www.youtube.com/@sample'') 5)
       (Handle (str ''@sample''))
     = ([SearchChannels (str ''sample'') (str ''AIza-sample-key''),
         ChannelsById (str ''UC1'') (str ''AIza-sample-key''),
         SearchVideos (str ''UC1'') 5 (str ''AIza-sample-key'')],
        Inl (Error (str ''Model response missing JSON object.'')))"
proof -
  have "resolveChannelDetails (youtube mute_env) (Some (Handle (str ''@sample'')))
          (youtubeApiKey (sample_data (str ''https://www.youtube.com/@sample'') 5))
          (videoCount (sample_data (str ''https://www.youtube.com/@sample'') 5))
        = ([SearchChannels (str ''sample'') (str ''AIza-sample-key''),
            ChannelsById (str ''UC1'') (str ''AIza-sample-key''),
            SearchVideos (str ''UC1'') 5 (str ''AIza-sample-key'')],
           Inr (Some \<lparr>channelId = str ''UC1'', channelTitle = str ''Sample Channel'',
               videos = sample_videos\<rparr>))"
    by (simp add: mute_env_def sample_env_simps sample_data_simps sample_resolved_videos)
  from pipeline_resolved[OF this] show ?thesis
    by (simp add: mute_env_def sample_env_simps sample_transcripts sample_samples_def
        bind_outcome_def synthesize_def parseJsonObject_def truthy_def str_def)
qed

lemma message_classes:
  "js_includes (str ''Failed to fetch recent videos. Check your API key quota.'') (str ''quota'')"
  "\<not> js_includes (str ''401 Incorrect API key provided'') (str ''quota'')"
  "js_includes (str ''401 Incorrect API key provided'') (str ''API key'')"
  "\<not> js_includes (str ''Failed to fetch channel metadata.'') (str ''quota'')"
  "\<not> js_includes (str ''Failed to fetch channel metadata.'') (str ''API key'')"
  "\<not> js_includes (str ''Model response missing JSON object.'') (str ''quota'')"
  "\<not> js_includes (str ''Model response missing JSON object.'') (str ''API key'')"
  by (simp_all add: str_def startsWith_def)


section \<open>The claims\<close>

text \<open>
  C1. The status of the response to a request: 400 with a generic message when the body is
  not JSON; 400 with a generic message when the body fails the schema, which accepts exactly
  the objects whose \<^verbatim>\<open>channelUrl\<close> is a string of at least 1 code unit, \<^verbatim>\<open>topic\<close> one of
  at least 4, \<^verbatim>\<open>youtubeApiKey\<close> and \<^verbatim>\<open>openAiKey\<close> of at least 10 and \<^verbatim>\<open>videoCount\<close> an
  integer from 1 to 8; 400 when the channel URL is not parsed or not recognised; 404 when
  the channel resolves to nothing; 422 when no transcript sample is left; for a value thrown
  in the pipeline, 429 when its message contains \<^verbatim>\<open>quota\<close>, else 401 when it contains
  \<^verbatim>\<open>API key\<close> (both with the message as body), else 500; and 200 when every step succeeds.
\<close>

theorem POST_status_determination:
  "POST e None = ([], error_response 400 (str ''Invalid JSON payload.''))
   \<and> (\<forall>body. requestSchema body = None \<longrightarrow>
         POST e (Some body) =
           ([], error_response 400 (str ''Please fill in every field with valid values.'')))
   \<and> (\<forall>body. (requestSchema body \<noteq> None) =
         (\<exists>props u t y k n. body = JObj props
            \<and> map_of props (str ''channelUrl'') = Some (JStr u) \<and> 1 \<le> length u
            \<and> map_of props (str ''topic'') = Some (JStr t) \<and> 4 \<le> length t
            \<and> map_of props (str ''youtubeApiKey'') = Some (JStr y) \<and> 10 \<le> length y
            \<and> map_of props (str ''openAiKey'') = Some (JStr k) \<and> 10 \<le> length k
            \<and> map_of props (str ''videoCount'') = Some (JNum (of_int n)) \<and> 1 \<le> n \<and> n \<le> 8))
   \<and> (\<forall>body req. requestSchema body = Some req
         \<and> extractChannelIdentifier (url_pathname e) (channelUrl req) = None \<longrightarrow>
         POST e (Some body) =
           ([], error_response 400 (str ''Unsupported YouTube channel link. Try a different URL.'')))
   \<and> (\<forall>body req ident calls. accepted e body req ident
         \<and> resolveChannelDetails (youtube e) (Some ident) (youtubeApiKey req) (videoCount req)
             = (calls, Inr None) \<longrightarrow>
         POST e (Some body) =
           (calls, error_response 404 (str ''Unable to find the provided channel.'')))
   \<and> (\<forall>body req ident calls meta. accepted e body req ident
         \<and> resolveChannelDetails (youtube e) (Some ident) (youtubeApiKey req) (videoCount req)
             = (calls, Inr (Some meta))
         \<and> fetchTranscripts (fetchTranscript e) (videos meta) = Inr [] \<longrightarrow>
         POST e (Some body) =
           (calls, error_response 422
              (str ''Transcripts are unavailable for the recent uploads. Try a different channel.'')))
   \<and> (\<forall>body req ident calls err. accepted e body req ident
         \<and> pipeline e req ident = (calls, Inl err) \<longrightarrow>
         POST e (Some body) =
           (calls,
            \<lparr>status = (if js_includes (error_message err) (str ''quota'') then 429
                       else if js_includes (error_message err) (str ''API key'') then 401
                       else 500),
             resp_body = ErrorBody
               (if js_includes (error_message err) (str ''quota'')
                   \<or> js_includes (error_message err) (str ''API key'')
                then error_message err else str ''Failed to build script style.'')\<rparr>))
   \<and> (\<forall>body req ident calls meta samples res. accepted e body req ident
         \<and> resolveChannelDetails (youtube e) (Some ident) (youtubeApiKey req) (videoCount req)
             = (calls, Inr (Some meta))
         \<and> fetchTranscripts (fetchTranscript e) (videos meta) = Inr samples
         \<and> samples \<noteq> []
         \<and> synthesize e req (channelTitle meta) samples = Inr res \<longrightarrow>
         POST e (Some body) = (calls, res) \<and> status res = 200)"
proof (intro conjI allI impI)
  show "POST e None = ([], error_response 400 (str ''Invalid JSON payload.''))"
    by (rule POST_invalid_json)
next
  fix body assume "requestSchema body = None"
  then show "POST e (Some body) =
      ([], error_response 400 (str ''Please fill in every field with valid values.''))"
    by (rule POST_schema_failure)
next
  fix body
  show "(requestSchema body \<noteq> None) =
         (\<exists>props u t y k n. body = JObj props
            \<and> map_of props (str ''channelUrl'') = Some (JStr u) \<and> 1 \<le> length u
            \<and> map_of props (str ''topic'') = Some (JStr t) \<and> 4 \<le> length t
            \<and> map_of props (str ''youtubeApiKey'') = Some (JStr y) \<and> 10 \<le> length y
            \<and> map_of props (str ''openAiKey'') = Some (JStr k) \<and> 10 \<le> length k
            \<and> map_of props (str ''videoCount'') = Some (JNum (of_int n)) \<and> 1 \<le> n \<and> n \<le> 8)"
    (is "?L = ?R")
  proof
    assume ?L
    then obtain req where "requestSchema body = Some req" by auto
    then show ?R unfolding requestSchema_Some by blast
  next
    assume ?R
    then obtain props u t y k n where h: "body = JObj props"
        "map_of props (str ''channelUrl'') = Some (JStr u)" "1 \<le> length u"
        "map_of props (str ''topic'') = Some (JStr t)" "4 \<le> length t"
        "map_of props (str ''youtubeApiKey'') = Some (JStr y)" "10 \<le> length y"
        "map_of props (str ''openAiKey'') = Some (JStr k)" "10 \<le> length k"
        "map_of props (str ''videoCount'') = Some (JNum (of_int n))" "1 \<le> n" "n \<le> 8"
      by blast
    have "requestSchema body =
        Some \<lparr>channelUrl = u, topic = t, youtubeApiKey = y, openAiKey = k, videoCount = n\<rparr>"
      unfolding requestSchema_Some using h by simp
    then show ?L by simp
  qed
next
  fix body req
  assume "requestSchema body = Some req
         \<and> extractChannelIdentifier (url_pathname e) (channelUrl req) = None"
  then show "POST e (Some body) =
           ([], error_response 400 (str ''Unsupported YouTube channel link. Try a different URL.''))"
    by (simp add: POST_unsupported_url)
next
  fix body req ident calls
  assume "accepted e body req ident
         \<and> resolveChannelDetails (youtube e) (Some ident) (youtubeApiKey req) (videoCount req)
             = (calls, Inr None)"
  then show "POST e (Some body) =
           (calls, error_response 404 (str ''Unable to find the provided channel.''))"
    using POST_accepted[of e body req ident] by (simp add: pipeline_not_found)
next
  fix body req ident calls meta
  assume "accepted e body req ident
         \<and> resolveChannelDetails (youtube e) (Some ident) (youtubeApiKey req) (videoCount req)
             = (calls, Inr (Some meta))
         \<and> fetchTranscripts (fetchTranscript e) (videos meta) = Inr []"
  then show "POST e (Some body) =
           (calls, error_response 422
              (str ''Transcripts are unavailable for the recent uploads. Try a different channel.''))"
    using POST_accepted[of e body req ident] by (simp add: pipeline_resolved bind_outcome_def)
next
  fix body req ident calls err
  assume "accepted e body req ident \<and> pipeline e req ident = (calls, Inl err)"
  then show "POST e (Some body) =
           (calls,
            \<lparr>status = (if js_includes (error_message err) (str ''quota'') then 429
                       else if js_includes (error_message err) (str ''API key'') then 401
                       else 500),
             resp_body = ErrorBody
               (if js_includes (error_message err) (str ''quota'')
                   \<or> js_includes (error_message err) (str ''API key'')
                then error_message err else str ''Failed to build script style.'')\<rparr>)"
    using POST_accepted[of e body req ident] by (simp add: catch_response_eq)
next
  fix body req ident calls meta samples res
  assume h: "accepted e body req ident
         \<and> resolveChannelDetails (youtube e) (Some ident) (youtubeApiKey req) (videoCount req)
             = (calls, Inr (Some meta))
         \<and> fetchTranscripts (fetchTranscript e) (videos meta) = Inr samples
         \<and> samples \<noteq> []
         \<and> synthesize e req (channelTitle meta) samples = Inr res"
  then show "POST e (Some body) = (calls, res)"
    using POST_accepted[of e body req ident] by (simp add: pipeline_resolved bind_outcome_def)
  from h show "status res = 200"
    using synthesize_status[of e req "channelTitle meta" samples res] by simp
qed

theorem POST_status_determination_witness:
  "status (snd (POST sample_env None)) = 400
   \<and> requestSchema (sample_request (str ''https://www.youtube.com/@sample'') (5 / 2)) = None
   \<and> status (snd (POST sample_env
         (Some (sample_request (str ''https://www.youtube.com/@sample'') (5 / 2))))) = 400
   \<and> requestSchema (sample_request (str ''https://www.youtube.com/@sample'') 5) \<noteq> None
   \<and> (\<exists>props u t y k n.
         sample_request (str ''https://www.youtube.com/@sample'') 5 = JObj props
         \<and> map_of props (str ''channelUrl'') = Some (JStr u) \<and> 1 \<le> length u
         \<and> map_of props (str ''topic'') = Some (JStr t) \<and> 4 \<le> length t
         \<and> map_of props (str ''youtubeApiKey'') = Some (JStr y) \<and> 10 \<le> length y
         \<and> map_of props (str ''openAiKey'') = Some (JStr k) \<and> 10 \<le> length k
         \<and> map_of props (str ''videoCount'') = Some (JNum (of_int n)) \<and> 1 \<le> n \<and> n \<le> 8)
   \<and> status (snd (POST sample_env
         (Some (sample_request (str ''https://www.youtube.com/watch'') 5)))) = 400
   \<and> status (snd (POST sample_env
         (Some (sample_request (str ''https://www.youtube.com/@nobody'') 5)))) = 404
   \<and> status (snd (POST sample_env
         (Some (sample_request (str ''https://www.youtube.com/@sample'') 3)))) = 422
   \<and> snd (POST quota_env (Some (sample_request (str ''https://www.youtube.com/@sample'') 5))) =
        error_response 429 (str ''Failed to fetch recent videos. Check your API key quota.'')
   \<and> snd (POST badkey_env (Some (sample_request (str ''https://www.youtube.com/@sample'') 5))) =
        error_response 401 (str ''401 Incorrect API key provided'')
   \<and> snd (POST outage_env (Some (sample_request (str ''https://www.youtube.com/@sample'') 5))) =
        error_response 500 (str ''Failed to build script style.'')
   \<and> status (snd (POST sample_env
         (Some (sample_request (str ''https://www.youtube.com/@sample'') 5)))) = 200"
proof -
  let ?url = "str ''https://www.youtube.com/@sample''"
  note T = POST_status_determination
  note T2 = T[THEN conjunct2]
  note T3 = T2[THEN conjunct2]
  note T4 = T3[THEN conjunct2]
  note T5 = T4[THEN conjunct2]
  note T6 = T5[THEN conjunct2]
  note T7 = T6[THEN conjunct2]
  note T8 = T7[THEN conjunct2]
  have c1: "status (snd (POST sample_env None)) = 400"
    using T[of sample_env, THEN conjunct1] by (simp add: error_response_def)
  note bad = sample_request_rejected
  have c2: "status (snd (POST sample_env (Some (sample_request ?url (5 / 2))))) = 400"
    using T2[of sample_env, THEN conjunct1, rule_format, OF bad]
    by (simp add: error_response_def)
  have good: "requestSchema (sample_request ?url 5) \<noteq> None"
    using sample_request_parsed[of ?url 5] by (simp add: str_def)
  note c3 = T3[of sample_env, THEN conjunct1, rule_format, of "sample_request ?url 5",
      THEN iffD1, OF good]
  have nourl: "requestSchema (sample_request (str ''https://www.youtube.com/watch'') 5)
        = Some (sample_data (str ''https://www.youtube.com/watch'') 5)
      \<and> extractChannelIdentifier (url_pathname sample_env)
          (channelUrl (sample_data (str ''https://www.youtube.com/watch'') 5)) = None"
    using sample_request_parsed[of "str ''https://www.youtube.com/watch''" 5] sample_url_watch
    by (simp add: sample_env_simps sample_data_simps str_def)
  have c4: "status (snd (POST sample_env
         (Some (sample_request (str ''https://www.youtube.com/watch'') 5)))) = 400"
    using T4[of sample_env, THEN conjunct1, rule_format, OF nourl]
    by (simp add: error_response_def)
  have nobody: "accepted sample_env (sample_request (str ''https://www.youtube.com/@nobody'') 5)
        (sample_data (str ''https://www.youtube.com/@nobody'') 5) (Handle (str ''@nobody''))
      \<and> resolveChannelDetails (youtube sample_env) (Some (Handle (str ''@nobody'')))
          (youtubeApiKey (sample_data (str ''https://www.youtube.com/@nobody'') 5))
          (videoCount (sample_data (str ''https://www.youtube.com/@nobody'') 5))
        = ([SearchChannels (str ''nobody'') (str ''AIza-sample-key'')], Inr None)"
    using sample_request_parsed[of "str ''https://www.youtube.com/@nobody''" 5]
      sample_url_nobody sample_unresolved
    by (simp add: accepted_def sample_env_simps sample_data_simps str_def)
  have c5: "status (snd (POST sample_env
         (Some (sample_request (str ''https://www.youtube.com/@nobody'') 5)))) = 404"
    using T5[of sample_env, THEN conjunct1, rule_format, OF nobody]
    by (simp add: error_response_def)
  have silent: "accepted sample_env (sample_request ?url 3) (sample_data ?url 3)
        (Handle (str ''@sample''))
      \<and> resolveChannelDetails (youtube sample_env) (Some (Handle (str ''@sample'')))
          (youtubeApiKey (sample_data ?url 3)) (videoCount (sample_data ?url 3))
        = ([SearchChannels (str ''sample'') (str ''AIza-sample-key''),
            ChannelsById (str ''UC1'') (str ''AIza-sample-key''),
            SearchVideos (str ''UC1'') 3 (str ''AIza-sample-key'')],
           Inr (Some \<lparr>channelId = str ''UC1'', channelTitle = str ''Sample Channel'',
             videos = take 2 sample_videos\<rparr>))
      \<and> fetchTranscripts (fetchTranscript sample_env)
          (videos \<lparr>channelId = str ''UC1'', channelTitle = str ''Sample Channel'',
             videos = take 2 sample_videos\<rparr>) = Inr []"
    using sample_request_parsed[of ?url 3] sample_url_handle sample_resolved_three
      sample_transcripts_none
    by (simp add: accepted_def sample_env_simps sample_data_simps str_def)
  have c6: "status (snd (POST sample_env (Some (sample_request ?url 3)))) = 422"
    using T6[of sample_env, THEN conjunct1, rule_format, OF silent]
    by (simp add: error_response_def)
  have quota: "accepted quota_env (sample_request ?url 5) (sample_data ?url 5)
        (Handle (str ''@sample''))
      \<and> pipeline quota_env (sample_data ?url 5) (Handle (str ''@sample''))
        = ([SearchChannels (str ''sample'') (str ''AIza-sample-key''),
            ChannelsById (str ''UC1'') (str ''AIza-sample-key''),
            SearchVideos (str ''UC1'') 5 (str ''AIza-sample-key'')],
           Inl (Error (str ''Failed to fetch recent videos. Check your API key quota.'')))"
    using accepted_sample[of quota_env] quota_pipeline
    by (simp add: quota_env_def sample_env_simps)
  have c7: "snd (POST quota_env (Some (sample_request ?url 5))) =
        error_response 429 (str ''Failed to fetch recent videos. Check your API key quota.'')"
    using T7[of quota_env, THEN conjunct1, rule_format, OF quota] message_classes
    by (simp add: error_response_def error_message_def)
  have badkey: "accepted badkey_env (sample_request ?url 5) (sample_data ?url 5)
        (Handle (str ''@sample''))
      \<and> pipeline badkey_env (sample_data ?url 5) (Handle (str ''@sample''))
        = ([SearchChannels (str ''sample'') (str ''AIza-sample-key''),
            ChannelsById (str ''UC1'') (str ''AIza-sample-key''),
            SearchVideos (str ''UC1'') 5 (str ''AIza-sample-key'')],
           Inl (Error (str ''401 Incorrect API key provided'')))"
    using accepted_sample[of badkey_env] badkey_pipeline
    by (simp add: badkey_env_def sample_env_simps)
  have c8: "snd (POST badkey_env (Some (sample_request ?url 5))) =
        error_response 401 (str ''401 Incorrect API key provided'')"
    using T7[of badkey_env, THEN conjunct1, rule_format, OF badkey] message_classes
    by (simp add: error_response_def error_message_def)
  have outage: "accepted outage_env (sample_request ?url 5) (sample_data ?url 5)
        (Handle (str ''@sample''))
      \<and> pipeline outage_env (sample_data ?url 5) (Handle (str ''@sample''))
        = ([SearchChannels (str ''sample'') (str ''AIza-sample-key''),
            ChannelsById (str ''UC1'') (str ''AIza-sample-key'')],
           Inl (Error (str ''Failed to fetch channel metadata.'')))"
    using accepted_sample[of outage_env] outage_pipeline
    by (simp add: outage_env_def sample_env_simps)
  have c9: "snd (POST outage_env (Some (sample_request ?url 5))) =
        error_response 500 (str ''Failed to build script style.'')"
    using T7[of outage_env, THEN conjunct1, rule_format, OF outage] message_classes
    by (simp add: error_response_def error_message_def)
  have ok: "accepted sample_env (sample_request ?url 5) (sample_data ?url 5)
        (Handle (str ''@sample''))
      \<and> resolveChannelDetails (youtube sample_env) (Some (Handle (str ''@sample'')))
          (youtubeApiKey (sample_data ?url 5)) (videoCount (sample_data ?url 5))
        = ([SearchChannels (str ''sample'') (str ''AIza-sample-key''),
            ChannelsById (str ''UC1'') (str ''AIza-sample-key''),
            SearchVideos (str ''UC1'') 5 (str ''AIza-sample-key'')],
           Inr (Some \<lparr>channelId = str ''UC1'', channelTitle = str ''Sample Channel'',
             videos = sample_videos\<rparr>))
      \<and> fetchTranscripts (fetchTranscript sample_env)
          (videos \<lparr>channelId = str ''UC1'', channelTitle = str ''Sample Channel'',
             videos = sample_videos\<rparr>) = Inr sample_samples
      \<and> sample_samples \<noteq> []
      \<and> synthesize sample_env (sample_data ?url 5)
          (channelTitle \<lparr>channelId = str ''UC1'', channelTitle = str ''Sample Channel'',
             videos = sample_videos\<rparr>) sample_samples
        = Inr \<lparr>status = 200,
          resp_body = AnalysisBody
            \<lparr>out_channelTitle = str ''Sample Channel'',
             styleSummary = \<lparr>voiceTone = Some (JStr (str ''warm'')), narrativeStructure = None,
                recurringDevices = None, pacing = None, audienceEngagement = None\<rparr>,
             writingGuidelines = [JStr (str ''a''), JStr (str ''b''), JStr (str ''c''),
                JStr (str ''d''), JStr (str ''e''), JStr (str ''f'')],
             generatedScript = str ''Once upon a time.'',
             sampledTranscripts =
               map (\<lambda>entry. \<lparr>out_videoId = sample_videoId entry, out_title = sample_title entry,
                              excerpt = snippetExcerpt entry\<rparr>) sample_samples\<rparr>\<rparr>"
    using accepted_sample[of sample_env] sample_resolved_videos sample_transcripts
      sample_synthesized[of ?url 5 "str ''Sample Channel''" sample_samples]
    by (simp add: sample_env_simps sample_data_simps sample_samples_def)
  have c10: "status (snd (POST sample_env (Some (sample_request ?url 5)))) = 200"
    using T8[of sample_env, rule_format, OF ok] by simp
  show ?thesis
    by (intro conjI) (rule c1 bad c2 good c3 c4 c5 c6 c7 c8 c9 c10)+
qed

text \<open>
  C10. When the pipeline fails with an error whose message contains neither \<^verbatim>\<open>quota\<close> nor
  \<^verbatim>\<open>API key\<close>, the response is status 500 with the fixed body
  \<^verbatim>\<open>Failed to build script style.\<close>: two runs failing with two such errors answer with the
  same response, and an error response carries the raised error's text only with status 429
  or 401.
\<close>

theorem failure_body_is_fixed:
  assumes "accepted e body req ident" and "pipeline e req ident = (calls, Inl err)"
    and "accepted e' body' req' ident'" and "pipeline e' req' ident' = (calls', Inl err')"
    and "\<not> js_includes (error_message err) (str ''quota'')"
    and "\<not> js_includes (error_message err) (str ''API key'')"
    and "\<not> js_includes (error_message err') (str ''quota'')"
    and "\<not> js_includes (error_message err') (str ''API key'')"
  shows "snd (POST e (Some body)) = error_response 500 (str ''Failed to build script style.'')
    \<and> snd (POST e' (Some body')) = snd (POST e (Some body))
    \<and> (\<forall>e2 body2 req2 ident2 calls2 err2.
          accepted e2 body2 req2 ident2 \<and> pipeline e2 req2 ident2 = (calls2, Inl err2)
          \<and> resp_body (snd (POST e2 (Some body2))) \<noteq> ErrorBody (str ''Failed to build script style.'')
          \<longrightarrow> resp_body (snd (POST e2 (Some body2))) = ErrorBody (error_message err2)
              \<and> (status (snd (POST e2 (Some body2))) = 429
                 \<or> status (snd (POST e2 (Some body2))) = 401))"
proof (intro conjI allI impI)
  show first: "snd (POST e (Some body)) = error_response 500 (str ''Failed to build script style.'')"
    using POST_accepted[OF assms(1)] assms(2,5,6)
    by (simp add: catch_response_eq error_response_def)
  have "snd (POST e' (Some body')) = error_response 500 (str ''Failed to build script style.'')"
    using POST_accepted[OF assms(3)] assms(4,7,8)
    by (simp add: catch_response_eq error_response_def)
  with first show "snd (POST e' (Some body')) = snd (POST e (Some body))"
    by simp
next
  fix e2 body2 req2 ident2 calls2 err2
  assume h: "accepted e2 body2 req2 ident2 \<and> pipeline e2 req2 ident2 = (calls2, Inl err2)
          \<and> resp_body (snd (POST e2 (Some body2))) \<noteq> ErrorBody (str ''Failed to build script style.'')"
  then have eq: "snd (POST e2 (Some body2)) = catch_response err2"
    using POST_accepted[of e2 body2 req2 ident2] by simp
  with h show "resp_body (snd (POST e2 (Some body2))) = ErrorBody (error_message err2)"
    by (simp add: catch_response_eq split: if_splits)
  from eq h show "status (snd (POST e2 (Some body2))) = 429
                 \<or> status (snd (POST e2 (Some body2))) = 401"
    by (simp add: catch_response_eq split: if_splits)
qed

theorem failure_body_is_fixed_witness:
  "snd (POST outage_env (Some (sample_request (str ''https://www.youtube.com/@sample'') 5)))
     = error_response 500 (str ''Failed to build script style.'')
   \<and> snd (POST mute_env (Some (sample_request (str ''https://www.youtube.com/@sample'') 5)))
     = snd (POST outage_env (Some (sample_request (str ''https://www.youtube.com/@sample'') 5)))
   \<and> error_message (Error (str ''Failed to fetch channel metadata.''))
     \<noteq> error_message (Error (str ''Model response missing JSON object.''))
   \<and> resp_body (snd (POST quota_env
        (Some (sample_request (str ''https://www.youtube.com/@sample'') 5))))
     = ErrorBody (error_message
         (Error (str ''Failed to fetch recent videos. Check your API key quota.'')))
   \<and> status (snd (POST quota_env
        (Some (sample_request (str ''https://www.youtube.com/@sample'') 5)))) = 429"
proof -
  let ?body = "sample_request (str ''https://www.youtube.com/@sample'') 5"
  let ?req = "sample_data (str ''https://www.youtube.com/@sample'') 5"
  have a1: "accepted outage_env ?body ?req (Handle (str ''@sample''))"
    by (rule accepted_sample) (simp add: outage_env_def sample_env_simps)
  have a2: "accepted mute_env ?body ?req (Handle (str ''@sample''))"
    by (rule accepted_sample) (simp add: mute_env_def sample_env_simps)
  have a3: "accepted quota_env ?body ?req (Handle (str ''@sample''))"
    by (rule accepted_sample) (simp add: quota_env_def sample_env_simps)
  have m: "\<not> js_includes (error_message (Error (str ''Failed to fetch channel metadata.'')))
             (str ''quota'')"
    "\<not> js_includes (error_message (Error (str ''Failed to fetch channel metadata.'')))
             (str ''API key'')"
    "\<not> js_includes (error_message (Error (str ''Model response missing JSON object.'')))
             (str ''quota'')"
    "\<not> js_includes (error_message (Error (str ''Model response missing JSON object.'')))
             (str ''API key'')"
    using message_classes by (simp_all add: error_message_def)
  note T = failure_body_is_fixed[OF a1 outage_pipeline a2 mute_pipeline m]
  have differ: "error_message (Error (str ''Failed to fetch channel metadata.''))
     \<noteq> error_message (Error (str ''Model response missing JSON object.''))"
    by (simp add: error_message_def str_def)
  have q: "resp_body (snd (POST quota_env (Some ?body)))
      \<noteq> ErrorBody (str ''Failed to build script style.'')"
    using POST_accepted[OF a3] quota_pipeline message_classes
    by (simp add: catch_response_eq error_message_def) (simp add: str_def)
  have exposed: "resp_body (snd (POST quota_env (Some ?body)))
        = ErrorBody (error_message
            (Error (str ''Failed to fetch recent videos. Check your API key quota.'')))
      \<and> (status (snd (POST quota_env (Some ?body))) = 429
         \<or> status (snd (POST quota_env (Some ?body))) = 401)"
    using T[THEN conjunct2, THEN conjunct2, rule_format, of quota_env ?body ?req
        "Handle (str ''@sample'')" _ "Error (str ''Failed to fetch recent videos. Check your API key quota.'')"]
      a3 quota_pipeline q by simp
  have st: "status (snd (POST quota_env (Some ?body))) = 429"
    using POST_accepted[OF a3] quota_pipeline message_classes
    by (simp add: catch_response_eq error_message_def)
  from T differ exposed st show ?thesis by blast
qed

lemma path_segments_nonempty: "s \<in> set (path_segments pathname) \<Longrightarrow> s \<noteq> []"
  by (simp add: path_segments_def)

lemma second_segment_exists:
  assumes "path_segments pathname = first # rest"
  shows "truthy (at_index (first # rest) 1) \<longleftrightarrow> rest \<noteq> []"
proof (cases rest)
  case Nil
  then show ?thesis by (simp add: truthy_def at_index_def)
next
  case (Cons second more)
  with assms have "second \<in> set (path_segments pathname)" by simp
  then have "second \<noteq> []" by (rule path_segments_nonempty)
  with Cons show ?thesis by (simp add: truthy_def at_index_def)
qed

lemma slice_from_one: "slice_from s 1 = drop 1 s"
  by (cases s) (simp_all add: slice_from_def slice_def)

lemma js_split_nonempty: "js_split sep s \<noteq> []"
  by (induction s) (auto split: list.splits)

lemma trim_keeps_head:
  assumes "\<not> isWhiteSpace c"
  shows "\<exists>r. trim (c # s) = c # r"
proof -
  have "dropWhile isWhiteSpace (rev s @ [c]) = dropWhile isWhiteSpace (rev s) @ [c]"
    using assms by (simp add: dropWhile_append)
  then have "trim (c # s) = c # rev (dropWhile isWhiteSpace (rev s))"
    using assms by (simp add: trim_def)
  then show ?thesis by blast
qed

lemma at_sign_not_space: "\<not> isWhiteSpace 0x40"
  by (simp add: isWhiteSpace_def)

lemma handle_path_first_segment:
  assumes "startsWith pathname (str ''/@'')"
  shows "\<exists>first rest. path_segments pathname = first # rest \<and> startsWith first (str ''@'')"
proof -
  from assms obtain r where p: "pathname = 0x2F # 0x40 # r"
    by (auto simp: startsWith_iff str_def)
  obtain piece pieces where sp: "js_split 0x2F (r) = piece # pieces"
    using js_split_nonempty[of "0x2F" r] by (cases "js_split 0x2F r") auto
  have "js_split 0x2F pathname = [] # (0x40 # piece) # pieces"
    using p sp by simp
  moreover obtain t where "trim (0x40 # piece) = 0x40 # t"
    using trim_keeps_head[OF at_sign_not_space] by blast
  ultimately have "path_segments pathname
      = (0x40 # t) # filter (\<lambda>s. s \<noteq> []) (map trim pieces)"
    by (simp add: path_segments_def trim_def)
  then show ?thesis
    by (simp add: startsWith_def str_def)
qed

text \<open>
  C4. The Identifier Extractor is a function of the URL alone (given the platform's URL
  parser), and decides by these rules in this order: absent when the URL does not parse or
  its path has no segment; Handle of the first segment when that is \<^verbatim>\<open>@\<close> or starts with
  \<^verbatim>\<open>@\<close>; Id of the second segment when the first is \<^verbatim>\<open>channel\<close> and a second exists; Custom
  of the second segment when the first is \<^verbatim>\<open>c\<close> or \<^verbatim>\<open>user\<close> and a second exists; Handle of
  the path without its leading slash when the path starts with \<^verbatim>\<open>/@\<close>; absent otherwise.
\<close>

theorem extractChannelIdentifier_rules:
  "extractChannelIdentifier url_parser url =
     (case url_parser url of
        None \<Rightarrow> None
      | Some pathname \<Rightarrow>
          (case path_segments pathname of
             [] \<Rightarrow> None
           | first # rest \<Rightarrow>
               if first = str ''@'' \<or> startsWith first (str ''@'') then Some (Handle first)
               else if first = str ''channel'' \<and> rest \<noteq> [] then Some (Id (hd rest))
               else if (first = str ''c'' \<or> first = str ''user'') \<and> rest \<noteq> []
                 then Some (Custom (hd rest))
               else if startsWith pathname (str ''/@'') then Some (Handle (drop 1 pathname))
               else None))"
proof (cases "url_parser url")
  case None
  then show ?thesis by (simp add: extractChannelIdentifier_def)
next
  case (Some pathname)
  show ?thesis
  proof (cases "path_segments pathname")
    case Nil
    with Some show ?thesis by (simp add: extractChannelIdentifier_def)
  next
    case (Cons first rest)
    show ?thesis
    proof (cases rest)
      case Nil
      with Some Cons show ?thesis
        by (simp add: extractChannelIdentifier_def Let_def slice_from_one truthy_def
            at_index_def)
    next
      case inner: (Cons second more)
      with Cons have "second \<in> set (path_segments pathname)" by simp
      then have "second \<noteq> []" by (rule path_segments_nonempty)
      with Some Cons inner show ?thesis
        by (simp add: extractChannelIdentifier_def Let_def slice_from_one truthy_def
            at_index_def)
    qed
  qed
qed

theorem extractChannelIdentifier_rules_witness:
  "extractChannelIdentifier sample_pathname (str ''not a url'') = None
   \<and> extractChannelIdentifier sample_pathname (str ''https://www.youtube.com/'') = None
   \<and> extractChannelIdentifier sample_pathname (str ''https://www.youtube.com/@sample/videos'')
       = Some (Handle (str ''@sample''))
   \<and> extractChannelIdentifier sample_pathname (str ''https://www.youtube.com/channel/UC123'')
       = Some (Id (str ''UC123''))
   \<and> extractChannelIdentifier sample_pathname (str ''https://www.youtube.com/c/name'')
       = Some (Custom (str ''name''))
   \<and> extractChannelIdentifier sample_pathname (str ''https://www.youtube.com/user/name'')
       = Some (Custom (str ''name''))
   \<and> extractChannelIdentifier sample_pathname (str ''https://www.youtube.com/channel'') = None
   \<and> extractChannelIdentifier sample_pathname (str ''https://www.youtube.com/watch'') = None"
  by (simp add: extractChannelIdentifier_rules sample_pathname_def string_defs)

lemma indexOf_lower: "- 1 \<le> indexOf s c"
  by (induction s) (auto simp: Let_def)

lemma indexOf_absent: "indexOf s c = - 1 \<longleftrightarrow> c \<notin> set s"
proof (induction s)
  case Nil
  then show ?case by simp
next
  case (Cons x xs)
  have "- 1 \<le> indexOf xs c" by (rule indexOf_lower)
  with Cons show ?case by (auto simp: Let_def)
qed

lemma indexOf_first: "c \<notin> set pre \<Longrightarrow> indexOf (pre @ c # rest) c = int (length pre)"
proof (induction pre)
  case Nil
  then show ?case by simp
next
  case (Cons x xs)
  then show ?case by (auto simp: Let_def)
qed

lemma lastIndexOf_lower: "- 1 \<le> lastIndexOf s c"
  by (induction s) (auto simp: Let_def)

lemma lastIndexOf_absent: "lastIndexOf s c = - 1 \<longleftrightarrow> c \<notin> set s"
proof (induction s)
  case Nil
  then show ?case by simp
next
  case (Cons x xs)
  have "- 1 \<le> lastIndexOf xs c" by (rule lastIndexOf_lower)
  with Cons show ?case by (auto simp: Let_def)
qed

lemma lastIndexOf_last: "c \<notin> set post \<Longrightarrow> lastIndexOf (pre @ c # post) c = int (length pre)"
proof (induction pre)
  case Nil
  then have "lastIndexOf post c = - 1" by (simp add: lastIndexOf_absent)
  then show ?case by simp
next
  case (Cons x xs)
  then show ?case by (auto simp: Let_def)
qed

lemma slice_inside:
  "0 \<le> b \<Longrightarrow> b \<le> e \<Longrightarrow> e \<le> int (length s) \<Longrightarrow>
   slice s b e = take (nat (e - b)) (drop (nat b) s)"
  by (simp add: slice_def Let_def min_def)

lemma parse_missing_delimiter:
  "0x7B \<notin> set reply \<or> 0x7D \<notin> set reply \<Longrightarrow>
   parseJsonObject P reply = Inl (Error (str ''Model response missing JSON object.''))"
  by (auto simp: parseJsonObject_def Let_def indexOf_absent lastIndexOf_absent)

lemma parse_closing_first:
  assumes "reply = pre @ 0x7D # post" and "0x7D \<notin> set post" and "0x7B \<notin> set pre"
  shows "parseJsonObject P reply = Inl (Error (str ''Model response missing JSON object.''))"
proof (cases "0x7B \<in> set reply")
  case False
  then show ?thesis by (simp add: parse_missing_delimiter)
next
  case True
  have stop: "lastIndexOf reply 0x7D = int (length pre)"
    using assms(1,2) by (simp add: lastIndexOf_last)
  from True assms(1,3) have "0x7B \<in> set post" by auto
  then obtain a b where post: "post = a @ 0x7B # b" and a: "0x7B \<notin> set a"
    by (meson split_list_first)
  have "reply = (pre @ 0x7D # a) @ 0x7B # b" using assms(1) post by simp
  moreover have "0x7B \<notin> set (pre @ 0x7D # a)" using assms(3) a by simp
  ultimately have "indexOf reply 0x7B = int (length (pre @ 0x7D # a))"
    using indexOf_first by blast
  with stop show ?thesis by (simp add: parseJsonObject_def Let_def)
qed

lemma parse_between_delimiters:
  assumes "reply = pre @ 0x7B # mid @ 0x7D # post" and "0x7B \<notin> set pre" and "0x7D \<notin> set post"
  shows "parseJsonObject P reply =
     (case P (0x7B # mid @ [0x7D]) of
        None \<Rightarrow> Inl (Error (str ''Model response was not valid JSON.''))
      | Some v \<Rightarrow> Inr v)"
proof -
  have start: "indexOf reply 0x7B = int (length pre)"
    using assms(1,2) by (simp add: indexOf_first)
  have "reply = (pre @ 0x7B # mid) @ 0x7D # post" using assms(1) by simp
  then have stop: "lastIndexOf reply 0x7D = int (length (pre @ 0x7B # mid))"
    using assms(3) lastIndexOf_last by blast
  have "slice reply (int (length pre)) (int (length (pre @ 0x7B # mid)) + 1)
      = take (nat (int (length (pre @ 0x7B # mid)) + 1 - int (length pre)))
          (drop (nat (int (length pre))) reply)"
    by (rule slice_inside) (simp_all add: assms(1))
  also have "\<dots> = take (Suc (Suc (length mid))) (0x7B # mid @ 0x7D # post)"
    by (simp add: assms(1) nat_add_distrib)
  also have "\<dots> = 0x7B # mid @ [0x7D]"
    by simp
  finally have sl: "slice reply (int (length pre)) (int (length (pre @ 0x7B # mid)) + 1)
      = 0x7B # mid @ [0x7D]" .
  show ?thesis
    unfolding parseJsonObject_def Let_def start stop sl by simp
qed

lemma synthesize_not_array:
  assumes "openai_create e (openAiKey req) (StylePrompt t ts) = Inr (Some reply)"
    and "parseJsonObject (json_parse e) reply = Inr v"
    and "\<forall>entries. member_of v (str ''writingGuidelines'') \<noteq> Some (JArr entries)"
  shows "synthesize e req t ts =
     Inl (Error (if v = JNull then str ''Cannot read properties of null''
                 else str ''Style payload missing writing guidelines.''))"
proof -
  have "reply \<noteq> []"
    using assms(2) parse_missing_delimiter[of "[]" "json_parse e"] by auto
  then have "synthesize e req t ts =
      bind_outcome (get_member v (str ''writingGuidelines''))
        (\<lambda>guidelines. case guidelines of
            Some (JArr entries) \<Rightarrow> Inl (Error [])
          | _ \<Rightarrow> Inl (Error (str ''Style payload missing writing guidelines.'')))"
    using assms by (auto simp: synthesize_def bind_outcome_def truthy_def get_member_def
        split: option.splits json.splits)
  then show ?thesis
    using assms(3) by (auto simp: bind_outcome_def get_member_def split: option.splits json.splits)
qed

lemma synthesize_guidelines:
  assumes "openai_create e (openAiKey req) (StylePrompt t ts) = Inr (Some reply)"
    and "parseJsonObject (json_parse e) reply = Inr v"
    and "member_of v (str ''writingGuidelines'') = Some (JArr entries)"
    and "synthesize e req t ts = Inr res"
  shows "\<exists>a. resp_body res = AnalysisBody a \<and> writingGuidelines a = take 6 entries"
proof -
  have "reply \<noteq> []"
    using assms(2) parse_missing_delimiter[of "[]" "json_parse e"] by auto
  moreover have "v \<noteq> JNull" using assms(3) by (auto simp: member_of_def)
  ultimately show ?thesis
    using assms
    by (auto simp: synthesize_def bind_outcome_def truthy_def get_member_def Let_def
        split: sum.splits if_splits)
qed

text \<open>
  C5. The JSON recovery of the Style Extractor parses the substring from the first \<^verbatim>\<open>{\<close>
  to the last \<^verbatim>\<open>}\<close> of the model's output. It fails when one of the two is absent, when
  the last \<^verbatim>\<open>}\<close> stands before the first \<^verbatim>\<open>{\<close>, or when the substring does not parse.
  After a successful parse, a \<^verbatim>\<open>writingGuidelines\<close> member that is not an array is a
  failure too, and an array is cut to its first 6 entries.
\<close>

theorem style_json_recovery:
  "(\<forall>reply. 0x7B \<notin> set reply \<or> 0x7D \<notin> set reply \<longrightarrow>
       parseJsonObject P reply = Inl (Error (str ''Model response missing JSON object.'')))
   \<and> (\<forall>pre post. 0x7B \<notin> set pre \<and> 0x7D \<notin> set post \<longrightarrow>
       parseJsonObject P (pre @ 0x7D # post)
         = Inl (Error (str ''Model response missing JSON object.'')))
   \<and> (\<forall>pre mid post. 0x7B \<notin> set pre \<and> 0x7D \<notin> set post \<longrightarrow>
       parseJsonObject P (pre @ 0x7B # mid @ 0x7D # post)
         = (case P (0x7B # mid @ [0x7D]) of
              None \<Rightarrow> Inl (Error (str ''Model response was not valid JSON.''))
            | Some v \<Rightarrow> Inr v))
   \<and> (\<forall>e req t ts reply v. json_parse e = P
         \<and> openai_create e (openAiKey req) (StylePrompt t ts) = Inr (Some reply)
         \<and> parseJsonObject P reply = Inr v
         \<and> (\<forall>entries. member_of v (str ''writingGuidelines'') \<noteq> Some (JArr entries)) \<longrightarrow>
       synthesize e req t ts =
         Inl (Error (if v = JNull then str ''Cannot read properties of null''
                     else str ''Style payload missing writing guidelines.'')))
   \<and> (\<forall>e req t ts reply v entries res. json_parse e = P
         \<and> openai_create e (openAiKey req) (StylePrompt t ts) = Inr (Some reply)
         \<and> parseJsonObject P reply = Inr v
         \<and> member_of v (str ''writingGuidelines'') = Some (JArr entries)
         \<and> synthesize e req t ts = Inr res \<longrightarrow>
       (\<exists>a. resp_body res = AnalysisBody a \<and> writingGuidelines a = take 6 entries
            \<and> length (writingGuidelines a) \<le> 6))"
proof (intro conjI allI impI)
  fix reply :: jsstring
  assume "0x7B \<notin> set reply \<or> 0x7D \<notin> set reply"
  then show "parseJsonObject P reply = Inl (Error (str ''Model response missing JSON object.''))"
    by (rule parse_missing_delimiter)
next
  fix pre post :: jsstring
  assume "0x7B \<notin> set pre \<and> 0x7D \<notin> set post"
  then show "parseJsonObject P (pre @ 0x7D # post)
         = Inl (Error (str ''Model response missing JSON object.''))"
    using parse_closing_first[of "pre @ 0x7D # post" pre post P] by simp
next
  fix pre mid post :: jsstring
  assume "0x7B \<notin> set pre \<and> 0x7D \<notin> set post"
  then show "parseJsonObject P (pre @ 0x7B # mid @ 0x7D # post)
         = (case P (0x7B # mid @ [0x7D]) of
              None \<Rightarrow> Inl (Error (str ''Model response was not valid JSON.''))
            | Some v \<Rightarrow> Inr v)"
    using parse_between_delimiters[of "pre @ 0x7B # mid @ 0x7D # post" pre mid post P] by simp
next
  fix e :: env and req :: request_data and t ts reply v
  assume "json_parse e = P
         \<and> openai_create e (openAiKey req) (StylePrompt t ts) = Inr (Some reply)
         \<and> parseJsonObject P reply = Inr v
         \<and> (\<forall>entries. member_of v (str ''writingGuidelines'') \<noteq> Some (JArr entries))"
  then show "synthesize e req t ts =
         Inl (Error (if v = JNull then str ''Cannot read properties of null''
                     else str ''Style payload missing writing guidelines.''))"
    using synthesize_not_array[of e req t ts reply v] by blast
next
  fix e :: env and req :: request_data and t ts reply v entries res
  assume "json_parse e = P
         \<and> openai_create e (openAiKey req) (StylePrompt t ts) = Inr (Some reply)
         \<and> parseJsonObject P reply = Inr v
         \<and> member_of v (str ''writingGuidelines'') = Some (JArr entries)
         \<and> synthesize e req t ts = Inr res"
  then obtain a where "resp_body res = AnalysisBody a" "writingGuidelines a = take 6 entries"
    using synthesize_guidelines[of e req t ts reply v entries res] by blast
  then show "\<exists>a. resp_body res = AnalysisBody a \<and> writingGuidelines a = take 6 entries
            \<and> length (writingGuidelines a) \<le> 6"
    by auto
qed

theorem style_json_recovery_witness:
  "parseJsonObject sample_json_parse (str ''I cannot help with that.'')
     = Inl (Error (str ''Model response missing JSON object.''))
   \<and> parseJsonObject sample_json_parse (str ''} then {'')
     = Inl (Error (str ''Model response missing JSON object.''))
   \<and> parseJsonObject sample_json_parse (str ''Here you go: {oops} Enjoy!'')
     = Inl (Error (str ''Model response was not valid JSON.''))
   \<and> parseJsonObject sample_json_parse (str ''Here you go: '' @ sample_style_text @ str '' Enjoy!'')
     = Inr (JObj [(str ''voiceTone'', JStr (str ''warm'')),
                  (str ''writingGuidelines'',
                   JArr [JStr (str ''a''), JStr (str ''b''), JStr (str ''c''), JStr (str ''d''),
                         JStr (str ''e''), JStr (str ''f''), JStr (str ''g'')])])
   \<and> synthesize stringy_env (sample_data (str ''https://www.youtube.com/@sample'') 5)
         (str ''Sample Channel'') sample_samples
     = Inl (Error (str ''Style payload missing writing guidelines.''))
   \<and> (\<exists>res a. synthesize sample_env (sample_data (str ''https://www.youtube.com/@sample'') 5)
           (str ''Sample Channel'') sample_samples = Inr res
         \<and> resp_body res = AnalysisBody a
         \<and> writingGuidelines a =
             [JStr (str ''a''), JStr (str ''b''), JStr (str ''c''), JStr (str ''d''),
              JStr (str ''e''), JStr (str ''f'')]
         \<and> length (writingGuidelines a) \<le> 6)"
proof -
  let ?req = "sample_data (str ''https://www.youtube.com/@sample'') 5"
  let ?title = "str ''Sample Channel''"
  let ?seven = "[JStr (str ''a''), JStr (str ''b''), JStr (str ''c''), JStr (str ''d''),
                 JStr (str ''e''), JStr (str ''f''), JStr (str ''g'')]"
  let ?obj = "JObj [(str ''voiceTone'', JStr (str ''warm'')), (str ''writingGuidelines'', JArr ?seven)]"
  note T = style_json_recovery[of sample_json_parse]
  note T2 = T[THEN conjunct2]
  note T3 = T2[THEN conjunct2]
  note T4 = T3[THEN conjunct2]
  note T5 = T4[THEN conjunct2]
  have "0x7B \<notin> set (str ''I cannot help with that.'') \<or> 0x7D \<notin> set (str ''I cannot help with that.'')"
    by (simp add: str_def)
  from T[THEN conjunct1, rule_format, OF this]
  have c1: "parseJsonObject sample_json_parse (str ''I cannot help with that.'')
     = Inl (Error (str ''Model response missing JSON object.''))" .
  have "0x7B \<notin> set ([]::jsstring) \<and> 0x7D \<notin> set (str '' then {'')"
    by (simp add: str_def)
  from T2[THEN conjunct1, rule_format, OF this]
  have c2: "parseJsonObject sample_json_parse (str ''} then {'')
     = Inl (Error (str ''Model response missing JSON object.''))"
    by (simp add: str_def)
  have delim: "0x7B \<notin> set (str ''Here you go: '') \<and> 0x7D \<notin> set (str '' Enjoy!'')"
    by (simp add: str_def)
  have "parseJsonObject sample_json_parse (str ''Here you go: '' @ 0x7B # str ''oops'' @ 0x7D # str '' Enjoy!'')
      = (case sample_json_parse (0x7B # str ''oops'' @ [0x7D]) of
              None \<Rightarrow> Inl (Error (str ''Model response was not valid JSON.''))
            | Some v \<Rightarrow> Inr v)"
    using T3[THEN conjunct1, rule_format, OF delim] .
  then have c3: "parseJsonObject sample_json_parse (str ''Here you go: {oops} Enjoy!'')
     = Inl (Error (str ''Model response was not valid JSON.''))"
    by (simp add: str_def sample_json_parse_def sample_style_text_def)
  have "parseJsonObject sample_json_parse
        (str ''Here you go: '' @ 0x7B # butlast (tl sample_style_text) @ 0x7D # str '' Enjoy!'')
      = (case sample_json_parse (0x7B # butlast (tl sample_style_text) @ [0x7D]) of
              None \<Rightarrow> Inl (Error (str ''Model response was not valid JSON.''))
            | Some v \<Rightarrow> Inr v)"
    using T3[THEN conjunct1, rule_format, OF delim] .
  moreover have "0x7B # butlast (tl sample_style_text) @ [0x7D] = sample_style_text"
    by (simp add: sample_style_text_def str_def)
  moreover have "0x7B # butlast (tl sample_style_text) @ 0x7D # str '' Enjoy!''
      = sample_style_text @ str '' Enjoy!''"
    by (simp add: sample_style_text_def str_def)
  ultimately have c4: "parseJsonObject sample_json_parse
        (str ''Here you go: '' @ sample_style_text @ str '' Enjoy!'') = Inr ?obj"
    by (simp add: sample_json_parse_def)
  have stringy: "json_parse stringy_env = sample_json_parse
      \<and> openai_create stringy_env (openAiKey ?req) (StylePrompt ?title sample_samples)
          = Inr (Some (str ''{\"writingGuidelines\":\"none\"}''))
      \<and> parseJsonObject sample_json_parse (str ''{\"writingGuidelines\":\"none\"}'')
          = Inr (JObj [(str ''writingGuidelines'', JStr (str ''none''))])
      \<and> (\<forall>entries. member_of (JObj [(str ''writingGuidelines'', JStr (str ''none''))])
            (str ''writingGuidelines'') \<noteq> Some (JArr entries))"
    by (simp add: stringy_env_def sample_env_def parseJsonObject_def sample_json_parse_def
        sample_style_text_def member_of_def string_defs)
  have c5: "synthesize stringy_env ?req ?title sample_samples
     = Inl (Error (str ''Style payload missing writing guidelines.''))"
    using T4[THEN conjunct1, rule_format, OF stringy] by simp
  have res: "synthesize sample_env ?req ?title sample_samples =
     Inr \<lparr>status = 200,
          resp_body = AnalysisBody
            \<lparr>out_channelTitle = ?title,
             styleSummary = \<lparr>voiceTone = Some (JStr (str ''warm'')), narrativeStructure = None,
                recurringDevices = None, pacing = None, audienceEngagement = None\<rparr>,
             writingGuidelines = [JStr (str ''a''), JStr (str ''b''), JStr (str ''c''),
                JStr (str ''d''), JStr (str ''e''), JStr (str ''f'')],
             generatedScript = str ''Once upon a time.'',
             sampledTranscripts =
               map (\<lambda>entry. \<lparr>out_videoId = sample_videoId entry, out_title = sample_title entry,
                              excerpt = snippetExcerpt entry\<rparr>) sample_samples\<rparr>\<rparr>"
    by (rule sample_synthesized)
  have filled: "json_parse sample_env = sample_json_parse
      \<and> openai_create sample_env (openAiKey ?req) (StylePrompt ?title sample_samples)
          = Inr (Some (str ''Here you go: '' @ sample_style_text @ str '' Enjoy!''))
      \<and> parseJsonObject sample_json_parse
          (str ''Here you go: '' @ sample_style_text @ str '' Enjoy!'') = Inr ?obj
      \<and> member_of ?obj (str ''writingGuidelines'') = Some (JArr ?seven)
      \<and> synthesize sample_env ?req ?title sample_samples =
     Inr \<lparr>status = 200,
          resp_body = AnalysisBody
            \<lparr>out_channelTitle = ?title,
             styleSummary = \<lparr>voiceTone = Some (JStr (str ''warm'')), narrativeStructure = None,
                recurringDevices = None, pacing = None, audienceEngagement = None\<rparr>,
             writingGuidelines = [JStr (str ''a''), JStr (str ''b''), JStr (str ''c''),
                JStr (str ''d''), JStr (str ''e''), JStr (str ''f'')],
             generatedScript = str ''Once upon a time.'',
             sampledTranscripts =
               map (\<lambda>entry. \<lparr>out_videoId = sample_videoId entry, out_title = sample_title entry,
                              excerpt = snippetExcerpt entry\<rparr>) sample_samples\<rparr>\<rparr>"
    using c4 res by (simp add: sample_env_simps sample_openai_def member_of_def str_def)
  from T5[rule_format, OF filled]
  obtain a where a: "resp_body \<lparr>status = 200,
          resp_body = AnalysisBody
            \<lparr>out_channelTitle = ?title,
             styleSummary = \<lparr>voiceTone = Some (JStr (str ''warm'')), narrativeStructure = None,
                recurringDevices = None, pacing = None, audienceEngagement = None\<rparr>,
             writingGuidelines = [JStr (str ''a''), JStr (str ''b''), JStr (str ''c''),
                JStr (str ''d''), JStr (str ''e''), JStr (str ''f'')],
             generatedScript = str ''Once upon a time.'',
             sampledTranscripts =
               map (\<lambda>entry. \<lparr>out_videoId = sample_videoId entry, out_title = sample_title entry,
                              excerpt = snippetExcerpt entry\<rparr>) sample_samples\<rparr>\<rparr> = AnalysisBody a"
      "writingGuidelines a = take 6 ?seven" "length (writingGuidelines a) \<le> 6"
    by blast
  have c6: "\<exists>res a. synthesize sample_env ?req ?title sample_samples = Inr res
         \<and> resp_body res = AnalysisBody a
         \<and> writingGuidelines a =
             [JStr (str ''a''), JStr (str ''b''), JStr (str ''c''), JStr (str ''d''),
              JStr (str ''e''), JStr (str ''f'')]
         \<and> length (writingGuidelines a) \<le> 6"
    using res a by (intro exI[of _ "\<lparr>status = 200, resp_body = AnalysisBody a\<rparr>"] exI[of _ a]) simp
  show ?thesis
    by (intro conjI) (rule c1 c2 c3 c4 c5 c6)+
qed

subsection \<open>Normalised transcript text\<close>

lemma js_includes_iff: "js_includes s sub \<longleftrightarrow> (\<exists>pre post. s = pre @ sub @ post)"
proof (induction s)
  case Nil
  then show ?case by auto
next
  case (Cons c cs)
  show ?case
  proof
    assume "js_includes (c # cs) sub"
    then consider "startsWith (c # cs) sub" | "js_includes cs sub" by auto
    then show "\<exists>pre post. c # cs = pre @ sub @ post"
    proof cases
      case 1
      then obtain post where "c # cs = sub @ post" by (auto simp: startsWith_iff)
      then have "c # cs = [] @ sub @ post" by simp
      then show ?thesis by blast
    next
      case 2
      then obtain pre post where "cs = pre @ sub @ post" using Cons.IH by auto
      then have "c # cs = (c # pre) @ sub @ post" by simp
      then show ?thesis by blast
    qed
  next
    assume "\<exists>pre post. c # cs = pre @ sub @ post"
    then obtain pre post where eq: "c # cs = pre @ sub @ post" by blast
    show "js_includes (c # cs) sub"
    proof (cases pre)
      case Nil
      with eq have "startsWith (c # cs) sub" by (auto simp: startsWith_iff)
      then show ?thesis by simp
    next
      case (Cons p ps)
      with eq have "cs = ps @ sub @ post" by simp
      then have "js_includes cs sub" using Cons.IH by blast
      then show ?thesis by simp
    qed
  qed
qed

lemma space_is_white: "isWhiteSpace 0x20"
  by (simp add: isWhiteSpace_def)

lemma replace_ws_runs_spaces:
  "c \<in> set (replace_ws_runs s) \<Longrightarrow> isWhiteSpace c \<Longrightarrow> c = 0x20"
  by (induction s rule: replace_ws_runs.induct) (auto split: if_splits)

lemma replace_ws_runs_head:
  "replace_ws_runs s = b # r \<Longrightarrow> s \<noteq> [] \<and> (isWhiteSpace b \<longleftrightarrow> isWhiteSpace (hd s))"
  by (cases s) (auto simp: space_is_white split: if_splits)

lemma replace_ws_runs_after_run:
  "replace_ws_runs (dropWhile isWhiteSpace cs) = b # r \<Longrightarrow> \<not> isWhiteSpace b"
proof -
  assume h: "replace_ws_runs (dropWhile isWhiteSpace cs) = b # r"
  then have ne: "dropWhile isWhiteSpace cs \<noteq> []"
    and eq: "isWhiteSpace b \<longleftrightarrow> isWhiteSpace (hd (dropWhile isWhiteSpace cs))"
    using replace_ws_runs_head by blast+
  from ne have "\<not> isWhiteSpace (hd (dropWhile isWhiteSpace cs))"
    by (rule hd_dropWhile)
  with eq show ?thesis by simp
qed

lemma replace_ws_runs_no_adjacent:
  "replace_ws_runs s = pre @ a # b # post \<Longrightarrow> \<not> (isWhiteSpace a \<and> isWhiteSpace b)"
proof (induction s arbitrary: pre rule: replace_ws_runs.induct)
  case 1
  then show ?case by simp
next
  case (2 c cs)
  show ?case
  proof (cases "isWhiteSpace c")
    case True
    with "2.prems" have eq: "0x20 # replace_ws_runs (dropWhile isWhiteSpace cs) = pre @ a # b # post"
      by simp
    show ?thesis
    proof (cases pre)
      case Nil
      with eq have "replace_ws_runs (dropWhile isWhiteSpace cs) = b # post" by simp
      then have "\<not> isWhiteSpace b" by (rule replace_ws_runs_after_run)
      then show ?thesis by simp
    next
      case (Cons p ps)
      with eq have "replace_ws_runs (dropWhile isWhiteSpace cs) = ps @ a # b # post" by simp
      with "2.IH"(1)[OF True] show ?thesis by blast
    qed
  next
    case False
    with "2.prems" have eq: "c # replace_ws_runs cs = pre @ a # b # post" by simp
    show ?thesis
    proof (cases pre)
      case Nil
      with eq False show ?thesis by simp
    next
      case (Cons p ps)
      with eq have "replace_ws_runs cs = ps @ a # b # post" by simp
      with "2.IH"(2)[OF False] show ?thesis by blast
    qed
  qed
qed

lemma replace_ws_runs_content:
  "filter (\<lambda>c. \<not> isWhiteSpace c) (replace_ws_runs s) = filter (\<lambda>c. \<not> isWhiteSpace c) s"
proof (induction s rule: replace_ws_runs.induct)
  case 1
  then show ?case by simp
next
  case (2 c cs)
  have drop: "filter (\<lambda>c. \<not> isWhiteSpace c) (dropWhile isWhiteSpace cs)
      = filter (\<lambda>c. \<not> isWhiteSpace c) cs"
    by (induction cs) auto
  show ?case
  proof (cases "isWhiteSpace c")
    case True
    with "2.IH"(1) drop show ?thesis by (simp add: space_is_white)
  next
    case False
    with "2.IH"(2) show ?thesis by simp
  qed
qed

lemma trim_between: "\<exists>l r. s = l @ trim s @ r"
proof -
  let ?d = "dropWhile isWhiteSpace s"
  have "rev (takeWhile isWhiteSpace (rev ?d) @ dropWhile isWhiteSpace (rev ?d)) = rev (rev ?d)"
    by (simp only: takeWhile_dropWhile_id)
  then have "rev (dropWhile isWhiteSpace (rev ?d)) @ rev (takeWhile isWhiteSpace (rev ?d)) = ?d"
    by (simp only: rev_append rev_rev_ident)
  then have "?d = trim s @ rev (takeWhile isWhiteSpace (rev ?d))"
    by (simp only: trim_def)
  moreover have "s = takeWhile isWhiteSpace s @ ?d" by simp
  ultimately have "s = takeWhile isWhiteSpace s @ trim s @ rev (takeWhile isWhiteSpace (rev ?d))"
    by simp
  then show ?thesis by blast
qed

lemma trim_content:
  "filter (\<lambda>c. \<not> isWhiteSpace c) (trim s) = filter (\<lambda>c. \<not> isWhiteSpace c) s"
proof -
  have drop: "filter (\<lambda>c. \<not> isWhiteSpace c) (dropWhile isWhiteSpace xs)
      = filter (\<lambda>c. \<not> isWhiteSpace c) xs" for xs
    by (induction xs) auto
  have "filter (\<lambda>c. \<not> isWhiteSpace c) (trim s)
      = rev (filter (\<lambda>c. \<not> isWhiteSpace c) (dropWhile isWhiteSpace (rev (dropWhile isWhiteSpace s))))"
    by (simp add: trim_def rev_filter)
  also have "\<dots> = rev (filter (\<lambda>c. \<not> isWhiteSpace c) (rev (dropWhile isWhiteSpace s)))"
    by (simp only: drop)
  also have "\<dots> = filter (\<lambda>c. \<not> isWhiteSpace c) (dropWhile isWhiteSpace s)"
    by (simp add: rev_filter)
  also have "\<dots> = filter (\<lambda>c. \<not> isWhiteSpace c) s"
    by (simp only: drop)
  finally show ?thesis .
qed

lemma trim_ends:
  assumes "trim s \<noteq> []"
  shows "\<not> isWhiteSpace (hd (trim s))" and "\<not> isWhiteSpace (last (trim s))"
proof -
  let ?d = "dropWhile isWhiteSpace s"
  let ?t = "dropWhile isWhiteSpace (rev ?d)"
  have t: "trim s = rev ?t" by (simp add: trim_def)
  with assms have tne: "?t \<noteq> []" by simp
  then have "\<not> isWhiteSpace (hd ?t)" by (rule hd_dropWhile)
  then show "\<not> isWhiteSpace (last (trim s))"
    using tne by (simp add: t last_rev)
  have dne: "?d \<noteq> []"
  proof
    assume "?d = []"
    then have "?t = []" by (simp only: rev.simps dropWhile.simps)
    with tne show False by blast
  qed
  then have hd_d: "\<not> isWhiteSpace (hd ?d)" by (rule hd_dropWhile)
  have "rev ?d = takeWhile isWhiteSpace (rev ?d) @ ?t" by simp
  then have "last (rev ?d) = last ?t" using tne by (metis last_appendR)
  then have "last ?t = hd ?d" using dne by (simp add: last_rev)
  then show "\<not> isWhiteSpace (hd (trim s))"
    using tne hd_d by (simp add: t hd_rev)
qed

lemma join_content_separator:
  "filter (\<lambda>c. \<not> isWhiteSpace c) sep = [] \<Longrightarrow>
   filter (\<lambda>c. \<not> isWhiteSpace c) (join sep parts)
     = filter (\<lambda>c. \<not> isWhiteSpace c) (concat parts)"
  by (induction sep parts rule: join.induct) simp_all

lemma join_content:
  "filter (\<lambda>c. \<not> isWhiteSpace c) (join (str '' '') parts)
     = filter (\<lambda>c. \<not> isWhiteSpace c) (concat parts)"
  by (rule join_content_separator) (simp add: str_def space_is_white)

lemma combined_text_normal:
  "\<forall>c\<in>set (combined_text segs). isWhiteSpace c \<longrightarrow> c = 0x20"
  "\<not> js_includes (combined_text segs) (str ''  '')"
  "combined_text segs \<noteq> [] \<Longrightarrow> \<not> isWhiteSpace (hd (combined_text segs))"
  "combined_text segs \<noteq> [] \<Longrightarrow> \<not> isWhiteSpace (last (combined_text segs))"
  "filter (\<lambda>c. \<not> isWhiteSpace c) (combined_text segs)
     = filter (\<lambda>c. \<not> isWhiteSpace c) (concat (map seg_text segs))"
proof -
  let ?j = "join (str '' '') (map seg_text segs)"
  obtain l r where lr: "replace_ws_runs ?j = l @ combined_text segs @ r"
    using trim_between[of "replace_ws_runs ?j"] by (auto simp: combined_text_def)
  show "\<forall>c\<in>set (combined_text segs). isWhiteSpace c \<longrightarrow> c = 0x20"
  proof (intro ballI impI)
    fix c assume "c \<in> set (combined_text segs)" and w: "isWhiteSpace c"
    then have "c \<in> set (replace_ws_runs ?j)" using lr by simp
    then show "c = 0x20" using w by (rule replace_ws_runs_spaces)
  qed
  show "\<not> js_includes (combined_text segs) (str ''  '')"
  proof
    assume "js_includes (combined_text segs) (str ''  '')"
    then obtain pre post where "combined_text segs = pre @ str ''  '' @ post"
      by (auto simp: js_includes_iff)
    then have "replace_ws_runs ?j = (l @ pre) @ 0x20 # 0x20 # (post @ r)"
      using lr by (simp add: str_def)
    then have "\<not> (isWhiteSpace 0x20 \<and> isWhiteSpace 0x20)"
      by (rule replace_ws_runs_no_adjacent)
    then show False by (simp add: space_is_white)
  qed
  show "combined_text segs \<noteq> [] \<Longrightarrow> \<not> isWhiteSpace (hd (combined_text segs))"
    unfolding combined_text_def by (rule trim_ends)
  show "combined_text segs \<noteq> [] \<Longrightarrow> \<not> isWhiteSpace (last (combined_text segs))"
    unfolding combined_text_def by (rule trim_ends)
  show "filter (\<lambda>c. \<not> isWhiteSpace c) (combined_text segs)
     = filter (\<lambda>c. \<not> isWhiteSpace c) (concat (map seg_text segs))"
    by (simp add: combined_text_def trim_content replace_ws_runs_content join_content)
qed

subsection \<open>The aggregator as a filter\<close>

lemma slice_prefix: "0 \<le> n \<Longrightarrow> slice s 0 n = take (nat n) s"
  by (simp add: slice_def Let_def min_def)

lemma video_chunk_cases:
  "video_chunk f v =
     Inr (case f (videoId v) of
            Resolved (Some segs) \<Rightarrow>
              if segs = [] \<or> combined_text segs = [] then None
              else Some \<lparr>sample_videoId = videoId v, sample_title = title v,
                     transcriptForModel = take 3000 (combined_text segs),
                     snippetExcerpt = take 320 (combined_text segs)\<rparr>
          | _ \<Rightarrow> None)"
  by (simp add: video_chunk_def try_transcript_def Let_def slice_prefix
      split: transcript_result.splits option.splits)

lemma video_chunk_none:
  "video_chunk f v = Inr None \<longleftrightarrow> contributes_nothing f v"
  by (simp add: video_chunk_cases contributes_nothing_def
      split: transcript_result.splits option.splits)

lemma video_chunk_total: "\<exists>chunk. video_chunk f v = Inr chunk"
  by (simp add: video_chunk_cases)

lemma fetchTranscripts_Nil: "fetchTranscripts f [] = Inr []"
  by (simp add: fetchTranscripts_def List.map_filter_def)

lemma fetchTranscripts_Cons:
  "fetchTranscripts f (v # vs) =
     (case fetchTranscripts f vs of
        Inl e \<Rightarrow> Inl e
      | Inr rest \<Rightarrow>
          (case video_chunk f v of
             Inl e \<Rightarrow> Inl e
           | Inr None \<Rightarrow> Inr rest
           | Inr (Some s) \<Rightarrow> Inr (s # rest)))"
  using video_chunk_total[of f v]
  by (auto simp: fetchTranscripts_def List.map_filter_def split: sum.splits option.splits)

lemma fetchTranscripts_total: "\<exists>samples. fetchTranscripts f vs = Inr samples"
proof (induction vs)
  case Nil
  then show ?case by (simp add: fetchTranscripts_Nil)
next
  case (Cons v vs)
  then obtain rest where "fetchTranscripts f vs = Inr rest" by blast
  moreover obtain chunk where "video_chunk f v = Inr chunk"
    using video_chunk_total by blast
  ultimately show ?case
    by (cases chunk) (simp_all add: fetchTranscripts_Cons)
qed

lemma fetchTranscripts_sources:
  "fetchTranscripts f vs = Inr samples \<Longrightarrow>
   map (\<lambda>s. (sample_videoId s, sample_title s)) samples
     = map (\<lambda>v. (videoId v, title v)) (filter (\<lambda>v. \<not> contributes_nothing f v) vs)"
proof (induction vs arbitrary: samples)
  case Nil
  then show ?case by (simp add: fetchTranscripts_Nil)
next
  case (Cons v vs)
  obtain rest where rest: "fetchTranscripts f vs = Inr rest"
    using fetchTranscripts_total by blast
  note IH = Cons.IH[OF rest]
  show ?case
  proof (cases "contributes_nothing f v")
    case True
    then have "video_chunk f v = Inr None" by (simp add: video_chunk_none)
    with Cons.prems rest have "samples = rest" by (simp add: fetchTranscripts_Cons)
    with IH True show ?thesis by simp
  next
    case False
    then obtain s where s: "video_chunk f v = Inr (Some s)"
      using video_chunk_total[of f v] video_chunk_none[of f v] by (metis option.exhaust)
    then have "sample_videoId s = videoId v \<and> sample_title s = title v"
      by (auto simp: video_chunk_cases split: transcript_result.splits option.splits if_splits)
    moreover from Cons.prems rest s have "samples = s # rest"
      by (simp add: fetchTranscripts_Cons)
    ultimately show ?thesis using IH False by simp
  qed
qed

lemma fetchTranscripts_member:
  "fetchTranscripts f vs = Inr samples \<Longrightarrow> s \<in> set samples \<Longrightarrow>
   \<exists>v\<in>set vs. video_chunk f v = Inr (Some s)"
proof (induction vs arbitrary: samples)
  case Nil
  then show ?case by (simp add: fetchTranscripts_Nil)
next
  case (Cons v vs)
  obtain rest where rest: "fetchTranscripts f vs = Inr rest"
    using fetchTranscripts_total by blast
  obtain chunk where chunk: "video_chunk f v = Inr chunk"
    using video_chunk_total by blast
  show ?case
  proof (cases chunk)
    case None
    with Cons.prems rest chunk have "s \<in> set rest" by (simp add: fetchTranscripts_Cons)
    with Cons.IH[OF rest] show ?thesis by auto
  next
    case (Some s')
    with Cons.prems rest chunk have "s = s' \<or> s \<in> set rest"
      by (auto simp: fetchTranscripts_Cons)
    then show ?thesis
    proof
      assume "s = s'"
      with chunk Some show ?thesis by simp
    next
      assume "s \<in> set rest"
      with Cons.IH[OF rest] show ?thesis by auto
    qed
  qed
qed

text \<open>
  C2. For a list of N videos of which M contribute nothing (the fetch fails, gives no
  segments, or gives text that normalises to the empty string), the Transcript Aggregator
  returns, without throwing, exactly N - M samples: those of the other videos, in the order
  of the input. When every video fails the result is the empty list.
\<close>

theorem fetchTranscripts_survivors:
  "\<exists>samples. fetchTranscripts f vs = Inr samples
     \<and> length samples = length vs - length (filter (contributes_nothing f) vs)
     \<and> map (\<lambda>s. (sample_videoId s, sample_title s)) samples
         = map (\<lambda>v. (videoId v, title v)) (filter (\<lambda>v. \<not> contributes_nothing f v) vs)
     \<and> ((\<forall>v\<in>set vs. contributes_nothing f v) \<longrightarrow> samples = [])"
proof -
  obtain samples where samples: "fetchTranscripts f vs = Inr samples"
    using fetchTranscripts_total by blast
  note src = fetchTranscripts_sources[OF samples]
  have "length samples = length (map (\<lambda>s. (sample_videoId s, sample_title s)) samples)"
    by simp
  also have "\<dots> = length (filter (\<lambda>v. \<not> contributes_nothing f v) vs)"
    by (simp only: src length_map)
  finally have len: "length samples = length (filter (\<lambda>v. \<not> contributes_nothing f v) vs)" .
  have "length (filter (contributes_nothing f) vs)
      + length (filter (\<lambda>v. \<not> contributes_nothing f v) vs) = length vs"
    by (rule sum_length_filter_compl)
  with len have count: "length samples = length vs - length (filter (contributes_nothing f) vs)"
    by simp
  have "(\<forall>v\<in>set vs. contributes_nothing f v) \<longrightarrow> samples = []"
  proof
    assume "\<forall>v\<in>set vs. contributes_nothing f v"
    then have "filter (\<lambda>v. \<not> contributes_nothing f v) vs = []" by (simp add: filter_empty_conv)
    with len show "samples = []" by simp
  qed
  with samples count src show ?thesis by blast
qed

theorem fetchTranscripts_survivors_witness:
  "fetchTranscripts sample_fetchTranscript sample_videos = Inr sample_samples
   \<and> length sample_videos = 4
   \<and> length (filter (contributes_nothing sample_fetchTranscript) sample_videos) = 2
   \<and> length sample_samples = 2
   \<and> map sample_videoId sample_samples = [str ''v3'', str ''v4'']
   \<and> length (filter (contributes_nothing sample_fetchTranscript) (take 2 sample_videos)) = 2
   \<and> fetchTranscripts sample_fetchTranscript (take 2 sample_videos) = Inr []"
proof -
  obtain samples where s: "fetchTranscripts sample_fetchTranscript sample_videos = Inr samples"
      "length samples = length sample_videos
          - length (filter (contributes_nothing sample_fetchTranscript) sample_videos)"
    using fetchTranscripts_survivors[of sample_fetchTranscript sample_videos] by blast
  have eq: "samples = sample_samples" using s(1) sample_transcripts by simp
  have m: "length (filter (contributes_nothing sample_fetchTranscript) sample_videos) = 2"
    by (simp add: contributes_nothing_def sample_fetchTranscript_def combined_text_def
        string_defs sample_videos_def)
  have all: "\<forall>v\<in>set (take 2 sample_videos). contributes_nothing sample_fetchTranscript v"
    by (simp add: contributes_nothing_def sample_fetchTranscript_def combined_text_def
        string_defs sample_videos_def)
  obtain none where n: "fetchTranscripts sample_fetchTranscript (take 2 sample_videos) = Inr none"
      "(\<forall>v\<in>set (take 2 sample_videos). contributes_nothing sample_fetchTranscript v)
         \<longrightarrow> none = []"
    using fetchTranscripts_survivors[of sample_fetchTranscript "take 2 sample_videos"] by blast
  with all have "fetchTranscripts sample_fetchTranscript (take 2 sample_videos) = Inr []"
    by simp
  moreover have "length (filter (contributes_nothing sample_fetchTranscript)
      (take 2 sample_videos)) = 2"
    by (simp add: contributes_nothing_def sample_fetchTranscript_def combined_text_def
        string_defs sample_videos_def)
  moreover have "length sample_videos = 4" by (simp add: sample_videos_def)
  moreover have "length sample_samples = 2" using s(2) eq m by (simp add: sample_videos_def)
  moreover have "map sample_videoId sample_samples = [str ''v3'', str ''v4'']"
    by (simp add: sample_samples_def)
  ultimately show ?thesis using s(1) eq m by blast
qed

subsection \<open>Joining and the words of the text\<close>

lemma join_spaced:
  "parts \<noteq> [] \<Longrightarrow> join sep parts @ sep = concat (map (\<lambda>p. p @ sep) parts)"
  by (induction sep parts rule: join.induct) simp_all

lemma ws_words_blank: "\<forall>c\<in>set t. isWhiteSpace c \<Longrightarrow> ws_words t = []"
  by (induction t) simp_all

lemma ws_words_dropWhile: "ws_words (dropWhile isWhiteSpace s) = ws_words s"
  by (induction s) simp_all

lemma ws_words_trailing:
  "\<forall>c\<in>set t. isWhiteSpace c \<Longrightarrow> ws_words (xs @ t) = ws_words xs"
proof (induction xs)
  case Nil
  then show ?case by (simp add: ws_words_blank)
next
  case (Cons c cs)
  have IH: "ws_words (cs @ t) = ws_words cs" using Cons by simp
  show ?case
  proof (cases "isWhiteSpace c")
    case True
    then show ?thesis using IH by simp
  next
    case False
    have cond: "(cs @ t = [] \<or> isWhiteSpace (hd (cs @ t))) \<longleftrightarrow> (cs = [] \<or> isWhiteSpace (hd cs))"
    proof (cases cs)
      case Nil
      then show ?thesis using Cons.prems by (cases t) simp_all
    next
      case (Cons d ds)
      then show ?thesis by simp
    qed
    have "ws_words ((c # cs) @ t) =
        (if cs @ t = [] \<or> isWhiteSpace (hd (cs @ t)) then [c] # ws_words (cs @ t)
         else (case ws_words (cs @ t) of [] \<Rightarrow> [[c]] | w # rest \<Rightarrow> (c # w) # rest))"
      using False by simp
    also have "\<dots> =
        (if cs = [] \<or> isWhiteSpace (hd cs) then [c] # ws_words cs
         else (case ws_words cs of [] \<Rightarrow> [[c]] | w # rest \<Rightarrow> (c # w) # rest))"
      by (simp only: cond IH)
    also have "\<dots> = ws_words (c # cs)" using False by simp
    finally show ?thesis .
  qed
qed

lemma ws_words_trim: "ws_words (trim s) = ws_words s"
proof -
  let ?d = "dropWhile isWhiteSpace s"
  let ?tail = "rev (takeWhile isWhiteSpace (rev ?d))"
  have "rev (takeWhile isWhiteSpace (rev ?d) @ dropWhile isWhiteSpace (rev ?d)) = rev (rev ?d)"
    by (simp only: takeWhile_dropWhile_id)
  then have "rev (dropWhile isWhiteSpace (rev ?d)) @ ?tail = ?d"
    by (simp only: rev_append rev_rev_ident)
  then have d: "?d = trim s @ ?tail" by (simp only: trim_def)
  have blank: "\<forall>c\<in>set ?tail. isWhiteSpace c"
    by (auto dest: set_takeWhileD)
  have "ws_words s = ws_words ?d" by (simp only: ws_words_dropWhile)
  also have "\<dots> = ws_words (trim s @ ?tail)" using d by simp
  also have "\<dots> = ws_words (trim s)" using blank by (rule ws_words_trailing)
  finally show ?thesis by simp
qed

lemma replace_ws_runs_Nil: "replace_ws_runs s = [] \<longleftrightarrow> s = []"
  by (cases s) simp_all

lemma replace_ws_runs_hd:
  "s \<noteq> [] \<Longrightarrow> isWhiteSpace (hd (replace_ws_runs s)) \<longleftrightarrow> isWhiteSpace (hd s)"
  by (cases s) (simp_all add: space_is_white)

lemma ws_words_replace: "ws_words (replace_ws_runs s) = ws_words s"
proof (induction s rule: replace_ws_runs.induct)
  case 1
  then show ?case by simp
next
  case (2 c cs)
  show ?case
  proof (cases "isWhiteSpace c")
    case True
    then have "ws_words (replace_ws_runs (c # cs))
        = ws_words (replace_ws_runs (dropWhile isWhiteSpace cs))"
      by (simp add: space_is_white)
    also have "\<dots> = ws_words (dropWhile isWhiteSpace cs)" using "2.IH"(1)[OF True] .
    also have "\<dots> = ws_words cs" by (rule ws_words_dropWhile)
    also have "\<dots> = ws_words (c # cs)" using True by simp
    finally show ?thesis .
  next
    case False
    note IH = "2.IH"(2)[OF False]
    have cond: "(replace_ws_runs cs = [] \<or> isWhiteSpace (hd (replace_ws_runs cs)))
        \<longleftrightarrow> (cs = [] \<or> isWhiteSpace (hd cs))"
      using replace_ws_runs_Nil[of cs] replace_ws_runs_hd[of cs] by auto
    have "ws_words (replace_ws_runs (c # cs)) = ws_words (c # replace_ws_runs cs)"
      using False by simp
    also have "\<dots> =
        (if replace_ws_runs cs = [] \<or> isWhiteSpace (hd (replace_ws_runs cs))
         then [c] # ws_words (replace_ws_runs cs)
         else (case ws_words (replace_ws_runs cs) of
                 [] \<Rightarrow> [[c]] | w # rest \<Rightarrow> (c # w) # rest))"
      using False by simp
    also have "\<dots> =
        (if cs = [] \<or> isWhiteSpace (hd cs) then [c] # ws_words cs
         else (case ws_words cs of [] \<Rightarrow> [[c]] | w # rest \<Rightarrow> (c # w) # rest))"
      by (simp only: cond IH)
    also have "\<dots> = ws_words (c # cs)" using False by simp
    finally show ?thesis .
  qed
qed

lemma combined_text_words:
  "ws_words (combined_text segs) = ws_words (join (str '' '') (map seg_text segs))"
  by (simp add: combined_text_def ws_words_trim ws_words_replace)

lemma combined_text_joined:
  "segs \<noteq> [] \<Longrightarrow>
   join (str '' '') (map seg_text segs) @ [0x20] = concat (map (\<lambda>g. seg_text g @ [0x20]) segs)"
  using join_spaced[of "map seg_text segs" "str '' ''"]
  by (simp add: str_def comp_def)

lemma join_Cons_head: "join sep ((c # w) # rest) = c # join sep (w # rest)"
  by (cases rest) simp_all

lemma normal_join_words:
  assumes "\<forall>c\<in>set n. isWhiteSpace c \<longrightarrow> c = 0x20"
    and "\<not> js_includes n (str ''  '')"
    and "n \<noteq> [] \<longrightarrow> \<not> isWhiteSpace (last n)"
  shows "join (str '' '') (ws_words n) = dropWhile isWhiteSpace n"
  using assms
proof (induction n)
  case Nil
  then show ?case by simp
next
  case (Cons c cs)
  have spaces: "\<forall>x\<in>set cs. isWhiteSpace x \<longrightarrow> x = 0x20" using Cons.prems(1) by simp
  have nodouble: "\<not> js_includes cs (str ''  '')" using Cons.prems(2) by simp
  have lastcs: "cs \<noteq> [] \<longrightarrow> \<not> isWhiteSpace (last cs)" using Cons.prems(3) by auto
  note IH = Cons.IH[OF spaces nodouble lastcs]
  have adjacent: "\<not> (isWhiteSpace c \<and> cs \<noteq> [] \<and> isWhiteSpace (hd cs))"
  proof
    assume h: "isWhiteSpace c \<and> cs \<noteq> [] \<and> isWhiteSpace (hd cs)"
    then obtain d ds where cs: "cs = d # ds" by (cases cs) auto
    with h Cons.prems(1) have "c = 0x20" "d = 0x20" by auto
    with cs have "startsWith (c # cs) (str ''  '')" by (simp add: startsWith_def str_def)
    with Cons.prems(2) show False by simp
  qed
  show ?case
  proof (cases "isWhiteSpace c")
    case True
    with Cons.prems(3) have ne: "cs \<noteq> []" by auto
    with adjacent True have "\<not> isWhiteSpace (hd cs)" by simp
    with ne have "dropWhile isWhiteSpace cs = cs" by (cases cs) simp_all
    with IH True show ?thesis by simp
  next
    case False
    show ?thesis
    proof (cases "cs = []")
      case True
      with False show ?thesis by simp
    next
      case ne: False
      show ?thesis
      proof (cases "isWhiteSpace (hd cs)")
        case True
        obtain d ds where cs: "cs = d # ds" using ne by (cases cs) auto
        with True spaces have d: "d = 0x20" by simp
        have dsne: "ds \<noteq> []" using lastcs cs True by auto
        have "\<not> (isWhiteSpace d \<and> ds \<noteq> [] \<and> isWhiteSpace (hd ds))"
        proof
          assume h: "isWhiteSpace d \<and> ds \<noteq> [] \<and> isWhiteSpace (hd ds)"
          then obtain x xs where ds: "ds = x # xs" by (cases ds) auto
          with h spaces cs have "x = 0x20" by auto
          with ds d cs have "startsWith cs (str ''  '')" by (simp add: startsWith_def str_def)
          with nodouble cs show False by simp
        qed
        with True cs dsne have "\<not> isWhiteSpace (hd ds)" by simp
        with dsne have "dropWhile isWhiteSpace ds = ds" by (cases ds) simp_all
        with IH cs True have j: "join (str '' '') (ws_words cs) = ds" by simp
        with dsne obtain w rest where w: "ws_words cs = w # rest"
          by (cases "ws_words cs") auto
        have "ws_words (c # cs) = [c] # w # rest" using False True ne w by simp
        then have "join (str '' '') (ws_words (c # cs)) = [c] @ str '' '' @ join (str '' '') (w # rest)"
          by simp
        also have "\<dots> = c # d # ds" using j w d by (simp add: str_def)
        finally show ?thesis using False cs by simp
      next
        case nonblank: False
        with ne have "dropWhile isWhiteSpace cs = cs" by (cases cs) simp_all
        with IH have j: "join (str '' '') (ws_words cs) = cs" by simp
        with ne obtain w rest where w: "ws_words cs = w # rest"
          by (cases "ws_words cs") auto
        have "ws_words (c # cs) = (c # w) # rest" using False nonblank ne w by simp
        then have "join (str '' '') (ws_words (c # cs)) = c # join (str '' '') (w # rest)"
          by (simp only: join_Cons_head)
        with j w False show ?thesis by simp
      qed
    qed
  qed
qed

lemma combined_text_is_words:
  "combined_text segs
     = join (str '' '') (ws_words (join (str '' '') (map seg_text segs)))"
proof -
  let ?n = "combined_text segs"
  note normal = combined_text_normal[of segs]
  have "join (str '' '') (ws_words ?n) = dropWhile isWhiteSpace ?n"
    using normal(1,2) normal(4) by (intro normal_join_words) auto
  also have "\<dots> = ?n"
  proof (cases "?n = []")
    case True
    then show ?thesis by simp
  next
    case False
    with normal(3) have "\<not> isWhiteSpace (hd ?n)" by simp
    with False show ?thesis by (cases ?n) simp_all
  qed
  finally show ?thesis by (simp add: combined_text_words)
qed

text \<open>
  C7. Every TranscriptSample comes from a video of the input whose transcript was fetched
  with at least one segment, and is built from the normalised text of its segments. The
  segment texts are joined with single spaces: the joined text followed by a space is the
  concatenation of the segment texts each followed by a space. Every run of white space is
  collapsed to one space and the ends are trimmed: the normalised text is the words of the
  joined text separated by single spaces. So it is not empty, has no white space at either
  end, no white space other than single spaces, and the same non-blank characters as the
  segments. \<^verbatim>\<open>transcriptForModel\<close> is its first 3000 code units and \<^verbatim>\<open>snippetExcerpt\<close> its
  first 320, so the former is at most 3000 long, the latter at most 320 long and a prefix of
  the former.
\<close>

theorem transcript_sample_shape:
  assumes "fetchTranscripts f vs = Inr samples" and "s \<in> set samples"
  shows "\<exists>v segs. v \<in> set vs \<and> f (videoId v) = Resolved (Some segs) \<and> segs \<noteq> []
      \<and> sample_videoId s = videoId v \<and> sample_title s = title v
      \<and> join (str '' '') (map seg_text segs) @ [0x20]
          = concat (map (\<lambda>g. seg_text g @ [0x20]) segs)
      \<and> combined_text segs = trim (replace_ws_runs (join (str '' '') (map seg_text segs)))
      \<and> combined_text segs @ [0x20]
          = concat (map (\<lambda>w. w @ [0x20]) (ws_words (join (str '' '') (map seg_text segs))))
      \<and> combined_text segs
          = join (str '' '') (ws_words (join (str '' '') (map seg_text segs)))
      \<and> transcriptForModel s = take 3000 (combined_text segs)
      \<and> snippetExcerpt s = take 320 (combined_text segs)
      \<and> combined_text segs \<noteq> []
      \<and> \<not> isWhiteSpace (hd (combined_text segs))
      \<and> \<not> isWhiteSpace (last (combined_text segs))
      \<and> (\<forall>c\<in>set (combined_text segs). isWhiteSpace c \<longrightarrow> c = 0x20)
      \<and> \<not> js_includes (combined_text segs) (str ''  '')
      \<and> filter (\<lambda>c. \<not> isWhiteSpace c) (combined_text segs)
          = filter (\<lambda>c. \<not> isWhiteSpace c) (concat (map seg_text segs))
      \<and> length (transcriptForModel s) \<le> 3000
      \<and> length (snippetExcerpt s) \<le> 320
      \<and> snippetExcerpt s = take 320 (transcriptForModel s)"
proof -
  obtain v where v: "v \<in> set vs" and chunk: "video_chunk f v = Inr (Some s)"
    using fetchTranscripts_member[OF assms] by blast
  from chunk obtain segs where segs: "f (videoId v) = Resolved (Some segs)"
    and segsne: "segs \<noteq> []"
    and ne: "combined_text segs \<noteq> []"
    and s: "s = \<lparr>sample_videoId = videoId v, sample_title = title v,
                 transcriptForModel = take 3000 (combined_text segs),
                 snippetExcerpt = take 320 (combined_text segs)\<rparr>"
    by (auto simp: video_chunk_cases split: transcript_result.splits option.splits if_splits)
  note normal = combined_text_normal[of segs]
  note joined = combined_text_joined[OF segsne]
  note words = combined_text_is_words[of segs]
  have wne: "ws_words (join (str '' '') (map seg_text segs)) \<noteq> []"
    using words ne by auto
  have spaced: "combined_text segs @ [0x20]
      = concat (map (\<lambda>w. w @ [0x20]) (ws_words (join (str '' '') (map seg_text segs))))"
    using join_spaced[OF wne, of "str '' ''"] words by (simp add: str_def)
  have fields: "sample_videoId s = videoId v" "sample_title s = title v"
      "transcriptForModel s = take 3000 (combined_text segs)"
      "snippetExcerpt s = take 320 (combined_text segs)"
    by (simp_all add: s)
  have bounds: "length (transcriptForModel s) \<le> 3000" "length (snippetExcerpt s) \<le> 320"
      "snippetExcerpt s = take 320 (transcriptForModel s)"
    by (simp_all add: s min_def)
  have def: "combined_text segs = trim (replace_ws_runs (join (str '' '') (map seg_text segs)))"
    by (rule combined_text_def)
  show ?thesis
    apply (rule exI[where x = v], rule exI[where x = segs])
    apply (intro conjI)
    apply (rule v segs segsne fields joined def spaced words ne normal(3)[OF ne]
        normal(4)[OF ne] normal(1) normal(2) normal(5) bounds)+
    done
qed

theorem transcript_sample_shape_witness:
  "fetchTranscripts sample_fetchTranscript sample_videos = Inr sample_samples
   \<and> hd sample_samples \<in> set sample_samples
   \<and> last sample_samples \<in> set sample_samples
   \<and> sample_fetchTranscript (str ''v3'')
       = Resolved (Some [\<lparr>seg_text = str ''  Hello   world ''\<rparr>, \<lparr>seg_text = str ''again''\<rparr>])
   \<and> sample_fetchTranscript (str ''v4'')
       = Resolved (Some [\<lparr>seg_text = str ''Welcome''\<rparr>, \<lparr>seg_text = str ''back''\<rparr>])
   \<and> join (str '' '') [str ''  Hello   world '', str ''again''] = str ''  Hello   world  again''
   \<and> join (str '' '') [str ''Welcome'', str ''back''] = str ''Welcome back''
   \<and> ws_words (str ''  Hello   world  again'') = [str ''Hello'', str ''world'', str ''again'']
   \<and> transcriptForModel (hd sample_samples) = str ''Hello world again''
   \<and> snippetExcerpt (hd sample_samples) = str ''Hello world again''
   \<and> transcriptForModel (last sample_samples) = str ''Welcome back''
   \<and> (\<exists>segs. sample_fetchTranscript (str ''v4'') = Resolved (Some segs)
         \<and> join (str '' '') (map seg_text segs) @ [0x20]
             = concat (map (\<lambda>g. seg_text g @ [0x20]) segs)
         \<and> combined_text segs
             = join (str '' '') (ws_words (join (str '' '') (map seg_text segs)))
         \<and> transcriptForModel (last sample_samples) = take 3000 (combined_text segs))
   \<and> length (transcriptForModel (hd sample_samples)) \<le> 3000
   \<and> length (snippetExcerpt (hd sample_samples)) \<le> 320
   \<and> snippetExcerpt (hd sample_samples) = take 320 (transcriptForModel (hd sample_samples))"
proof -
  have member: "hd sample_samples \<in> set sample_samples"
    by (simp add: sample_samples_def)
  have member': "last sample_samples \<in> set sample_samples"
    by (simp add: sample_samples_def)
  from transcript_sample_shape[OF sample_transcripts member]
  have bounds: "length (transcriptForModel (hd sample_samples)) \<le> 3000"
      "length (snippetExcerpt (hd sample_samples)) \<le> 320"
      "snippetExcerpt (hd sample_samples) = take 320 (transcriptForModel (hd sample_samples))"
    by blast+
  from transcript_sample_shape[OF sample_transcripts member']
  obtain v :: VideoRef and segs where w: "sample_fetchTranscript (videoId v) = Resolved (Some segs)"
      "sample_videoId (last sample_samples) = videoId v"
      "join (str '' '') (map seg_text segs) @ [0x20]
         = concat (map (\<lambda>g. seg_text g @ [0x20]) segs)"
      "combined_text segs = join (str '' '') (ws_words (join (str '' '') (map seg_text segs)))"
      "transcriptForModel (last sample_samples) = take 3000 (combined_text segs)"
    by blast
  from w(2) have "videoId v = str ''v4''" by (simp add: sample_samples_def)
  with w have fourth: "\<exists>segs. sample_fetchTranscript (str ''v4'') = Resolved (Some segs)
         \<and> join (str '' '') (map seg_text segs) @ [0x20]
             = concat (map (\<lambda>g. seg_text g @ [0x20]) segs)
         \<and> combined_text segs
             = join (str '' '') (ws_words (join (str '' '') (map seg_text segs)))
         \<and> transcriptForModel (last sample_samples) = take 3000 (combined_text segs)"
    by auto
  have v3: "sample_fetchTranscript (str ''v3'')
       = Resolved (Some [\<lparr>seg_text = str ''  Hello   world ''\<rparr>, \<lparr>seg_text = str ''again''\<rparr>])"
    by (simp add: sample_fetchTranscript_def)
  have v4: "sample_fetchTranscript (str ''v4'')
       = Resolved (Some [\<lparr>seg_text = str ''Welcome''\<rparr>, \<lparr>seg_text = str ''back''\<rparr>])"
    by (simp add: sample_fetchTranscript_def str_def)
  have j1: "join (str '' '') [str ''  Hello   world '', str ''again''] = str ''  Hello   world  again''"
    by (simp add: str_def)
  have j2: "join (str '' '') [str ''Welcome'', str ''back''] = str ''Welcome back''"
    by (simp add: str_def)
  have ww: "ws_words (str ''  Hello   world  again'') = [str ''Hello'', str ''world'', str ''again'']"
    by (simp add: str_def isWhiteSpace_def)
  have t: "transcriptForModel (hd sample_samples) = str ''Hello world again''"
      "snippetExcerpt (hd sample_samples) = str ''Hello world again''"
      "transcriptForModel (last sample_samples) = str ''Welcome back''"
    by (simp_all add: sample_samples_def)
  show ?thesis
    by (intro conjI)
       (rule sample_transcripts member member' v3 v4 j1 j2 ww t fourth bounds)+
qed

subsection \<open>Resolving a Custom identifier\<close>

lemma custom_legacy_hit:
  assumes "channels_for_username api v key = Response True (Inr uj)"
    and "uj_items uj = Some (item # rest)"
  shows "identifyChannelId api (Some (Custom v)) key
     = ([ChannelsForUsername v key], Inr (ui_id item))"
  using assms
  by (simp add: bind_io_def fetch_json_def return_io_def Let_def first_username_id_def
      at_index_def)

lemma custom_legacy_empty:
  assumes "channels_for_username api v key = Response True (Inr uj)"
    and "uj_items uj = Some [] \<or> uj_items uj = None"
    and "search_channels api v key = Response True (Inr sj)"
  shows "identifyChannelId api (Some (Custom v)) key
     = ([ChannelsForUsername v key, SearchChannels v key], Inr (first_search_channelId sj))"
  using assms
  by (auto simp: bind_io_def fetch_json_def return_io_def Let_def)

lemma custom_legacy_failed:
  assumes "channels_for_username api v key = Response False body"
  shows "identifyChannelId api (Some (Custom v)) key
     = ([ChannelsForUsername v key], Inl (Error (str ''Unable to resolve custom channel URL.'')))"
  using assms
  by (simp add: bind_io_def fetch_json_def)

lemma first_search_channelId_none:
  "sj_items sj = Some [] \<or> sj_items sj = None \<Longrightarrow> first_search_channelId sj = None"
  by (auto simp: first_search_channelId_def at_index_def)

lemma first_search_channelId_first:
  "sj_items sj = Some (it # others) \<Longrightarrow> si_id it = Some i \<Longrightarrow>
   first_search_channelId sj = id_channelId i"
  by (simp add: first_search_channelId_def at_index_def)

lemma resolve_nothing:
  "identifyChannelId api ident key = (calls, Inr None) \<Longrightarrow>
   resolveChannelDetails api ident key n = (calls, Inr None)"
  by (simp add: resolveChannelDetails_def bind_io_def return_io_def)

text \<open>
  C3. For a Custom identifier the resolver first calls the legacy lookup by username. When
  that call succeeds with at least one item, the result is the first item's id and no search
  is issued. When it succeeds with no item, the search by text is issued and the result is
  the channel id of its first item, or null when the search has no item either. When the
  legacy call answers with a non-success status, the resolver throws at once and issues no
  search.
\<close>

theorem custom_identifier_resolution:
  "(\<forall>uj item rest. channels_for_username api v key = Response True (Inr uj)
        \<and> uj_items uj = Some (item # rest) \<longrightarrow>
      identifyChannelId api (Some (Custom v)) key
        = ([ChannelsForUsername v key], Inr (ui_id item)))
   \<and> (\<forall>uj sj. channels_for_username api v key = Response True (Inr uj)
        \<and> (uj_items uj = Some [] \<or> uj_items uj = None)
        \<and> search_channels api v key = Response True (Inr sj) \<longrightarrow>
      identifyChannelId api (Some (Custom v)) key
        = ([ChannelsForUsername v key, SearchChannels v key], Inr (first_search_channelId sj))
      \<and> (sj_items sj = Some [] \<or> sj_items sj = None \<longrightarrow> first_search_channelId sj = None)
      \<and> (\<forall>it others i. sj_items sj = Some (it # others) \<and> si_id it = Some i \<longrightarrow>
            first_search_channelId sj = id_channelId i))
   \<and> (\<forall>body. channels_for_username api v key = Response False body \<longrightarrow>
      identifyChannelId api (Some (Custom v)) key
        = ([ChannelsForUsername v key],
           Inl (Error (str ''Unable to resolve custom channel URL.''))))"
  using custom_legacy_hit[of api v key] custom_legacy_empty[of api v key]
    custom_legacy_failed[of api v key] first_search_channelId_none
    first_search_channelId_first
  by blast

theorem custom_identifier_resolution_witness:
  "identifyChannelId sample_youtube (Some (Custom (str ''legacy''))) (str ''k'')
     = ([ChannelsForUsername (str ''legacy'') (str ''k'')], Inr (Some (str ''UC7'')))
   \<and> identifyChannelId sample_youtube (Some (Custom (str ''other''))) (str ''k'')
     = ([ChannelsForUsername (str ''other'') (str ''k''), SearchChannels (str ''other'') (str ''k'')],
        Inr (Some (str ''UC1'')))
   \<and> identifyChannelId sample_youtube (Some (Custom (str ''nobody''))) (str ''k'')
     = ([ChannelsForUsername (str ''nobody'') (str ''k''), SearchChannels (str ''nobody'') (str ''k'')],
        Inr None)
   \<and> identifyChannelId legacy_down_youtube (Some (Custom (str ''legacy''))) (str ''k'')
     = ([ChannelsForUsername (str ''legacy'') (str ''k'')],
        Inl (Error (str ''Unable to resolve custom channel URL.'')))"
proof -
  let ?k = "str ''k''"
  note L = custom_identifier_resolution[of sample_youtube "str ''legacy''" ?k]
  note O = custom_identifier_resolution[of sample_youtube "str ''other''" ?k]
  note N = custom_identifier_resolution[of sample_youtube "str ''nobody''" ?k]
  note D = custom_identifier_resolution[of legacy_down_youtube "str ''legacy''" ?k]
  have hit: "channels_for_username sample_youtube (str ''legacy'') ?k
        = Response True (Inr \<lparr>uj_items = Some [\<lparr>ui_id = Some (str ''UC7'')\<rparr>]\<rparr>)
      \<and> uj_items \<lparr>uj_items = Some [\<lparr>ui_id = Some (str ''UC7'')\<rparr>]\<rparr>
        = Some (\<lparr>ui_id = Some (str ''UC7'')\<rparr> # [])"
    by (simp add: sample_youtube_def)
  have c1: "identifyChannelId sample_youtube (Some (Custom (str ''legacy''))) ?k
     = ([ChannelsForUsername (str ''legacy'') ?k], Inr (Some (str ''UC7'')))"
    using L[THEN conjunct1, rule_format, OF hit] by simp
  have other: "channels_for_username sample_youtube (str ''other'') ?k
        = Response True (Inr \<lparr>uj_items = Some []\<rparr>)
      \<and> (uj_items \<lparr>uj_items = Some []\<rparr> = Some []
         \<or> uj_items \<lparr>uj_items = Some []\<rparr> = None)
      \<and> search_channels sample_youtube (str ''other'') ?k
        = Response True
            (Inr \<lparr>sj_items = Some [\<lparr>si_id = Some \<lparr>id_channelId = Some (str ''UC1'')\<rparr>\<rparr>]\<rparr>)"
    by (simp add: sample_youtube_def str_def)
  have c2: "identifyChannelId sample_youtube (Some (Custom (str ''other''))) ?k
     = ([ChannelsForUsername (str ''other'') ?k, SearchChannels (str ''other'') ?k],
        Inr (Some (str ''UC1'')))"
    using O[THEN conjunct2, THEN conjunct1, rule_format, OF other]
    by (simp add: first_search_channelId_def at_index_def)
  have nobody: "channels_for_username sample_youtube (str ''nobody'') ?k
        = Response True (Inr \<lparr>uj_items = Some []\<rparr>)
      \<and> (uj_items \<lparr>uj_items = Some []\<rparr> = Some []
         \<or> uj_items \<lparr>uj_items = Some []\<rparr> = None)
      \<and> search_channels sample_youtube (str ''nobody'') ?k
        = Response True (Inr \<lparr>sj_items = Some []\<rparr>)"
    by (simp add: sample_youtube_def str_def)
  have c3: "identifyChannelId sample_youtube (Some (Custom (str ''nobody''))) ?k
     = ([ChannelsForUsername (str ''nobody'') ?k, SearchChannels (str ''nobody'') ?k], Inr None)"
    using N[THEN conjunct2, THEN conjunct1, rule_format, OF nobody] by simp
  have down: "channels_for_username legacy_down_youtube (str ''legacy'') ?k
        = Response False (Inl NonError)"
    by (simp add: legacy_down_youtube_def)
  have c4: "identifyChannelId legacy_down_youtube (Some (Custom (str ''legacy''))) ?k
     = ([ChannelsForUsername (str ''legacy'') ?k],
        Inl (Error (str ''Unable to resolve custom channel URL.'')))"
    using D[THEN conjunct2, THEN conjunct2, rule_format, OF down] .
  show ?thesis
    by (intro conjI) (rule c1 c2 c3 c4)+
qed

text \<open>
  C9. For a Custom identifier, when the legacy lookup succeeds with items and the first item
  has no id, \<^verbatim>\<open>identifyChannelId\<close> returns null after that single call, without the search,
  and the endpoint answers 404 with \<^verbatim>\<open>Unable to find the provided channel.\<close>
\<close>

theorem custom_first_item_without_id:
  assumes "channels_for_username (youtube e) v (youtubeApiKey req) = Response True (Inr uj)"
    and "uj_items uj = Some (item # rest)"
    and "ui_id item = None"
  shows "identifyChannelId (youtube e) (Some (Custom v)) (youtubeApiKey req)
       = ([ChannelsForUsername v (youtubeApiKey req)], Inr None)
    \<and> (accepted e body req (Custom v) \<longrightarrow>
         POST e (Some body)
           = ([ChannelsForUsername v (youtubeApiKey req)],
              error_response 404 (str ''Unable to find the provided channel.'')))"
proof
  show ident: "identifyChannelId (youtube e) (Some (Custom v)) (youtubeApiKey req)
       = ([ChannelsForUsername v (youtubeApiKey req)], Inr None)"
    using custom_legacy_hit[OF assms(1,2)] assms(3) by simp
  show "accepted e body req (Custom v) \<longrightarrow>
         POST e (Some body)
           = ([ChannelsForUsername v (youtubeApiKey req)],
              error_response 404 (str ''Unable to find the provided channel.''))"
  proof
    assume acc: "accepted e body req (Custom v)"
    have "resolveChannelDetails (youtube e) (Some (Custom v)) (youtubeApiKey req) (videoCount req)
        = ([ChannelsForUsername v (youtubeApiKey req)], Inr None)"
      using ident by (rule resolve_nothing)
    then have "pipeline e req (Custom v)
        = ([ChannelsForUsername v (youtubeApiKey req)],
           Inr (error_response 404 (str ''Unable to find the provided channel.'')))"
      by (rule pipeline_not_found)
    with POST_accepted[OF acc] show "POST e (Some body)
           = ([ChannelsForUsername v (youtubeApiKey req)],
              error_response 404 (str ''Unable to find the provided channel.''))"
      by simp
  qed
qed

lemma sample_url_broken:
  "extractChannelIdentifier sample_pathname (str ''https://www.youtube.com/c/broken'')
     = Some (Custom (str ''broken''))"
  by (simp add: extractChannelIdentifier_def sample_pathname_def string_defs)

theorem custom_first_item_without_id_witness:
  "identifyChannelId sample_youtube (Some (Custom (str ''broken''))) (str ''AIza-sample-key'')
     = ([ChannelsForUsername (str ''broken'') (str ''AIza-sample-key'')], Inr None)
   \<and> POST sample_env (Some (sample_request (str ''https://www.youtube.com/c/broken'') 5))
     = ([ChannelsForUsername (str ''broken'') (str ''AIza-sample-key'')],
        error_response 404 (str ''Unable to find the provided channel.''))
   \<and> search_channels sample_youtube (str ''broken'') (str ''AIza-sample-key'')
     = Response True
         (Inr \<lparr>sj_items = Some [\<lparr>si_id = Some \<lparr>id_channelId = Some (str ''UC1'')\<rparr>\<rparr>]\<rparr>)"
proof -
  let ?url = "str ''https://www.youtube.com/c/broken''"
  have legacy: "channels_for_username (youtube sample_env) (str ''broken'')
        (youtubeApiKey (sample_data ?url 5))
      = Response True (Inr \<lparr>uj_items = Some [\<lparr>ui_id = None\<rparr>]\<rparr>)"
    by (simp add: sample_env_simps sample_youtube_def str_def)
  have acc: "accepted sample_env (sample_request ?url 5) (sample_data ?url 5)
      (Custom (str ''broken''))"
    using sample_request_parsed[of ?url 5] sample_url_broken
    by (simp add: accepted_def sample_env_simps sample_data_simps str_def)
  have search: "search_channels sample_youtube (str ''broken'') (str ''AIza-sample-key'')
     = Response True
         (Inr \<lparr>sj_items = Some [\<lparr>si_id = Some \<lparr>id_channelId = Some (str ''UC1'')\<rparr>\<rparr>]\<rparr>)"
    by (simp add: sample_youtube_def str_def)
  from custom_first_item_without_id[OF legacy, of "\<lparr>ui_id = None\<rparr>" "[]"
      "sample_request ?url 5"] acc search
  show ?thesis
    by (simp add: sample_env_simps sample_data_simps)
qed

subsection \<open>The video list\<close>

lemma resolveChannelDetails_Some:
  assumes "resolveChannelDetails api ident key n = (calls, Inr (Some meta))"
  shows "\<exists>vj. search_videos api (channelId meta) (min n 8) key = Response True (Inr vj)
      \<and> SearchVideos (channelId meta) (min n 8) key \<in> set calls
      \<and> videos meta = videos_of vj"
proof -
  obtain c1 r1 where r1: "identifyChannelId api ident key = (c1, r1)"
    by (cases "identifyChannelId api ident key")
  show ?thesis
  proof (cases r1)
    case (Inl err)
    with assms r1 show ?thesis by (simp add: resolveChannelDetails_def bind_io_def)
  next
    case (Inr found)
    show ?thesis
    proof (cases found)
      case None
      with assms r1 Inr show ?thesis
        by (simp add: resolveChannelDetails_def bind_io_def return_io_def)
    next
      case (Some cid)
      show ?thesis
      proof (cases "cid = []")
        case True
        with assms r1 Inr Some show ?thesis
          by (simp add: resolveChannelDetails_def bind_io_def return_io_def)
      next
        case False
        from assms r1 Inr Some False show ?thesis
          by (auto simp: resolveChannelDetails_def bind_io_def return_io_def throw_io_def
              fetch_json_def
              split: fetched.splits sum.splits if_splits option.splits prod.splits)
      qed
    qed
  qed
qed

lemma video_of_item_id:
  "video_of_item item = Some v \<Longrightarrow>
   videoId v \<noteq> [] \<and> Option.bind (vi_id item) vid_videoId = Some (videoId v)"
  by (auto simp: video_of_item_def Let_def split: option.splits if_splits)

lemma video_of_item_none:
  "video_of_item item = None \<longleftrightarrow>
   (case Option.bind (vi_id item) vid_videoId of None \<Rightarrow> True | Some v \<Rightarrow> v = [])"
  by (auto simp: video_of_item_def Let_def split: option.splits if_splits)

lemma map_filter_video_ids:
  "map videoId (List.map_filter video_of_item items)
     = filter (\<lambda>v. v \<noteq> []) (List.map_filter (\<lambda>item. Option.bind (vi_id item) vid_videoId) items)"
proof (induction items)
  case Nil
  then show ?case by simp
next
  case (Cons item items)
  show ?case
  proof (cases "video_of_item item")
    case None
    then show ?thesis
      using Cons by (auto simp: video_of_item_none split: option.splits)
  next
    case (Some v)
    then show ?thesis
      using Cons video_of_item_id[OF Some] by simp
  qed
qed

lemma map_filter_length: "length (List.map_filter g xs) \<le> length xs"
  by (induction xs) (auto split: option.splits)

lemma map_filter_video_nonempty:
  "v \<in> set (List.map_filter video_of_item items) \<Longrightarrow> videoId v \<noteq> []"
  by (auto simp: List.map_filter_def dest: video_of_item_id)

lemma fetchTranscripts_length:
  "fetchTranscripts f vs = Inr samples \<Longrightarrow> length samples \<le> length vs"
proof -
  assume h: "fetchTranscripts f vs = Inr samples"
  have "length samples = length (map (\<lambda>s. (sample_videoId s, sample_title s)) samples)"
    by simp
  also have "\<dots> = length (filter (\<lambda>v. \<not> contributes_nothing f v) vs)"
    by (simp only: fetchTranscripts_sources[OF h] length_map)
  also have "\<dots> \<le> length vs" by (rule length_filter_le)
  finally show ?thesis .
qed

lemma synthesize_Inr:
  assumes "synthesize e req t ts = Inr res"
  shows "\<exists>reply parsed entries script.
      openai_create e (openAiKey req) (StylePrompt t ts) = Inr (Some reply)
      \<and> parseJsonObject (json_parse e) reply = Inr parsed
      \<and> member_of parsed (str ''writingGuidelines'') = Some (JArr entries)
      \<and> openai_create e (openAiKey req)
          (ScriptPrompt t (topic req) (style_fields parsed) (take 6 entries)) = Inr (Some script)
      \<and> trim script \<noteq> []
      \<and> res = \<lparr>status = 200,
               resp_body = AnalysisBody
                 \<lparr>out_channelTitle = t,
                  styleSummary = style_fields parsed,
                  writingGuidelines = take 6 entries,
                  generatedScript = trim script,
                  sampledTranscripts =
                    map (\<lambda>entry. \<lparr>out_videoId = sample_videoId entry,
                                   out_title = sample_title entry,
                                   excerpt = snippetExcerpt entry\<rparr>) ts\<rparr>\<rparr>"
proof -
  from assms obtain out1 where o1: "openai_create e (openAiKey req) (StylePrompt t ts) = Inr out1"
    by (cases "openai_create e (openAiKey req) (StylePrompt t ts)")
       (simp_all add: synthesize_def bind_outcome_def)
  with assms obtain reply where reply: "out1 = Some reply" "reply \<noteq> []"
    by (cases out1) (auto simp: synthesize_def bind_outcome_def truthy_def split: if_splits)
  with assms o1 obtain parsed where parsed: "parseJsonObject (json_parse e) reply = Inr parsed"
    by (cases "parseJsonObject (json_parse e) reply")
       (simp_all add: synthesize_def bind_outcome_def truthy_def)
  with assms o1 reply have notnull: "parsed \<noteq> JNull"
    by (auto simp: synthesize_def bind_outcome_def truthy_def get_member_def)
  with assms o1 reply parsed obtain entries
    where entries: "member_of parsed (str ''writingGuidelines'') = Some (JArr entries)"
    by (auto simp: synthesize_def bind_outcome_def truthy_def get_member_def
        split: option.splits json.splits)
  let ?call = "openai_create e (openAiKey req)
      (ScriptPrompt t (topic req) (style_fields parsed) (take 6 entries))"
  from assms o1 reply parsed notnull entries
  have rest: "bind_outcome ?call
      (\<lambda>output_text.
          let scriptText = map_option trim output_text in
          if \<not> truthy scriptText then Inl (Error (str ''Script generation failed.''))
          else Inr \<lparr>status = 200,
                 resp_body = AnalysisBody
                   \<lparr>out_channelTitle = t,
                    styleSummary = style_fields parsed,
                    writingGuidelines = take 6 entries,
                    generatedScript = case_option [] (\<lambda>t. t) scriptText,
                    sampledTranscripts =
                      map (\<lambda>entry. \<lparr>out_videoId = sample_videoId entry,
                                     out_title = sample_title entry,
                                     excerpt = snippetExcerpt entry\<rparr>) ts\<rparr>\<rparr>) = Inr res"
    by (simp add: synthesize_def bind_outcome_def truthy_def get_member_def Let_def)
  then obtain out2 where o2: "?call = Inr out2"
    by (cases ?call) (simp_all add: bind_outcome_def)
  with rest obtain script where script: "out2 = Some script" "trim script \<noteq> []"
    by (cases out2) (auto simp: bind_outcome_def truthy_def Let_def split: if_splits)
  with rest o2 have "res = \<lparr>status = 200,
               resp_body = AnalysisBody
                 \<lparr>out_channelTitle = t,
                  styleSummary = style_fields parsed,
                  writingGuidelines = take 6 entries,
                  generatedScript = trim script,
                  sampledTranscripts =
                    map (\<lambda>entry. \<lparr>out_videoId = sample_videoId entry,
                                   out_title = sample_title entry,
                                   excerpt = snippetExcerpt entry\<rparr>) ts\<rparr>\<rparr>"
    by (simp add: bind_outcome_def truthy_def Let_def)
  with o1 reply parsed entries o2 script show ?thesis by blast
qed

lemma synthesize_empty_script:
  assumes "openai_create e (openAiKey req) (StylePrompt t ts) = Inr (Some reply)"
    and "parseJsonObject (json_parse e) reply = Inr parsed"
    and "member_of parsed (str ''writingGuidelines'') = Some (JArr entries)"
    and "openai_create e (openAiKey req)
          (ScriptPrompt t (topic req) (style_fields parsed) (take 6 entries)) = Inr out"
    and "\<not> truthy (map_option trim out)"
  shows "synthesize e req t ts = Inl (Error (str ''Script generation failed.''))"
proof -
  have "reply \<noteq> []"
    using assms(2) parse_missing_delimiter[of "[]" "json_parse e"] by auto
  moreover have "parsed \<noteq> JNull" using assms(3) by (auto simp: member_of_def)
  ultimately show ?thesis
    using assms
    by (simp add: synthesize_def bind_outcome_def truthy_def get_member_def Let_def)
qed

lemma catch_response_not_ok: "status (catch_response err) \<noteq> 200"
  by (simp add: catch_response_status)

lemma POST_ok:
  assumes "POST e (Some body) = (calls, res)" and "status res = 200"
  shows "\<exists>req ident meta samples. accepted e body req ident
      \<and> resolveChannelDetails (youtube e) (Some ident) (youtubeApiKey req) (videoCount req)
          = (calls, Inr (Some meta))
      \<and> fetchTranscripts (fetchTranscript e) (videos meta) = Inr samples
      \<and> samples \<noteq> []
      \<and> synthesize e req (channelTitle meta) samples = Inr res"
proof -
  from assms obtain req where req: "requestSchema body = Some req"
    by (cases "requestSchema body") (auto simp: POST_def error_response_def)
  with assms obtain ident
    where ident: "extractChannelIdentifier (url_pathname e) (channelUrl req) = Some ident"
    by (cases "extractChannelIdentifier (url_pathname e) (channelUrl req)")
       (auto simp: POST_def error_response_def)
  from req ident have acc: "accepted e body req ident" by (simp add: accepted_def)
  obtain c r where res: "resolveChannelDetails (youtube e) (Some ident) (youtubeApiKey req)
      (videoCount req) = (c, r)"
    by (cases "resolveChannelDetails (youtube e) (Some ident) (youtubeApiKey req) (videoCount req)")
  show ?thesis
  proof (cases r)
    case (Inl err)
    with res have "pipeline e req ident = (c, Inl err)" by (simp add: pipeline_resolve_throws)
    with POST_accepted[OF acc] assms have False
      using catch_response_not_ok[of err] by auto
    then show ?thesis ..
  next
    case (Inr found)
    show ?thesis
    proof (cases found)
      case None
      with res Inr have "pipeline e req ident
          = (c, Inr (error_response 404 (str ''Unable to find the provided channel.'')))"
        by (simp add: pipeline_not_found)
      with POST_accepted[OF acc] assms have False by (auto simp: error_response_def)
      then show ?thesis ..
    next
      case (Some meta)
      with res Inr have resolved: "resolveChannelDetails (youtube e) (Some ident)
          (youtubeApiKey req) (videoCount req) = (c, Inr (Some meta))"
        by simp
      obtain samples where samples: "fetchTranscripts (fetchTranscript e) (videos meta) = Inr samples"
        using fetchTranscripts_total by blast
      note p = pipeline_resolved[OF resolved]
      show ?thesis
      proof (cases "samples = []")
        case True
        with p samples POST_accepted[OF acc] assms have False
          by (auto simp: bind_outcome_def error_response_def)
        then show ?thesis ..
      next
        case False
        with p samples have p': "pipeline e req ident
            = (c, synthesize e req (channelTitle meta) samples)"
          by (simp add: bind_outcome_def)
        show ?thesis
        proof (cases "synthesize e req (channelTitle meta) samples")
          case (Inl err)
          with p' POST_accepted[OF acc] assms have False
            using catch_response_not_ok[of err] by auto
          then show ?thesis ..
        next
          case inner: (Inr res')
          with p' POST_accepted[OF acc] assms have "c = calls" "res' = res" by auto
          with acc resolved samples False inner show ?thesis by blast
        qed
      qed
    qed
  qed
qed

lemma accepted_unique:
  "accepted e body req ident \<Longrightarrow> accepted e body req' ident' \<Longrightarrow> req' = req \<and> ident' = ident"
  by (auto simp: accepted_def)

lemma accepted_count:
  "accepted e body req ident \<Longrightarrow> 1 \<le> videoCount req \<and> videoCount req \<le> 8"
  by (auto simp: accepted_def requestSchema_Some)

lemma sample_POST:
  "POST sample_env (Some (sample_request (str ''https://www.youtube.com/@sample'') 5))
     = ([SearchChannels (str ''sample'') (str ''AIza-sample-key''),
         ChannelsById (str ''UC1'') (str ''AIza-sample-key''),
         SearchVideos (str ''UC1'') 5 (str ''AIza-sample-key'')],
        \<lparr>status = 200,
         resp_body = AnalysisBody
           \<lparr>out_channelTitle = str ''Sample Channel'',
            styleSummary = \<lparr>voiceTone = Some (JStr (str ''warm'')), narrativeStructure = None,
               recurringDevices = None, pacing = None, audienceEngagement = None\<rparr>,
            writingGuidelines = [JStr (str ''a''), JStr (str ''b''), JStr (str ''c''),
               JStr (str ''d''), JStr (str ''e''), JStr (str ''f'')],
            generatedScript = str ''Once upon a time.'',
            sampledTranscripts =
              [\<lparr>out_videoId = str ''v3'', out_title = str ''Third'',
                excerpt = str ''Hello world again''\<rparr>,
               \<lparr>out_videoId = str ''v4'', out_title = str ''Fourth'',
                excerpt = str ''Welcome back''\<rparr>]\<rparr>\<rparr>)"
proof -
  let ?url = "str ''https://www.youtube.com/@sample''"
  have acc: "accepted sample_env (sample_request ?url 5) (sample_data ?url 5)
      (Handle (str ''@sample''))"
    by (rule accepted_sample) (simp add: sample_env_simps)
  have resolved: "resolveChannelDetails (youtube sample_env) (Some (Handle (str ''@sample'')))
      (youtubeApiKey (sample_data ?url 5)) (videoCount (sample_data ?url 5))
    = ([SearchChannels (str ''sample'') (str ''AIza-sample-key''),
        ChannelsById (str ''UC1'') (str ''AIza-sample-key''),
        SearchVideos (str ''UC1'') 5 (str ''AIza-sample-key'')],
       Inr (Some \<lparr>channelId = str ''UC1'', channelTitle = str ''Sample Channel'',
              videos = sample_videos\<rparr>))"
    by (simp add: sample_env_simps sample_data_simps sample_resolved_videos)
  show ?thesis
    using POST_accepted[OF acc] pipeline_resolved[OF resolved] sample_transcripts
      sample_synthesized[of ?url 5 "str ''Sample Channel''" sample_samples]
    by (simp add: sample_env_simps bind_outcome_def sample_samples_def)
qed

lemma fetchTranscripts_count:
  assumes "fetchTranscripts f vs = Inr samples"
  shows "length samples = length vs - length (filter (contributes_nothing f) vs)"
proof -
  have "length samples = length (map (\<lambda>s. (sample_videoId s, sample_title s)) samples)"
    by simp
  also have "\<dots> = length (filter (\<lambda>v. \<not> contributes_nothing f v) vs)"
    by (simp only: fetchTranscripts_sources[OF assms] length_map)
  finally have "length samples = length (filter (\<lambda>v. \<not> contributes_nothing f v) vs)" .
  moreover have "length (filter (contributes_nothing f) vs)
      + length (filter (\<lambda>v. \<not> contributes_nothing f v) vs) = length vs"
    by (rule sum_length_filter_compl)
  ultimately show ?thesis by simp
qed

lemma sample_honours_maxResults: "honours_maxResults sample_youtube"
  by (auto simp: honours_maxResults_def sample_youtube_def)

text \<open>
  C6. Where the data API honours \<^verbatim>\<open>maxResults\<close>, the resolved video list of an accepted
  request has at most \<^verbatim>\<open>min(videoCount, 8)\<close> entries and every entry has a non-empty
  \<^verbatim>\<open>videoId\<close>. The list holds, in order, exactly the items of the response to the video
  search (asked for \<^verbatim>\<open>maxResults = min(videoCount, 8)\<close>) whose video id is present and not
  empty: an item lacking one is dropped. Everything downstream works on this filtered list:
  the transcripts are fetched for its videos, the samples are those of its videos that
  contribute something, in its order, the 422 answer is given when none of them does, and a
  200 response carries one record per such sample.
\<close>

theorem video_list_bounded:
  assumes "honours_maxResults (youtube e)"
    and "accepted e body req ident"
    and "resolveChannelDetails (youtube e) (Some ident) (youtubeApiKey req) (videoCount req)
           = (calls, Inr (Some meta))"
  shows "int (length (videos meta)) \<le> min (videoCount req) 8
     \<and> (\<forall>v\<in>set (videos meta). videoId v \<noteq> [])
     \<and> (\<exists>vj items.
           search_videos (youtube e) (channelId meta) (min (videoCount req) 8) (youtubeApiKey req)
             = Response True (Inr vj)
         \<and> SearchVideos (channelId meta) (min (videoCount req) 8) (youtubeApiKey req) \<in> set calls
         \<and> items = (case vj_items vj of None \<Rightarrow> [] | Some xs \<Rightarrow> xs)
         \<and> int (length items) \<le> min (videoCount req) 8
         \<and> videos meta = List.map_filter video_of_item items
         \<and> map videoId (videos meta)
             = filter (\<lambda>v. v \<noteq> [])
                 (List.map_filter (\<lambda>item. Option.bind (vi_id item) vid_videoId) items)
         \<and> length (videos meta) \<le> length items)
     \<and> (\<exists>samples.
           fetchTranscripts (fetchTranscript e) (videos meta) = Inr samples
         \<and> length samples
             = length (videos meta)
               - length (filter (contributes_nothing (fetchTranscript e)) (videos meta))
         \<and> map (\<lambda>s. (sample_videoId s, sample_title s)) samples
             = map (\<lambda>v. (videoId v, title v))
                 (filter (\<lambda>v. \<not> contributes_nothing (fetchTranscript e) v) (videos meta))
         \<and> (samples = [] \<longrightarrow>
               POST e (Some body)
                 = (calls, error_response 422
                     (str ''Transcripts are unavailable for the recent uploads. Try a different channel.'')))
         \<and> (samples \<noteq> [] \<longrightarrow>
               POST e (Some body)
                 = (case synthesize e req (channelTitle meta) samples of
                      Inr res \<Rightarrow> (calls, res)
                    | Inl err \<Rightarrow> (calls, catch_response err)))
         \<and> (\<forall>res a. snd (POST e (Some body)) = res \<and> status res = 200
                \<and> resp_body res = AnalysisBody a \<longrightarrow>
               sampledTranscripts a
                 = map (\<lambda>entry. \<lparr>out_videoId = sample_videoId entry,
                                  out_title = sample_title entry,
                                  excerpt = snippetExcerpt entry\<rparr>) samples))"
proof -
  let ?n = "min (videoCount req) 8"
  note count = accepted_count[OF assms(2)]
  obtain vj where vj: "search_videos (youtube e) (channelId meta) ?n (youtubeApiKey req)
        = Response True (Inr vj)"
      and call: "SearchVideos (channelId meta) ?n (youtubeApiKey req) \<in> set calls"
      and vs: "videos meta = videos_of vj"
    using resolveChannelDetails_Some[OF assms(3)] by blast
  define items where "items = (case vj_items vj of None \<Rightarrow> [] | Some xs \<Rightarrow> xs)"
  have vs': "videos meta = List.map_filter video_of_item items"
    by (simp add: vs videos_of_def items_def split: option.splits)
  have capped: "int (length items) \<le> ?n"
  proof (cases "vj_items vj")
    case None
    then show ?thesis using count by (simp add: items_def)
  next
    case (Some xs)
    have "0 \<le> ?n" using count by simp
    with assms(1) vj Some have "int (length xs) \<le> ?n"
      unfolding honours_maxResults_def by blast
    with Some show ?thesis by (simp add: items_def)
  qed
  have ids: "map videoId (videos meta)
         = filter (\<lambda>v. v \<noteq> [])
             (List.map_filter (\<lambda>item. Option.bind (vi_id item) vid_videoId) items)"
    by (simp only: vs' map_filter_video_ids)
  have len: "length (videos meta) \<le> length items"
    by (simp only: vs' map_filter_length)
  have bound: "int (length (videos meta)) \<le> ?n"
    using len capped by linarith
  have nonempty: "\<forall>v\<in>set (videos meta). videoId v \<noteq> []"
    using map_filter_video_nonempty by (auto simp: vs')
  have list: "\<exists>vj items.
           search_videos (youtube e) (channelId meta) ?n (youtubeApiKey req)
             = Response True (Inr vj)
         \<and> SearchVideos (channelId meta) ?n (youtubeApiKey req) \<in> set calls
         \<and> items = (case vj_items vj of None \<Rightarrow> [] | Some xs \<Rightarrow> xs)
         \<and> int (length items) \<le> ?n
         \<and> videos meta = List.map_filter video_of_item items
         \<and> map videoId (videos meta)
             = filter (\<lambda>v. v \<noteq> [])
                 (List.map_filter (\<lambda>item. Option.bind (vi_id item) vid_videoId) items)
         \<and> length (videos meta) \<le> length items"
    apply (rule exI[where x = vj], rule exI[where x = items])
    apply (intro conjI)
    apply (rule vj call items_def capped vs' ids len)+
    done
  obtain samples where samples: "fetchTranscripts (fetchTranscript e) (videos meta) = Inr samples"
    using fetchTranscripts_total by blast
  note p = pipeline_resolved[OF assms(3)]
  note post = POST_accepted[OF assms(2)]
  have empty: "samples = [] \<longrightarrow>
      POST e (Some body)
        = (calls, error_response 422
            (str ''Transcripts are unavailable for the recent uploads. Try a different channel.''))"
    using post p samples by (simp add: bind_outcome_def)
  have full: "samples \<noteq> [] \<longrightarrow>
      POST e (Some body)
        = (case synthesize e req (channelTitle meta) samples of
             Inr res \<Rightarrow> (calls, res)
           | Inl err \<Rightarrow> (calls, catch_response err))"
    using post p samples by (simp add: bind_outcome_def split: sum.splits)
  have down: "\<forall>res a. snd (POST e (Some body)) = res \<and> status res = 200
                \<and> resp_body res = AnalysisBody a \<longrightarrow>
               sampledTranscripts a
                 = map (\<lambda>entry. \<lparr>out_videoId = sample_videoId entry,
                                  out_title = sample_title entry,
                                  excerpt = snippetExcerpt entry\<rparr>) samples"
  proof (intro allI impI)
    fix res a
    assume h: "snd (POST e (Some body)) = res \<and> status res = 200 \<and> resp_body res = AnalysisBody a"
    obtain calls' where "POST e (Some body) = (calls', res)"
      using h by (cases "POST e (Some body)") auto
    with h obtain req' ident' meta' samples' where r: "accepted e body req' ident'"
        "resolveChannelDetails (youtube e) (Some ident') (youtubeApiKey req') (videoCount req')
          = (calls', Inr (Some meta'))"
        "fetchTranscripts (fetchTranscript e) (videos meta') = Inr samples'"
        "synthesize e req' (channelTitle meta') samples' = Inr res"
      using POST_ok[of e body calls' res] by blast
    from accepted_unique[OF assms(2) r(1)] r(2) assms(3) have "meta' = meta" by simp
    with r(3) samples have "samples' = samples" by simp
    with synthesize_Inr[OF r(4)] h show "sampledTranscripts a
        = map (\<lambda>entry. \<lparr>out_videoId = sample_videoId entry,
                         out_title = sample_title entry,
                         excerpt = snippetExcerpt entry\<rparr>) samples"
      by auto
  qed
  have downstream: "\<exists>samples.
           fetchTranscripts (fetchTranscript e) (videos meta) = Inr samples
         \<and> length samples
             = length (videos meta)
               - length (filter (contributes_nothing (fetchTranscript e)) (videos meta))
         \<and> map (\<lambda>s. (sample_videoId s, sample_title s)) samples
             = map (\<lambda>v. (videoId v, title v))
                 (filter (\<lambda>v. \<not> contributes_nothing (fetchTranscript e) v) (videos meta))
         \<and> (samples = [] \<longrightarrow>
               POST e (Some body)
                 = (calls, error_response 422
                     (str ''Transcripts are unavailable for the recent uploads. Try a different channel.'')))
         \<and> (samples \<noteq> [] \<longrightarrow>
               POST e (Some body)
                 = (case synthesize e req (channelTitle meta) samples of
                      Inr res \<Rightarrow> (calls, res)
                    | Inl err \<Rightarrow> (calls, catch_response err)))
         \<and> (\<forall>res a. snd (POST e (Some body)) = res \<and> status res = 200
                \<and> resp_body res = AnalysisBody a \<longrightarrow>
               sampledTranscripts a
                 = map (\<lambda>entry. \<lparr>out_videoId = sample_videoId entry,
                                  out_title = sample_title entry,
                                  excerpt = snippetExcerpt entry\<rparr>) samples)"
    apply (rule exI[where x = samples])
    apply (intro conjI)
    apply (rule samples fetchTranscripts_count[OF samples] fetchTranscripts_sources[OF samples]
        empty full down)+
    done
  show ?thesis
    by (intro conjI) (rule bound nonempty list downstream)+
qed

theorem video_list_bounded_witness:
  "honours_maxResults (youtube sample_env)
   \<and> accepted sample_env (sample_request (str ''https://www.youtube.com/@sample'') 3)
       (sample_data (str ''https://www.youtube.com/@sample'') 3) (Handle (str ''@sample''))
   \<and> search_videos sample_youtube (str ''UC1'') 3 (str ''AIza-sample-key'')
       = Response True (Inr \<lparr>vj_items = Some (take 3 sample_uploads), vj_error = None\<rparr>)
   \<and> take 3 sample_uploads
       = [video_entry (Some (str ''v1'')) (str ''First''), video_entry None (str ''Playlist''),
          video_entry (Some (str ''v2'')) (str ''Second'')]
   \<and> resolveChannelDetails sample_youtube (Some (Handle (str ''@sample'')))
         (str ''AIza-sample-key'') 3
       = ([SearchChannels (str ''sample'') (str ''AIza-sample-key''),
           ChannelsById (str ''UC1'') (str ''AIza-sample-key''),
           SearchVideos (str ''UC1'') 3 (str ''AIza-sample-key'')],
          Inr (Some \<lparr>channelId = str ''UC1'', channelTitle = str ''Sample Channel'',
                 videos = take 2 sample_videos\<rparr>))
   \<and> map videoId (take 2 sample_videos) = [str ''v1'', str ''v2'']
   \<and> int (length (take 2 sample_videos)) \<le> min 3 8
   \<and> POST sample_env (Some (sample_request (str ''https://www.youtube.com/@sample'') 3))
       = ([SearchChannels (str ''sample'') (str ''AIza-sample-key''),
           ChannelsById (str ''UC1'') (str ''AIza-sample-key''),
           SearchVideos (str ''UC1'') 3 (str ''AIza-sample-key'')],
          error_response 422
            (str ''Transcripts are unavailable for the recent uploads. Try a different channel.''))
   \<and> int (length sample_videos) \<le> min 5 8
   \<and> map videoId sample_videos = [str ''v1'', str ''v2'', str ''v3'', str ''v4'']
   \<and> (\<exists>a. resp_body (snd (POST sample_env
               (Some (sample_request (str ''https://www.youtube.com/@sample'') 5))))
             = AnalysisBody a
          \<and> sampledTranscripts a
             = map (\<lambda>entry. \<lparr>out_videoId = sample_videoId entry,
                              out_title = sample_title entry,
                              excerpt = snippetExcerpt entry\<rparr>) sample_samples)"
proof -
  let ?url = "str ''https://www.youtube.com/@sample''"
  let ?key = "str ''AIza-sample-key''"
  let ?calls = "\<lambda>n. [SearchChannels (str ''sample'') ?key, ChannelsById (str ''UC1'') ?key,
                      SearchVideos (str ''UC1'') n ?key]"
  let ?meta = "\<lambda>vs. \<lparr>channelId = str ''UC1'', channelTitle = str ''Sample Channel'',
                      videos = vs\<rparr>"
  have hon: "honours_maxResults (youtube sample_env)"
    by (simp add: sample_env_simps sample_honours_maxResults)
  have acc3: "accepted sample_env (sample_request ?url 3) (sample_data ?url 3)
      (Handle (str ''@sample''))"
    using sample_request_parsed[of ?url 3] sample_url_handle
    by (simp add: accepted_def sample_env_simps sample_data_simps str_def)
  have res3: "resolveChannelDetails (youtube sample_env) (Some (Handle (str ''@sample'')))
      (youtubeApiKey (sample_data ?url 3)) (videoCount (sample_data ?url 3))
    = (?calls 3, Inr (Some (?meta (take 2 sample_videos))))"
    by (simp add: sample_env_simps sample_data_simps sample_resolved_three)
  note T3 = video_list_bounded[OF hon acc3 res3]
  have b3: "int (length (take 2 sample_videos)) \<le> min 3 8"
    using T3[THEN conjunct1] by (simp add: sample_data_simps)
  from T3[THEN conjunct2, THEN conjunct2, THEN conjunct2]
  obtain samples3 where s3:
      "fetchTranscripts (fetchTranscript sample_env) (videos (?meta (take 2 sample_videos)))
         = Inr samples3"
      "samples3 = [] \<longrightarrow>
         POST sample_env (Some (sample_request ?url 3))
           = (?calls 3, error_response 422
               (str ''Transcripts are unavailable for the recent uploads. Try a different channel.''))"
    by blast
  from s3(1) have "samples3 = []"
    using sample_transcripts_none by (simp add: sample_env_simps)
  with s3(2) have p3: "POST sample_env (Some (sample_request ?url 3))
      = (?calls 3, error_response 422
          (str ''Transcripts are unavailable for the recent uploads. Try a different channel.''))"
    by simp
  have acc5: "accepted sample_env (sample_request ?url 5) (sample_data ?url 5)
      (Handle (str ''@sample''))"
    by (rule accepted_sample) (simp add: sample_env_simps)
  have res5: "resolveChannelDetails (youtube sample_env) (Some (Handle (str ''@sample'')))
      (youtubeApiKey (sample_data ?url 5)) (videoCount (sample_data ?url 5))
    = (?calls 5, Inr (Some (?meta sample_videos)))"
    by (simp add: sample_env_simps sample_data_simps sample_resolved_videos)
  note T5 = video_list_bounded[OF hon acc5 res5]
  have b5: "int (length sample_videos) \<le> min 5 8"
    using T5[THEN conjunct1] by (simp add: sample_data_simps)
  from T5[THEN conjunct2, THEN conjunct2, THEN conjunct2]
  obtain samples5 where s5:
      "fetchTranscripts (fetchTranscript sample_env) (videos (?meta sample_videos)) = Inr samples5"
      "\<forall>res a. snd (POST sample_env (Some (sample_request ?url 5))) = res \<and> status res = 200
          \<and> resp_body res = AnalysisBody a \<longrightarrow>
         sampledTranscripts a
           = map (\<lambda>entry. \<lparr>out_videoId = sample_videoId entry,
                            out_title = sample_title entry,
                            excerpt = snippetExcerpt entry\<rparr>) samples5"
    by blast
  from s5(1) have eq5: "samples5 = sample_samples"
    using sample_transcripts by (simp add: sample_env_simps)
  obtain a where a: "resp_body (snd (POST sample_env (Some (sample_request ?url 5))))
        = AnalysisBody a"
      "status (snd (POST sample_env (Some (sample_request ?url 5)))) = 200"
    using sample_POST by simp
  with s5(2) eq5 have "sampledTranscripts a
      = map (\<lambda>entry. \<lparr>out_videoId = sample_videoId entry,
                       out_title = sample_title entry,
                       excerpt = snippetExcerpt entry\<rparr>) sample_samples"
    by blast
  with a(1) have drawn: "\<exists>a. resp_body (snd (POST sample_env (Some (sample_request ?url 5))))
             = AnalysisBody a
          \<and> sampledTranscripts a
             = map (\<lambda>entry. \<lparr>out_videoId = sample_videoId entry,
                              out_title = sample_title entry,
                              excerpt = snippetExcerpt entry\<rparr>) sample_samples"
    by blast
  have api: "search_videos sample_youtube (str ''UC1'') 3 ?key
       = Response True (Inr \<lparr>vj_items = Some (take 3 sample_uploads), vj_error = None\<rparr>)"
    by (simp add: sample_youtube_def)
  have three: "take 3 sample_uploads
       = [video_entry (Some (str ''v1'')) (str ''First''), video_entry None (str ''Playlist''),
          video_entry (Some (str ''v2'')) (str ''Second'')]"
    by (simp add: sample_uploads_def)
  have ids3: "map videoId (take 2 sample_videos) = [str ''v1'', str ''v2'']"
    by (simp add: sample_videos_def)
  have ids5: "map videoId sample_videos = [str ''v1'', str ''v2'', str ''v3'', str ''v4'']"
    by (simp add: sample_videos_def)
  show ?thesis
    by (intro conjI)
       (rule hon acc3 api three sample_resolved_three ids3 b3 p3 b5 ids5 drawn)+
qed

lemma script_failure_class:
  "\<not> js_includes (str ''Script generation failed.'') (str ''quota'')"
  "\<not> js_includes (str ''Script generation failed.'') (str ''API key'')"
  by (simp_all add: str_def startsWith_def)

text \<open>
  C8 (as amended). A 200 response is returned only when every step before it succeeded: the
  request was accepted, the channel resolved, at least one transcript sample was gathered,
  the style reply parsed to a value with an array of guidelines, and the script reply is not
  empty once trimmed. It then carries the channel title, the five style descriptors exactly
  as the parsed value holds them (each one absent when the value holds nothing under that
  name: they are not validated), the guideline list cut to at most 6 entries, the trimmed
  script, and one record of video id, title and excerpt per transcript sample. A script
  reply that is missing or empty once trimmed makes the pipeline fail with
  \<^verbatim>\<open>Script generation failed.\<close>, and the endpoint answers 500 instead of a payload.
\<close>

theorem complete_payload_on_success:
  "(\<forall>calls res. POST e (Some body) = (calls, res) \<and> status res = 200 \<longrightarrow>
      (\<exists>req ident meta samples reply parsed entries script.
          accepted e body req ident
        \<and> resolveChannelDetails (youtube e) (Some ident) (youtubeApiKey req) (videoCount req)
            = (calls, Inr (Some meta))
        \<and> fetchTranscripts (fetchTranscript e) (videos meta) = Inr samples
        \<and> samples \<noteq> []
        \<and> openai_create e (openAiKey req) (StylePrompt (channelTitle meta) samples)
            = Inr (Some reply)
        \<and> parseJsonObject (json_parse e) reply = Inr parsed
        \<and> member_of parsed (str ''writingGuidelines'') = Some (JArr entries)
        \<and> openai_create e (openAiKey req)
            (ScriptPrompt (channelTitle meta) (topic req) (style_fields parsed) (take 6 entries))
            = Inr (Some script)
        \<and> trim script \<noteq> []
        \<and> res = \<lparr>status = 200,
                 resp_body = AnalysisBody
                   \<lparr>out_channelTitle = channelTitle meta,
                    styleSummary =
                      \<lparr>voiceTone = member_of parsed (str ''voiceTone''),
                       narrativeStructure = member_of parsed (str ''narrativeStructure''),
                       recurringDevices = member_of parsed (str ''recurringDevices''),
                       pacing = member_of parsed (str ''pacing''),
                       audienceEngagement = member_of parsed (str ''audienceEngagement'')\<rparr>,
                    writingGuidelines = take 6 entries,
                    generatedScript = trim script,
                    sampledTranscripts =
                      map (\<lambda>entry. \<lparr>out_videoId = sample_videoId entry,
                                     out_title = sample_title entry,
                                     excerpt = snippetExcerpt entry\<rparr>) samples\<rparr>\<rparr>
        \<and> length (take 6 entries) \<le> 6))
   \<and> (\<forall>calls req ident meta samples reply parsed entries out.
          accepted e body req ident
        \<and> resolveChannelDetails (youtube e) (Some ident) (youtubeApiKey req) (videoCount req)
            = (calls, Inr (Some meta))
        \<and> fetchTranscripts (fetchTranscript e) (videos meta) = Inr samples
        \<and> samples \<noteq> []
        \<and> openai_create e (openAiKey req) (StylePrompt (channelTitle meta) samples)
            = Inr (Some reply)
        \<and> parseJsonObject (json_parse e) reply = Inr parsed
        \<and> member_of parsed (str ''writingGuidelines'') = Some (JArr entries)
        \<and> openai_create e (openAiKey req)
            (ScriptPrompt (channelTitle meta) (topic req) (style_fields parsed) (take 6 entries))
            = Inr out
        \<and> (out = None \<or> (\<exists>script. out = Some script \<and> trim script = [])) \<longrightarrow>
        synthesize e req (channelTitle meta) samples
          = Inl (Error (str ''Script generation failed.''))
        \<and> POST e (Some body)
          = (calls, error_response 500 (str ''Failed to build script style.'')))"
proof (intro conjI allI impI)
  fix calls res
  assume h: "POST e (Some body) = (calls, res) \<and> status res = 200"
  then obtain req ident meta samples where a: "accepted e body req ident"
      "resolveChannelDetails (youtube e) (Some ident) (youtubeApiKey req) (videoCount req)
          = (calls, Inr (Some meta))"
      "fetchTranscripts (fetchTranscript e) (videos meta) = Inr samples"
      "samples \<noteq> []"
      "synthesize e req (channelTitle meta) samples = Inr res"
    using POST_ok[of e body calls res] by blast
  from synthesize_Inr[OF a(5)] obtain reply parsed entries script where b:
      "openai_create e (openAiKey req) (StylePrompt (channelTitle meta) samples) = Inr (Some reply)"
      "parseJsonObject (json_parse e) reply = Inr parsed"
      "member_of parsed (str ''writingGuidelines'') = Some (JArr entries)"
      "openai_create e (openAiKey req)
          (ScriptPrompt (channelTitle meta) (topic req) (style_fields parsed) (take 6 entries))
          = Inr (Some script)"
      "trim script \<noteq> []"
      "res = \<lparr>status = 200,
               resp_body = AnalysisBody
                 \<lparr>out_channelTitle = channelTitle meta,
                  styleSummary = style_fields parsed,
                  writingGuidelines = take 6 entries,
                  generatedScript = trim script,
                  sampledTranscripts =
                    map (\<lambda>entry. \<lparr>out_videoId = sample_videoId entry,
                                   out_title = sample_title entry,
                                   excerpt = snippetExcerpt entry\<rparr>) samples\<rparr>\<rparr>"
    by blast
  have "length (take 6 entries) \<le> 6" by simp
  with a b show "\<exists>req ident meta samples reply parsed entries script.
          accepted e body req ident
        \<and> resolveChannelDetails (youtube e) (Some ident) (youtubeApiKey req) (videoCount req)
            = (calls, Inr (Some meta))
        \<and> fetchTranscripts (fetchTranscript e) (videos meta) = Inr samples
        \<and> samples \<noteq> []
        \<and> openai_create e (openAiKey req) (StylePrompt (channelTitle meta) samples)
            = Inr (Some reply)
        \<and> parseJsonObject (json_parse e) reply = Inr parsed
        \<and> member_of parsed (str ''writingGuidelines'') = Some (JArr entries)
        \<and> openai_create e (openAiKey req)
            (ScriptPrompt (channelTitle meta) (topic req) (style_fields parsed) (take 6 entries))
            = Inr (Some script)
        \<and> trim script \<noteq> []
        \<and> res = \<lparr>status = 200,
                 resp_body = AnalysisBody
                   \<lparr>out_channelTitle = channelTitle meta,
                    styleSummary =
                      \<lparr>voiceTone = member_of parsed (str ''voiceTone''),
                       narrativeStructure = member_of parsed (str ''narrativeStructure''),
                       recurringDevices = member_of parsed (str ''recurringDevices''),
                       pacing = member_of parsed (str ''pacing''),
                       audienceEngagement = member_of parsed (str ''audienceEngagement'')\<rparr>,
                    writingGuidelines = take 6 entries,
                    generatedScript = trim script,
                    sampledTranscripts =
                      map (\<lambda>entry. \<lparr>out_videoId = sample_videoId entry,
                                     out_title = sample_title entry,
                                     excerpt = snippetExcerpt entry\<rparr>) samples\<rparr>\<rparr>
        \<and> length (take 6 entries) \<le> 6"
    unfolding style_fields_def by blast
next
  fix calls req ident meta samples reply parsed entries out
  assume h: "accepted e body req ident
        \<and> resolveChannelDetails (youtube e) (Some ident) (youtubeApiKey req) (videoCount req)
            = (calls, Inr (Some meta))
        \<and> fetchTranscripts (fetchTranscript e) (videos meta) = Inr samples
        \<and> samples \<noteq> []
        \<and> openai_create e (openAiKey req) (StylePrompt (channelTitle meta) samples)
            = Inr (Some reply)
        \<and> parseJsonObject (json_parse e) reply = Inr parsed
        \<and> member_of parsed (str ''writingGuidelines'') = Some (JArr entries)
        \<and> openai_create e (openAiKey req)
            (ScriptPrompt (channelTitle meta) (topic req) (style_fields parsed) (take 6 entries))
            = Inr out
        \<and> (out = None \<or> (\<exists>script. out = Some script \<and> trim script = []))"
  then have "\<not> truthy (map_option trim out)" by (auto simp: truthy_def)
  with h show failed: "synthesize e req (channelTitle meta) samples
          = Inl (Error (str ''Script generation failed.''))"
    using synthesize_empty_script[of e req "channelTitle meta" samples reply parsed entries out]
    by blast
  from h have acc: "accepted e body req ident"
    and resolved: "resolveChannelDetails (youtube e) (Some ident) (youtubeApiKey req)
        (videoCount req) = (calls, Inr (Some meta))"
    and samples: "fetchTranscripts (fetchTranscript e) (videos meta) = Inr samples"
        "samples \<noteq> []"
    by blast+
  have "pipeline e req ident = (calls, Inl (Error (str ''Script generation failed.'')))"
    using pipeline_resolved[OF resolved] samples failed by (simp add: bind_outcome_def)
  with POST_accepted[OF acc] show "POST e (Some body)
          = (calls, error_response 500 (str ''Failed to build script style.''))"
    using script_failure_class
    by (simp add: catch_response_eq error_message_def error_response_def)
qed

text \<open>
  The claim as it was stated fails where the model's object lacks a descriptor: a reply with
  only \<^verbatim>\<open>voiceTone\<close> and \<^verbatim>\<open>writingGuidelines\<close> is answered with status 200 and a style summary
  in which the other four descriptors are absent.
\<close>

theorem complete_payload_counterexample:
  "status (snd (POST sample_env
       (Some (sample_request (str ''https://www.youtube.com/@sample'') 5)))) = 200
   \<and> resp_body (snd (POST sample_env
       (Some (sample_request (str ''https://www.youtube.com/@sample'') 5))))
     = AnalysisBody
         \<lparr>out_channelTitle = str ''Sample Channel'',
          styleSummary = \<lparr>voiceTone = Some (JStr (str ''warm'')), narrativeStructure = None,
             recurringDevices = None, pacing = None, audienceEngagement = None\<rparr>,
          writingGuidelines = [JStr (str ''a''), JStr (str ''b''), JStr (str ''c''),
             JStr (str ''d''), JStr (str ''e''), JStr (str ''f'')],
          generatedScript = str ''Once upon a time.'',
          sampledTranscripts =
            [\<lparr>out_videoId = str ''v3'', out_title = str ''Third'',
              excerpt = str ''Hello world again''\<rparr>,
             \<lparr>out_videoId = str ''v4'', out_title = str ''Fourth'',
              excerpt = str ''Welcome back''\<rparr>]\<rparr>"
  by (simp add: sample_POST)

theorem complete_payload_on_success_witness:
  "status (snd (POST sample_env
       (Some (sample_request (str ''https://www.youtube.com/@sample'') 5)))) = 200
   \<and> (\<exists>req ident (meta::ResolvedChannel) samples reply parsed entries script.
         accepted sample_env (sample_request (str ''https://www.youtube.com/@sample'') 5) req ident
       \<and> fetchTranscripts (fetchTranscript sample_env) (videos meta) = Inr samples
       \<and> samples \<noteq> []
       \<and> parseJsonObject (json_parse sample_env) reply = Inr parsed
       \<and> member_of parsed (str ''writingGuidelines'') = Some (JArr entries)
       \<and> trim script \<noteq> []
       \<and> resp_body (snd (POST sample_env
            (Some (sample_request (str ''https://www.youtube.com/@sample'') 5))))
          = AnalysisBody
              \<lparr>out_channelTitle = channelTitle meta,
               styleSummary =
                 \<lparr>voiceTone = member_of parsed (str ''voiceTone''),
                  narrativeStructure = member_of parsed (str ''narrativeStructure''),
                  recurringDevices = member_of parsed (str ''recurringDevices''),
                  pacing = member_of parsed (str ''pacing''),
                  audienceEngagement = member_of parsed (str ''audienceEngagement'')\<rparr>,
               writingGuidelines = take 6 entries,
               generatedScript = trim script,
               sampledTranscripts =
                 map (\<lambda>entry. \<lparr>out_videoId = sample_videoId entry,
                                out_title = sample_title entry,
                                excerpt = snippetExcerpt entry\<rparr>) samples\<rparr>)
   \<and> synthesize blank_env (sample_data (str ''https://www.youtube.com/@sample'') 5)
        (str ''Sample Channel'') sample_samples
      = Inl (Error (str ''Script generation failed.''))
   \<and> snd (POST blank_env (Some (sample_request (str ''https://www.youtube.com/@sample'') 5)))
      = error_response 500 (str ''Failed to build script style.'')"
proof -
  let ?url = "str ''https://www.youtube.com/@sample''"
  let ?body = "sample_request ?url 5"
  let ?req = "sample_data ?url 5"
  let ?calls = "[SearchChannels (str ''sample'') (str ''AIza-sample-key''),
                 ChannelsById (str ''UC1'') (str ''AIza-sample-key''),
                 SearchVideos (str ''UC1'') 5 (str ''AIza-sample-key'')]"
  let ?meta = "\<lparr>channelId = str ''UC1'', channelTitle = str ''Sample Channel'',
                 videos = sample_videos\<rparr>"
  let ?seven = "[JStr (str ''a''), JStr (str ''b''), JStr (str ''c''), JStr (str ''d''),
                 JStr (str ''e''), JStr (str ''f''), JStr (str ''g'')]"
  let ?obj = "JObj [(str ''voiceTone'', JStr (str ''warm'')), (str ''writingGuidelines'', JArr ?seven)]"
  let ?reply = "str ''Here you go: '' @ sample_style_text @ str '' Enjoy!''"
  obtain res where res: "POST sample_env (Some ?body) = (?calls, res)" "status res = 200"
    using sample_POST by simp
  then have ok: "POST sample_env (Some ?body) = (?calls, res) \<and> status res = 200" by simp
  have c2: "\<exists>req ident (meta::ResolvedChannel) samples reply parsed entries script.
         accepted sample_env ?body req ident
       \<and> fetchTranscripts (fetchTranscript sample_env) (videos meta) = Inr samples
       \<and> samples \<noteq> []
       \<and> parseJsonObject (json_parse sample_env) reply = Inr parsed
       \<and> member_of parsed (str ''writingGuidelines'') = Some (JArr entries)
       \<and> trim script \<noteq> []
       \<and> resp_body (snd (POST sample_env (Some ?body)))
          = AnalysisBody
              \<lparr>out_channelTitle = channelTitle meta,
               styleSummary =
                 \<lparr>voiceTone = member_of parsed (str ''voiceTone''),
                  narrativeStructure = member_of parsed (str ''narrativeStructure''),
                  recurringDevices = member_of parsed (str ''recurringDevices''),
                  pacing = member_of parsed (str ''pacing''),
                  audienceEngagement = member_of parsed (str ''audienceEngagement'')\<rparr>,
               writingGuidelines = take 6 entries,
               generatedScript = trim script,
               sampledTranscripts =
                 map (\<lambda>entry. \<lparr>out_videoId = sample_videoId entry,
                                out_title = sample_title entry,
                                excerpt = snippetExcerpt entry\<rparr>) samples\<rparr>"
    using complete_payload_on_success[of sample_env ?body, THEN conjunct1, rule_format, OF ok]
  proof (elim exE conjE)
    fix req ident and meta :: ResolvedChannel and samples reply parsed entries script
    assume f: "accepted sample_env ?body req ident"
      "fetchTranscripts (fetchTranscript sample_env) (videos meta) = Inr samples"
      "samples \<noteq> []"
      "parseJsonObject (json_parse sample_env) reply = Inr parsed"
      "member_of parsed (str ''writingGuidelines'') = Some (JArr entries)"
      "trim script \<noteq> []"
      "res = \<lparr>status = 200, resp_body = AnalysisBody
              \<lparr>out_channelTitle = channelTitle meta,
               styleSummary =
                 \<lparr>voiceTone = member_of parsed (str ''voiceTone''),
                  narrativeStructure = member_of parsed (str ''narrativeStructure''),
                  recurringDevices = member_of parsed (str ''recurringDevices''),
                  pacing = member_of parsed (str ''pacing''),
                  audienceEngagement = member_of parsed (str ''audienceEngagement'')\<rparr>,
               writingGuidelines = take 6 entries,
               generatedScript = trim script,
               sampledTranscripts =
                 map (\<lambda>entry. \<lparr>out_videoId = sample_videoId entry,
                                out_title = sample_title entry,
                                excerpt = snippetExcerpt entry\<rparr>) samples\<rparr>\<rparr>"
    have body: "resp_body (snd (POST sample_env (Some ?body)))
          = AnalysisBody
              \<lparr>out_channelTitle = channelTitle meta,
               styleSummary =
                 \<lparr>voiceTone = member_of parsed (str ''voiceTone''),
                  narrativeStructure = member_of parsed (str ''narrativeStructure''),
                  recurringDevices = member_of parsed (str ''recurringDevices''),
                  pacing = member_of parsed (str ''pacing''),
                  audienceEngagement = member_of parsed (str ''audienceEngagement'')\<rparr>,
               writingGuidelines = take 6 entries,
               generatedScript = trim script,
               sampledTranscripts =
                 map (\<lambda>entry. \<lparr>out_videoId = sample_videoId entry,
                                out_title = sample_title entry,
                                excerpt = snippetExcerpt entry\<rparr>) samples\<rparr>"
      by (simp only: res(1) snd_conv f(7) response.simps)
    show ?thesis
      apply (rule exI[where x = req], rule exI[where x = ident], rule exI[where x = meta])
      apply (rule exI[where x = samples], rule exI[where x = reply], rule exI[where x = parsed])
      apply (rule exI[where x = entries], rule exI[where x = script])
      apply (intro conjI)
            apply (rule f(1) f(2) f(3) f(4) f(5) f(6) body)+
      done
  qed
  have c1: "status (snd (POST sample_env (Some ?body))) = 200"
    using res by simp
  have blank: "url_pathname blank_env = sample_pathname" "youtube blank_env = sample_youtube"
      "fetchTranscript blank_env = sample_fetchTranscript" "json_parse blank_env = sample_json_parse"
    by (simp_all add: blank_env_def sample_env_simps)
  have empty: "accepted blank_env ?body ?req (Handle (str ''@sample''))
        \<and> resolveChannelDetails (youtube blank_env) (Some (Handle (str ''@sample'')))
            (youtubeApiKey ?req) (videoCount ?req) = (?calls, Inr (Some ?meta))
        \<and> fetchTranscripts (fetchTranscript blank_env) (videos ?meta) = Inr sample_samples
        \<and> sample_samples \<noteq> []
        \<and> openai_create blank_env (openAiKey ?req) (StylePrompt (channelTitle ?meta) sample_samples)
            = Inr (Some ?reply)
        \<and> parseJsonObject (json_parse blank_env) ?reply = Inr ?obj
        \<and> member_of ?obj (str ''writingGuidelines'') = Some (JArr ?seven)
        \<and> openai_create blank_env (openAiKey ?req)
            (ScriptPrompt (channelTitle ?meta) (topic ?req) (style_fields ?obj) (take 6 ?seven))
            = Inr (Some (str ''   ''))
        \<and> (Some (str ''   '') = None
            \<or> (\<exists>script. Some (str ''   '') = Some script \<and> trim script = []))"
    using accepted_sample[of blank_env] sample_resolved_videos sample_transcripts sample_parse
    by (simp add: blank sample_data_simps)
       (simp add: blank_env_def sample_samples_def member_of_def trim_def isWhiteSpace_def str_def)
  note F = complete_payload_on_success[of blank_env ?body, THEN conjunct2, rule_format, OF empty]
  have c3: "synthesize blank_env ?req (str ''Sample Channel'') sample_samples
      = Inl (Error (str ''Script generation failed.''))"
    using F by simp
  have c4: "snd (POST blank_env (Some ?body))
      = error_response 500 (str ''Failed to build script style.'')"
    using F by simp
  show ?thesis
    by (intro conjI) (rule c1 c2 c3 c4)+
qed

end
